theory Spec2Isabelle
  imports Main "HOL-Library.Word" "HOL-Library.Monad_Syntax"
begin

unbundle bit_operations_syntax

section \<open>Firmware images and FMAP sections\<close>

text \<open>
  The embedding follows \<^verbatim>\<open>futility/updater.c\<close> and \<^verbatim>\<open>futility/updater.h\<close>.
  A C \<^verbatim>\<open>int\<close> that only carries a status or a count is an \<^typ>\<open>int\<close>; the
  \<^verbatim>\<open>int\<close> of a system property and every \<^verbatim>\<open>uint32_t\<close> structure field is a
  32-bit word, read signed with \<^const>\<open>sint\<close> where the code compares it with zero.
  A pointer into an image buffer is the offset of its target in the buffer, and a
  null pointer is \<^const>\<open>None\<close>. An access outside the buffer is undefined in C: the
  functions that touch memory return an option, and \<^const>\<open>None\<close> is that fault.
\<close>

type_synonym byte = "8 word"
type_synonym cint = "32 word"

text \<open>\<^verbatim>\<open>FmapAreaHeader\<close> of fmap.h, with the fields the updater reads.\<close>

record fmap_area =
  area_offset :: nat
  area_size :: nat
  area_name :: string

text \<open>
  \<^verbatim>\<open>struct firmware_image\<close>. The field \<^verbatim>\<open>size\<close> is the length of the buffer, and
  \<^verbatim>\<open>fmap_header\<close> is the FMAP found in the buffer, as the list of its areas.
\<close>

record firmware_image =
  programmer :: string
  data :: "byte list option"
  file_name :: string
  ro_version :: string
  rw_version_a :: string
  rw_version_b :: string
  fmap_header :: "fmap_area list option"

record firmware_section =
  section_data :: "nat option"
  section_size :: nat

definition image_bytes :: "firmware_image \<Rightarrow> byte list" where
  "image_bytes img = (case data img of None \<Rightarrow> [] | Some d \<Rightarrow> d)"

definition image_size :: "firmware_image \<Rightarrow> nat" where
  "image_size img = length (image_bytes img)"

definition FMAP_RO_FRID :: string where "FMAP_RO_FRID = ''RO_FRID''"
definition FMAP_RO_SECTION :: string where "FMAP_RO_SECTION = ''RO_SECTION''"
definition FMAP_RO_GBB :: string where "FMAP_RO_GBB = ''GBB''"
definition FMAP_RO_PRESERVE :: string where "FMAP_RO_PRESERVE = ''RO_PRESERVE''"
definition FMAP_RO_VPD :: string where "FMAP_RO_VPD = ''RO_VPD''"
definition FMAP_RW_VPD :: string where "FMAP_RW_VPD = ''RW_VPD''"
definition FMAP_RW_VBLOCK_A :: string where "FMAP_RW_VBLOCK_A = ''VBLOCK_A''"
definition FMAP_RW_SECTION_A :: string where "FMAP_RW_SECTION_A = ''RW_SECTION_A''"
definition FMAP_RW_SECTION_B :: string where "FMAP_RW_SECTION_B = ''RW_SECTION_B''"
definition FMAP_RW_FWID :: string where "FMAP_RW_FWID = ''RW_FWID''"
definition FMAP_RW_FWID_A :: string where "FMAP_RW_FWID_A = ''RW_FWID_A''"
definition FMAP_RW_FWID_B :: string where "FMAP_RW_FWID_B = ''RW_FWID_B''"
definition FMAP_RW_SHARED :: string where "FMAP_RW_SHARED = ''RW_SHARED''"
definition FMAP_RW_NVRAM :: string where "FMAP_RW_NVRAM = ''RW_NVRAM''"
definition FMAP_RW_ELOG :: string where "FMAP_RW_ELOG = ''RW_ELOG''"
definition FMAP_RW_PRESERVE :: string where "FMAP_RW_PRESERVE = ''RW_PRESERVE''"
definition FMAP_RW_LEGACY :: string where "FMAP_RW_LEGACY = ''RW_LEGACY''"
definition FMAP_RW_SMMSTORE :: string where "FMAP_RW_SMMSTORE = ''SMMSTORE''"
definition FMAP_SI_DESC :: string where "FMAP_SI_DESC = ''SI_DESC''"
definition FMAP_SI_ME :: string where "FMAP_SI_ME = ''SI_ME''"

text \<open>
  Modelled from the spec: \<^verbatim>\<open>fmap_find_by_name\<close> of the FMAP parser (fmap.c is not
  among the sources). It looks a section up by name and returns its area, the first
  one of that name; the section is then the range of the buffer at the area's offset.
\<close>

fun fmap_find_by_name :: "fmap_area list \<Rightarrow> string \<Rightarrow> fmap_area option" where
  "fmap_find_by_name [] name = None"
| "fmap_find_by_name (ah # rest) name =
     (if area_name ah = name then Some ah else fmap_find_by_name rest name)"

definition no_section :: firmware_section where
  "no_section = \<lparr>section_data = None, section_size = 0\<rparr>"

definition find_firmware_section :: "firmware_image \<Rightarrow> string \<Rightarrow> int \<times> firmware_section" where
  "find_firmware_section img section_name =
     (case data img of
        None \<Rightarrow> (- 1, no_section)
      | Some d \<Rightarrow>
          (case fmap_header img of
             None \<Rightarrow> (- 1, no_section)
           | Some areas \<Rightarrow>
               (case fmap_find_by_name areas section_name of
                  None \<Rightarrow> (- 1, no_section)
                | Some fah \<Rightarrow>
                    (0, \<lparr>section_data = Some (area_offset fah),
                        section_size = area_size fah\<rparr>))))"

definition firmware_section_exists :: "firmware_image \<Rightarrow> string \<Rightarrow> bool" where
  "firmware_section_exists img section_name =
     (section_data (snd (find_firmware_section img section_name)) \<noteq> None)"

subsection \<open>Memory accesses\<close>

definition mem_read :: "byte list \<Rightarrow> nat \<Rightarrow> nat \<Rightarrow> byte list option" where
  "mem_read d off n = (if off + n \<le> length d then Some (take n (drop off d)) else None)"

definition mem_write :: "byte list \<Rightarrow> nat \<Rightarrow> byte list \<Rightarrow> byte list option" where
  "mem_write d off bs =
     (if off + length bs \<le> length d
      then Some (take off d @ bs @ drop (off + length bs) d) else None)"

text \<open>A section lies in its image when its range is inside the buffer.\<close>

definition section_in_image :: "firmware_image \<Rightarrow> string \<Rightarrow> bool" where
  "section_in_image img section_name =
     (let s = snd (find_firmware_section img section_name)
      in case section_data s of
           None \<Rightarrow> False
         | Some p \<Rightarrow> p + section_size s \<le> image_size img)"

subsection \<open>Preserving a section\<close>

text \<open>
  \<^verbatim>\<open>preserve_firmware_section\<close>: the \<^verbatim>\<open>memmove\<close> of
  \<^verbatim>\<open>Min(from.size, to.size)\<close> bytes; the warning about a larger source is only
  printed. The result is the status and the destination image.
\<close>

definition preserve_firmware_section ::
  "firmware_image \<Rightarrow> firmware_image \<Rightarrow> string \<Rightarrow> (int \<times> firmware_image) option" where
  "preserve_firmware_section image_from image_to section_name =
     (let from = snd (find_firmware_section image_from section_name);
          to = snd (find_firmware_section image_to section_name)
      in case section_data from of
           None \<Rightarrow> Some (- 1, image_to)
         | Some from_p \<Rightarrow>
             (case section_data to of
                None \<Rightarrow> Some (- 1, image_to)
              | Some to_p \<Rightarrow>
                  do {
                    moved \<leftarrow> mem_read (image_bytes image_from) from_p
                               (min (section_size from) (section_size to));
                    d' \<leftarrow> mem_write (image_bytes image_to) to_p moved;
                    Some (0, image_to\<lparr>data := Some d'\<rparr>)
                  }))"

section \<open>The vboot library the updater links with\<close>

text \<open>
  The structure declarations of \<^verbatim>\<open>vb2_struct.h\<close> and the library functions the
  updater calls on GBB headers, packed keys and keyblocks are not among the sources.
  They are parameters of the model: the offsets of the structure fields the updater
  reads (\<^verbatim>\<open>offsetof\<close>) and the two structure sizes (\<^verbatim>\<open>sizeof\<close>), and the
  library functions as functions of the buffer and the pointer they are given.
\<close>

record vboot =
  gbb_flags_at :: nat
  gbb_hwid_offset_at :: nat
  gbb_hwid_size_at :: nat
  gbb_rootkey_offset_at :: nat
  gbb_rootkey_size_at :: nat
  keyblock_sizeof :: nat
  fw_preamble_sizeof :: nat
  kb_keyblock_size_at :: nat
  kb_sig_size_at :: nat
  kb_key_version_at :: nat
  pre_firmware_version_at :: nat
  futil_valid_gbb_header :: "byte list \<Rightarrow> nat option \<Rightarrow> nat \<Rightarrow> bool"
  packed_key_looks_ok :: "byte list \<Rightarrow> nat \<Rightarrow> nat \<Rightarrow> bool"
  vb2_unpack_key :: "byte list \<Rightarrow> nat \<Rightarrow> bool"
  vb2_verify_keyblock :: "byte list \<Rightarrow> byte list \<Rightarrow> nat \<Rightarrow> bool"
  fmap_find :: "byte list \<Rightarrow> fmap_area list option"

text \<open>A \<^verbatim>\<open>uint32_t\<close> field is read from four bytes, least significant first.\<close>

fun le_nat :: "byte list \<Rightarrow> nat" where
  "le_nat [] = 0"
| "le_nat (b # bs) = unat b + 256 * le_nat bs"

definition read_u32 :: "byte list \<Rightarrow> nat \<Rightarrow> 32 word option" where
  "read_u32 d p = map_option (\<lambda>bs. word_of_nat (le_nat bs)) (mem_read d p 4)"

text \<open>\<^verbatim>\<open>strlen\<close> at a pointer: the bytes before the first NUL, inside the buffer.\<close>

definition strlen :: "byte list \<Rightarrow> nat \<Rightarrow> nat option" where
  "strlen d p =
     (let rest = drop p d; s = takeWhile (\<lambda>b. b \<noteq> 0) rest
      in if length s < length rest then Some (length s) else None)"

subsection \<open>The GBB\<close>

definition find_gbb :: "vboot \<Rightarrow> firmware_image \<Rightarrow> nat option" where
  "find_gbb V img =
     (let section = snd (find_firmware_section img FMAP_RO_GBB);
          gbb_header = section_data section
      in if \<not> futil_valid_gbb_header V (image_bytes img) gbb_header (section_size section)
         then None else gbb_header)"

text \<open>
  \<^verbatim>\<open>preserve_gbb\<close>. The flags are assigned before the HWID is measured. The
  \<^verbatim>\<open>int len\<close> is compared with the unsigned \<^verbatim>\<open>hwid_size\<close> as an unsigned value
  and is converted to \<^verbatim>\<open>size_t\<close> for \<^verbatim>\<open>memcpy\<close>.
\<close>

definition preserve_gbb ::
  "vboot \<Rightarrow> firmware_image \<Rightarrow> firmware_image \<Rightarrow> (int \<times> firmware_image) option" where
  "preserve_gbb V image_from image_to =
     (case find_gbb V image_from of
        None \<Rightarrow> Some (- 1, image_to)
      | Some gbb_from \<Rightarrow>
          (case find_gbb V image_to of
             None \<Rightarrow> Some (- 1, image_to)
           | Some gbb_to \<Rightarrow>
               do {
                 flags \<leftarrow> mem_read (image_bytes image_from) (gbb_from + gbb_flags_at V) 4;
                 d1 \<leftarrow> mem_write (image_bytes image_to) (gbb_to + gbb_flags_at V) flags;
                 to_offset \<leftarrow> read_u32 d1 (gbb_to + gbb_hwid_offset_at V);
                 from_offset \<leftarrow> read_u32 (image_bytes image_from)
                                  (gbb_from + gbb_hwid_offset_at V);
                 let hwid_to = gbb_to + unat to_offset;
                 let hwid_from = gbb_from + unat from_offset;
                 n \<leftarrow> strlen (image_bytes image_from) hwid_from;
                 let len = (word_of_nat n :: 32 word);
                 hwid_size \<leftarrow> read_u32 d1 (gbb_to + gbb_hwid_size_at V);
                 if len \<ge> hwid_size then Some (- 1, image_to\<lparr>data := Some d1\<rparr>)
                 else do {
                   d2 \<leftarrow> mem_write d1 hwid_to (replicate (unat hwid_size) 0);
                   hwid \<leftarrow> mem_read (image_bytes image_from) hwid_from
                              (nat (sint len mod 2 ^ 64));
                   d3 \<leftarrow> mem_write d2 hwid_to hwid;
                   Some (0, image_to\<lparr>data := Some d3\<rparr>)
                 }
               }))"

subsection \<open>Root key, keyblock and key versions\<close>

definition get_rootkey :: "vboot \<Rightarrow> byte list \<Rightarrow> nat \<Rightarrow> nat option option" where
  "get_rootkey V d gbb =
     do {
       rootkey_offset \<leftarrow> read_u32 d (gbb + gbb_rootkey_offset_at V);
       rootkey_size \<leftarrow> read_u32 d (gbb + gbb_rootkey_size_at V);
       let key = gbb + unat rootkey_offset;
       Some (if \<not> packed_key_looks_ok V d key (unat rootkey_size) then None else Some key)
     }"

definition get_keyblock :: "vboot \<Rightarrow> firmware_image \<Rightarrow> string \<Rightarrow> nat option" where
  "get_keyblock V img section_name =
     (let section = snd (find_firmware_section img section_name)
      in if section_size section < keyblock_sizeof V + fw_preamble_sizeof V
         then None else section_data section)"

text \<open>
  \<^verbatim>\<open>verify_keyblock\<close>, with \<^verbatim>\<open>dupe_keyblock\<close> as the read of
  \<^verbatim>\<open>keyblock_size\<close> bytes at the block. The key lives in the buffer \<open>dk\<close>.
\<close>

definition verify_keyblock ::
  "vboot \<Rightarrow> byte list \<Rightarrow> nat \<Rightarrow> byte list \<Rightarrow> nat \<Rightarrow> int option" where
  "verify_keyblock V d block dk sign_key =
     do {
       sig_size \<leftarrow> read_u32 d (block + kb_sig_size_at V);
       if sig_size = 0 then Some (- 1)
       else if \<not> vb2_unpack_key V dk sign_key then Some (- 1)
       else do {
         keyblock_size \<leftarrow> read_u32 d (block + kb_keyblock_size_at V);
         new_block \<leftarrow> mem_read d block (unat keyblock_size);
         Some (if \<not> vb2_verify_keyblock V new_block dk sign_key then - 1 else 0)
       }
     }"

text \<open>
  \<^verbatim>\<open>get_key_versions\<close>. The two output arguments are passed in and returned: they
  keep their values when the function fails.
\<close>

definition get_key_versions ::
  "vboot \<Rightarrow> firmware_image \<Rightarrow> string \<Rightarrow> 32 word \<times> 32 word
    \<Rightarrow> (int \<times> 32 word \<times> 32 word) option" where
  "get_key_versions V img section_name versions =
     (case get_keyblock V img section_name of
        None \<Rightarrow> Some (- 1, versions)
      | Some keyblock \<Rightarrow>
          do {
            data_key_version \<leftarrow> read_u32 (image_bytes img) (keyblock + kb_key_version_at V);
            keyblock_size \<leftarrow> read_u32 (image_bytes img) (keyblock + kb_keyblock_size_at V);
            let pre = keyblock + unat keyblock_size;
            firmware_version \<leftarrow> read_u32 (image_bytes img) (pre + pre_firmware_version_at V);
            Some (0, data_key_version, firmware_version)
          })"

text \<open>
  \<^verbatim>\<open>check_compatible_root_key\<close>. When the verification fails the code also prints
  the fingerprints of the two root keys; the status is \<open>-1\<close> whatever it prints.
\<close>

definition check_compatible_root_key ::
  "vboot \<Rightarrow> firmware_image \<Rightarrow> firmware_image \<Rightarrow> int option" where
  "check_compatible_root_key V ro_image rw_image =
     (case find_gbb V ro_image of
        None \<Rightarrow> Some (- 1)
      | Some gbb \<Rightarrow>
          do {
            rootkey \<leftarrow> get_rootkey V (image_bytes ro_image) gbb;
            case rootkey of
              None \<Rightarrow> Some (- 1)
            | Some key \<Rightarrow>
                (case get_keyblock V rw_image FMAP_RW_VBLOCK_A of
                   None \<Rightarrow> Some (- 1)
                 | Some keyblock \<Rightarrow>
                     do {
                       r \<leftarrow> verify_keyblock V (image_bytes rw_image) keyblock
                              (image_bytes ro_image) key;
                       Some (if r \<noteq> 0 then - 1 else 0)
                     })
          })"

subsection \<open>Comparing sections\<close>

fun memcmp :: "byte list \<Rightarrow> byte list \<Rightarrow> int" where
  "memcmp (a # as) (b # bs) = (if a = b then memcmp as bs else int (unat a) - int (unat b))"
| "memcmp _ _ = 0"

text \<open>
  \<^verbatim>\<open>compare_section\<close>: a section is its pointer and size in the buffer \<open>da\<close> or
  \<open>db\<close>. A missing section has size 0 and a null pointer; \<^verbatim>\<open>memcmp\<close> over no
  bytes reads nothing. When the sizes differ the function returns their difference, a
  \<^verbatim>\<open>size_t\<close> converted to \<^verbatim>\<open>int\<close>: its low 32 bits, read signed.
\<close>

definition section_bytes :: "byte list \<Rightarrow> firmware_section \<Rightarrow> byte list option" where
  "section_bytes d s =
     (case section_data s of
        None \<Rightarrow> (if section_size s = 0 then Some [] else None)
      | Some p \<Rightarrow> mem_read d p (section_size s))"

definition compare_section ::
  "byte list \<Rightarrow> firmware_section \<Rightarrow> byte list \<Rightarrow> firmware_section \<Rightarrow> int option" where
  "compare_section da a db b =
     (if section_size a \<noteq> section_size b
      then Some (sint (word_of_int (int (section_size a) - int (section_size b)) :: 32 word))
      else do {
        xs \<leftarrow> section_bytes da a;
        ys \<leftarrow> section_bytes db b;
        Some (memcmp xs ys)
      })"

definition section_needs_update ::
  "firmware_image \<Rightarrow> firmware_image \<Rightarrow> string option \<Rightarrow> int option" where
  "section_needs_update image_from image_to section_name =
     (case section_name of
        None \<Rightarrow>
          (if image_size image_from \<noteq> image_size image_to then Some (- 1)
           else Some (memcmp (image_bytes image_from) (image_bytes image_to)))
      | Some name \<Rightarrow>
          compare_section
            (image_bytes image_from) (snd (find_firmware_section image_from name))
            (image_bytes image_to) (snd (find_firmware_section image_to name)))"

text \<open>\<^verbatim>\<open>section_is_filled_with\<close>: the loop stops at the first other byte.\<close>

fun filled_loop :: "byte list \<Rightarrow> nat \<Rightarrow> nat \<Rightarrow> byte \<Rightarrow> bool option" where
  "filled_loop d p 0 c = Some True"
| "filled_loop d p (Suc n) c =
     (if p < length d then (if d ! p \<noteq> c then Some False else filled_loop d (Suc p) n c)
      else None)"

definition section_is_filled_with :: "byte list \<Rightarrow> firmware_section \<Rightarrow> byte \<Rightarrow> bool option" where
  "section_is_filled_with d section c =
     (if section_size section = 0 then Some False
      else case section_data section of
             None \<Rightarrow> None
           | Some p \<Rightarrow> filled_loop d p (section_size section) c)"

section \<open>The host system\<close>

text \<open>
  Everything outside the process: the commands it runs, the files it writes, the
  system properties it sets. Each command the updater issues is appended to
  \<open>events\<close> with the status it returned. The host answers a command as a function
  of the commands issued before it (\<open>status\<close>), so that it may answer the same command
  differently each time. \<open>temp_name\<close> is the path \<^verbatim>\<open>mkstemp\<close> gives (or none),
  \<open>flash_dump\<close> what \<^verbatim>\<open>flashrom -r\<close> reads from a programmer, and \<open>cbfstool\<close> the
  exit status of \<^verbatim>\<open>cbfstool FILE print -r SECTION | grep -q '^ENTRY '\<close> on the
  contents of a file. \<open>debugging_enabled\<close> is the global of that name.
\<close>

datatype flashrom_ops = FLASHROM_READ | FLASHROM_WRITE | FLASHROM_WP_STATUS

datatype event =
    Mkstemp
  | Write_file string "byte list"
  | Flashrom flashrom_ops string string "string option"
  | Cbfstool string string string
  | Set_property_string string string
  | Set_property_int string int

record host =
  events :: "(event \<times> int) list"
  files :: "string \<Rightarrow> byte list option"
  status :: "(event \<times> int) list \<Rightarrow> event \<Rightarrow> int"
  temp_name :: "(event \<times> int) list \<Rightarrow> string option"
  flash_dump :: "(event \<times> int) list \<Rightarrow> string \<Rightarrow> byte list"
  cbfstool :: "byte list option \<Rightarrow> string \<Rightarrow> string \<Rightarrow> int"
  debugging_enabled :: int

definition perform :: "event \<Rightarrow> host \<Rightarrow> int \<times> host" where
  "perform e h = (let r = status h (events h) e in (r, h\<lparr>events := events h @ [(e, r)]\<rparr>))"

definition vb2_write_file :: "string \<Rightarrow> byte list \<Rightarrow> host \<Rightarrow> int \<times> host" where
  "vb2_write_file path bytes h =
     (let (r, h') = perform (Write_file path bytes) h
      in (r, if r = 0 then h'\<lparr>files := (files h')(path \<mapsto> bytes)\<rparr> else h'))"

text \<open>
  \<^verbatim>\<open>host_flashrom\<close> for reading and writing (the third operation is only run by the
  getter of the software write protection). An empty section name is no section.
\<close>

definition host_flashrom ::
  "flashrom_ops \<Rightarrow> string \<Rightarrow> string \<Rightarrow> int \<Rightarrow> string option \<Rightarrow> host \<Rightarrow> int \<times> host" where
  "host_flashrom op image_path prog verbose section_name h =
     (let section = (case section_name of None \<Rightarrow> None
                     | Some n \<Rightarrow> if n = [] then None else Some n);
          (r, h') = perform (Flashrom op image_path prog section) h
      in (r, if op = FLASHROM_READ \<and> r = 0
             then h'\<lparr>files := (files h')(image_path \<mapsto> flash_dump h (events h) prog)\<rparr>
             else h'))"

definition cbfs_file_exists :: "string \<Rightarrow> string \<Rightarrow> string \<Rightarrow> host \<Rightarrow> int \<times> host" where
  "cbfs_file_exists image_file section_name cbfs_entry_name h =
     (let r = cbfstool h (files h image_file) section_name cbfs_entry_name
      in (if r = 0 then 1 else 0,
          h\<lparr>events := events h @ [(Cbfstool image_file section_name cbfs_entry_name, r)]\<rparr>))"

section \<open>The updater configuration\<close>

datatype system_property_type =
    SYS_PROP_MAINFW_ACT
  | SYS_PROP_TPM_FWVER
  | SYS_PROP_FW_VBOOT2
  | SYS_PROP_PLATFORM_VER
  | SYS_PROP_WP_HW
  | SYS_PROP_WP_SW

text \<open>
  \<^verbatim>\<open>struct system_property\<close>. The getter is a function pointer with no argument: it
  reads the host, and is free to change it.
\<close>

record system_property =
  getter :: "host \<Rightarrow> cint \<times> host"
  prop_value :: cint
  initialized :: int

datatype quirk_types =
    QUIRK_ENLARGE_IMAGE
  | QUIRK_MIN_PLATFORM_VERSION
  | QUIRK_UNLOCK_ME_FOR_UPDATE
  | QUIRK_DAISY_SNOW_DUAL_MODEL
  | QUIRK_EVE_SMM_STORE

record quirk_entry =
  quirk_name :: string
  quirk_help :: string
  quirk_value :: int

text \<open>
  \<^verbatim>\<open>struct updater_config\<close>. The field \<^verbatim>\<open>image\<close> is \<open>cfg_image\<close>. The archive is
  left out (every load the update itself makes passes no archive), and the function
  pointer \<^verbatim>\<open>apply\<close> of a quirk, which takes the configuration, is kept in a table
  beside the configuration.
\<close>

record updater_config =
  cfg_image :: firmware_image
  image_current :: firmware_image
  ec_image :: firmware_image
  pd_image :: firmware_image
  system_properties :: "system_property_type \<Rightarrow> system_property"
  quirks :: "quirk_types \<Rightarrow> quirk_entry"
  tempfiles :: "string list"
  try_update :: int
  force_update :: int
  legacy_update :: int
  verbosity :: int
  emulation :: "string option"

type_synonym quirk_table =
  "quirk_types \<Rightarrow> (updater_config \<Rightarrow> host \<Rightarrow> (int \<times> updater_config \<times> host) option) option"

datatype updater_error_codes =
    UPDATE_ERR_DONE
  | UPDATE_ERR_NEED_RO_UPDATE
  | UPDATE_ERR_NO_IMAGE
  | UPDATE_ERR_SYSTEM_IMAGE
  | UPDATE_ERR_INVALID_IMAGE
  | UPDATE_ERR_SET_COOKIES
  | UPDATE_ERR_WRITE_FIRMWARE
  | UPDATE_ERR_PLATFORM
  | UPDATE_ERR_TARGET
  | UPDATE_ERR_ROOT_KEY
  | UPDATE_ERR_TPM_ROLLBACK
  | UPDATE_ERR_UNKNOWN

datatype target_type = TARGET_SELF | TARGET_UPDATE

definition WP_DISABLED :: cint where "WP_DISABLED = 0"
definition WP_ENABLED :: cint where "WP_ENABLED = 1"
definition SLOT_UNKNOWN :: cint where "SLOT_UNKNOWN = - 1"
definition SLOT_A :: cint where "SLOT_A = 0"
definition SLOT_B :: cint where "SLOT_B = 1"
definition FWACT_A :: string where "FWACT_A = ''A''"
definition FWACT_B :: string where "FWACT_B = ''B''"

subsection \<open>Temporary files\<close>

definition updater_create_temp_file ::
  "updater_config \<Rightarrow> host \<Rightarrow> string option \<times> updater_config \<times> host" where
  "updater_create_temp_file cfg h =
     (case temp_name h (events h) of
        None \<Rightarrow> (None, cfg, h\<lparr>events := events h @ [(Mkstemp, - 1)]\<rparr>)
      | Some new_path \<Rightarrow>
          (Some new_path, cfg\<lparr>tempfiles := new_path # tempfiles cfg\<rparr>,
           h\<lparr>events := events h @ [(Mkstemp, 0)],
             files := (files h)(new_path \<mapsto> [])\<rparr>))"

subsection \<open>System properties\<close>

definition get_system_property ::
  "system_property_type \<Rightarrow> updater_config \<Rightarrow> host \<Rightarrow> cint \<times> updater_config \<times> host" where
  "get_system_property property_type cfg h =
     (let prop = system_properties cfg property_type
      in if initialized prop = 0
         then (let (v, h') = getter prop h;
                   prop' = prop\<lparr>initialized := 1, prop_value := v\<rparr>
               in (v, cfg\<lparr>system_properties := (system_properties cfg)(property_type := prop')\<rparr>,
                   h'))
         else (prop_value prop, cfg, h))"

definition override_system_property ::
  "system_property_type \<Rightarrow> updater_config \<Rightarrow> cint \<Rightarrow> updater_config" where
  "override_system_property property_type cfg v =
     cfg\<lparr>system_properties := (system_properties cfg)
            (property_type := (system_properties cfg property_type)
               \<lparr>initialized := 1, prop_value := v\<rparr>)\<rparr>"

definition all_properties :: "system_property_type list" where
  "all_properties = [SYS_PROP_MAINFW_ACT, SYS_PROP_TPM_FWVER, SYS_PROP_FW_VBOOT2,
                     SYS_PROP_PLATFORM_VER, SYS_PROP_WP_HW, SYS_PROP_WP_SW]"

fun scan_properties ::
  "system_property_type list \<Rightarrow> updater_config \<Rightarrow> host \<Rightarrow> updater_config \<times> host" where
  "scan_properties [] cfg h = (cfg, h)"
| "scan_properties (p # ps) cfg h =
     (let (v, cfg', h') = get_system_property p cfg h in scan_properties ps cfg' h')"

definition print_system_properties :: "updater_config \<Rightarrow> host \<Rightarrow> updater_config \<times> host" where
  "print_system_properties cfg h =
     (let (cfg1, h1) = scan_properties all_properties cfg h
      in scan_properties all_properties cfg1 h1)"

definition is_write_protection_enabled ::
  "updater_config \<Rightarrow> host \<Rightarrow> cint \<times> updater_config \<times> host" where
  "is_write_protection_enabled cfg h =
     (let (wp, cfg1, h1) = get_system_property SYS_PROP_WP_HW cfg h
      in if wp = WP_DISABLED then (wp, cfg1, h1)
         else (let (wp', cfg2, h2) = get_system_property SYS_PROP_WP_SW cfg1 h1
               in if wp' \<noteq> WP_DISABLED then (WP_ENABLED, cfg2, h2) else (wp', cfg2, h2)))"

subsection \<open>Quirks\<close>

definition try_apply_quirk ::
  "quirk_table \<Rightarrow> quirk_types \<Rightarrow> updater_config \<Rightarrow> host
    \<Rightarrow> (int \<times> updater_config \<times> host) option" where
  "try_apply_quirk Q quirk cfg h =
     (if quirk_value (quirks cfg quirk) = 0 then Some (0, cfg, h)
      else case Q quirk of
             None \<Rightarrow> Some (- 1, cfg, h)
           | Some apply \<Rightarrow> apply cfg h)"

section \<open>Loading images\<close>

definition byte_char :: "byte \<Rightarrow> char" where
  "byte_char b = char_of (unat b)"

text \<open>\<^verbatim>\<open>strndup\<close> at a pointer: at most \<open>n\<close> bytes, up to the first NUL.\<close>

definition strndup :: "byte list \<Rightarrow> nat \<Rightarrow> nat \<Rightarrow> string option" where
  "strndup d p n =
     (let avail = take n (drop p d); s = takeWhile (\<lambda>b. b \<noteq> 0) avail
      in if length s < length avail \<or> length avail = n then Some (map byte_char s) else None)"

definition load_firmware_version ::
  "firmware_image \<Rightarrow> string \<Rightarrow> (int \<times> string) option" where
  "load_firmware_version img section_name =
     (let fwid = snd (find_firmware_section img section_name)
      in if section_size fwid \<noteq> 0
         then (case section_data fwid of
                 None \<Rightarrow> None
               | Some p \<Rightarrow> map_option (\<lambda>v. (0, v)) (strndup (image_bytes img) p (section_size fwid)))
         else Some (- 1, []))"

text \<open>
  \<^verbatim>\<open>load_firmware_image\<close> with no archive: the file is read from the host's files.
\<close>

definition load_firmware_image ::
  "vboot \<Rightarrow> firmware_image \<Rightarrow> string \<Rightarrow> host \<Rightarrow> (int \<times> firmware_image) option" where
  "load_firmware_image V img fname h =
     (case files h fname of
        None \<Rightarrow> Some (- 1, img)
      | Some bytes \<Rightarrow>
          (let img1 = img\<lparr>data := Some bytes, file_name := fname,
                          fmap_header := fmap_find V bytes\<rparr>
           in if fmap_header img1 = None then Some (- 1, img1)
              else if \<not> firmware_section_exists img1 FMAP_RO_FRID then Some (- 1, img1)
              else do {
                (r, ro) \<leftarrow> load_firmware_version img1 FMAP_RO_FRID;
                let img2 = img1\<lparr>ro_version := ro\<rparr>;
                if firmware_section_exists img2 FMAP_RW_FWID_A then do {
                  (ra, a) \<leftarrow> load_firmware_version img2 FMAP_RW_FWID_A;
                  (rb, b) \<leftarrow> load_firmware_version img2 FMAP_RW_FWID_B;
                  Some (0, img2\<lparr>rw_version_a := a, rw_version_b := b\<rparr>)
                } else if firmware_section_exists img2 FMAP_RW_FWID then do {
                  (ra, a) \<leftarrow> load_firmware_version img2 FMAP_RW_FWID;
                  (rb, b) \<leftarrow> load_firmware_version img2 FMAP_RW_FWID;
                  Some (0, img2\<lparr>rw_version_a := a, rw_version_b := b\<rparr>)
                } else Some (0, img2)
              }))"

text \<open>
  \<^verbatim>\<open>load_system_firmware\<close>; the image is \<^verbatim>\<open>&cfg->image_current\<close> at its only
  call, so the loaded image is stored there.
\<close>

definition load_system_firmware ::
  "vboot \<Rightarrow> updater_config \<Rightarrow> host \<Rightarrow> (int \<times> updater_config \<times> host) option" where
  "load_system_firmware V cfg h =
     (let (tmp_file, cfg1, h1) = updater_create_temp_file cfg h
      in case tmp_file of
           None \<Rightarrow> Some (- 1, cfg1, h1)
         | Some tmp \<Rightarrow>
             (let (r, h2) = host_flashrom FLASHROM_READ tmp (programmer (image_current cfg1))
                              (verbosity cfg1) None h1
              in if r \<noteq> 0 then Some (r, cfg1, h2)
                 else do {
                   (r', img) \<leftarrow> load_firmware_image V (image_current cfg1) tmp h2;
                   Some (r', cfg1\<lparr>image_current := img\<rparr>, h2)
                 }))"

definition empty_image :: firmware_image where
  "empty_image = \<lparr>programmer = [], data = None, file_name = [], ro_version = [],
                  rw_version_a = [], rw_version_b = [], fmap_header = None\<rparr>"

section \<open>Writing firmware\<close>

definition whole_image :: "firmware_image \<Rightarrow> firmware_section" where
  "whole_image img =
     \<lparr>section_data = (case data img of None \<Rightarrow> None | Some d \<Rightarrow> Some 0),
      section_size = image_size img\<rparr>"

text \<open>
  \<^verbatim>\<open>emulate_write_firmware\<close>. When an error was counted nothing is copied and nothing
  is written, and the count is returned.
\<close>

definition emulate_write_firmware ::
  "vboot \<Rightarrow> string \<Rightarrow> firmware_image \<Rightarrow> string option \<Rightarrow> host \<Rightarrow> (int \<times> host) option" where
  "emulate_write_firmware V filename img section_name h =
     do {
       (r, to_image) \<leftarrow> load_firmware_image V empty_image filename h;
       if r \<noteq> 0 then Some (- 1, h)
       else do {
         let (errorcnt, from, to) =
           (case section_name of
              Some name \<Rightarrow>
                (let from = snd (find_firmware_section img name);
                     to = snd (find_firmware_section to_image name)
                 in ((if section_data from = None then 1 else 0)
                      + (if section_data to = None then 1 else 0), from, to))
            | None \<Rightarrow>
                (if image_size img \<noteq> image_size to_image
                 then (1 :: int, whole_image img, no_section)
                 else (0, whole_image img, whole_image to_image)));
         if errorcnt \<noteq> 0 then Some (errorcnt, h)
         else (case (section_data from, section_data to) of
                 (Some from_p, Some to_p) \<Rightarrow>
                   do {
                     bytes \<leftarrow> mem_read (image_bytes img) from_p
                                (min (section_size to) (section_size from));
                     d' \<leftarrow> mem_write (image_bytes to_image) to_p bytes;
                     let (w, h') = vb2_write_file filename d' h;
                     Some (if w \<noteq> 0 then 1 else 0, h')
                   }
               | _ \<Rightarrow> None)
       }
     }"

definition write_firmware ::
  "vboot \<Rightarrow> updater_config \<Rightarrow> firmware_image \<Rightarrow> string option \<Rightarrow> host
    \<Rightarrow> (int \<times> updater_config \<times> host) option" where
  "write_firmware V cfg img section_name h =
     (let (tmp_file, cfg1, h1) = updater_create_temp_file cfg h
      in case tmp_file of
           None \<Rightarrow> Some (- 1, cfg1, h1)
         | Some tmp \<Rightarrow>
             (case emulation cfg1 of
                Some emu \<Rightarrow>
                  map_option (\<lambda>(r, h'). (r, cfg1, h'))
                    (emulate_write_firmware V emu img section_name h1)
              | None \<Rightarrow>
                  (let (w, h2) = vb2_write_file tmp (image_bytes img) h1
                   in if w \<noteq> 0 then Some (- 1, cfg1, h2)
                      else (let (r, h3) = host_flashrom FLASHROM_WRITE tmp (programmer img)
                                            (verbosity cfg1 + 1) section_name h2
                            in Some (r, cfg1, h3)))))"

definition write_optional_firmware ::
  "vboot \<Rightarrow> updater_config \<Rightarrow> firmware_image \<Rightarrow> string option \<Rightarrow> host
    \<Rightarrow> (int \<times> updater_config \<times> host) option" where
  "write_optional_firmware V cfg img section_name h =
     (if data img = None then Some (0, cfg, h)
      else if (case section_name of None \<Rightarrow> False
               | Some name \<Rightarrow> \<not> firmware_section_exists img name)
      then Some (0, cfg, h)
      else write_firmware V cfg img section_name h)"

section \<open>Preserving the current image\<close>

text \<open>
  In the functions below the C arguments \<^verbatim>\<open>image_from\<close> and \<^verbatim>\<open>image_to\<close> are
  \<^verbatim>\<open>&cfg->image_current\<close> and \<^verbatim>\<open>&cfg->image\<close> at every call: they are the fields
  of the configuration, and a change of \<^verbatim>\<open>image_to\<close> is a change of \<open>cfg_image\<close>.
\<close>

definition preserve_management_engine ::
  "quirk_table \<Rightarrow> updater_config \<Rightarrow> host \<Rightarrow> (int \<times> updater_config \<times> host) option" where
  "preserve_management_engine Q cfg h =
     (let section = snd (find_firmware_section (image_current cfg) FMAP_SI_ME)
      in if section_data section = None then Some (0, cfg, h)
         else do {
           filled \<leftarrow> section_is_filled_with (image_bytes (image_current cfg)) section 0xFF;
           if filled then do {
             (r, to) \<leftarrow> preserve_firmware_section (image_current cfg) (cfg_image cfg)
                           FMAP_SI_DESC;
             Some (r, cfg\<lparr>cfg_image := to\<rparr>, h)
           } else try_apply_quirk Q QUIRK_UNLOCK_ME_FOR_UPDATE cfg h
         })"

definition optional_sections :: "string list" where
  "optional_sections = [FMAP_RO_PRESERVE, FMAP_RW_PRESERVE, FMAP_RW_NVRAM, FMAP_RW_ELOG,
                        FMAP_RW_SMMSTORE, ''RO_FSG'']"

fun preserve_optional ::
  "string list \<Rightarrow> firmware_image \<Rightarrow> firmware_image \<Rightarrow> int \<Rightarrow> (int \<times> firmware_image) option" where
  "preserve_optional [] from to errcnt = Some (errcnt, to)"
| "preserve_optional (name # names) from to errcnt =
     (if \<not> firmware_section_exists from name then preserve_optional names from to errcnt
      else do {
        (r, to') \<leftarrow> preserve_firmware_section from to name;
        preserve_optional names from to' (errcnt + r)
      })"

definition preserve_images ::
  "vboot \<Rightarrow> quirk_table \<Rightarrow> updater_config \<Rightarrow> host
    \<Rightarrow> (int \<times> updater_config \<times> host) option" where
  "preserve_images V Q cfg h =
     do {
       (r1, to1) \<leftarrow> preserve_gbb V (image_current cfg) (cfg_image cfg);
       (r2, cfg2, h2) \<leftarrow> preserve_management_engine Q (cfg\<lparr>cfg_image := to1\<rparr>) h;
       (r3, to3) \<leftarrow> preserve_firmware_section (image_current cfg2) (cfg_image cfg2) FMAP_RO_VPD;
       (r4, to4) \<leftarrow> preserve_firmware_section (image_current cfg2) to3 FMAP_RW_VPD;
       (errcnt, to5) \<leftarrow> preserve_optional optional_sections (image_current cfg2) to4
                           (r1 + r2 + r3 + r4);
       Some (errcnt, cfg2\<lparr>cfg_image := to5\<rparr>, h2)
     }"

section \<open>Compatibility checks\<close>

fun strncmp :: "string \<Rightarrow> string \<Rightarrow> nat \<Rightarrow> int" where
  "strncmp s t 0 = 0"
| "strncmp [] [] (Suc n) = 0"
| "strncmp [] (b # t) (Suc n) = - int (of_char b)"
| "strncmp (a # s) [] (Suc n) = int (of_char a)"
| "strncmp (a # s) (b # t) (Suc n) =
     (if a = b then strncmp s t n else int (of_char a) - int (of_char b))"

text \<open>\<^verbatim>\<open>strchr\<close>: the index of the first occurrence, or none.\<close>

fun strchr :: "string \<Rightarrow> char \<Rightarrow> nat option" where
  "strchr [] c = None"
| "strchr (a # s) c = (if a = c then Some 0 else map_option Suc (strchr s c))"

definition check_compatible_platform :: "updater_config \<Rightarrow> int" where
  "check_compatible_platform cfg =
     (case strchr (ro_version (image_current cfg)) CHR ''.'' of
        None \<Rightarrow> - 1
      | Some from_dot \<Rightarrow>
          (case strchr (ro_version (cfg_image cfg)) CHR ''.'' of
             None \<Rightarrow> - 1
           | Some to_dot \<Rightarrow>
               strncmp (ro_version (image_current cfg)) (ro_version (cfg_image cfg))
                 (from_dot + 1)))"

text \<open>
  \<^verbatim>\<open>do_check_compatible_tpm_keys\<close>. The property is read only after the key
  versions were decoded. The shift and the mask act on a non-negative \<^verbatim>\<open>int\<close>, and
  the comparisons are unsigned.
\<close>

definition do_check_compatible_tpm_keys ::
  "vboot \<Rightarrow> updater_config \<Rightarrow> firmware_image \<Rightarrow> host
    \<Rightarrow> (int \<times> updater_config \<times> host) option" where
  "do_check_compatible_tpm_keys V cfg rw_image h =
     do {
       (r, data_key_version, firmware_version) \<leftarrow>
         get_key_versions V rw_image FMAP_RW_VBLOCK_A (0, 0);
       if r \<noteq> 0 then Some (- 1, cfg, h)
       else (let (tpm_fwver, cfg1, h1) = get_system_property SYS_PROP_TPM_FWVER cfg h
             in if sint tpm_fwver < 0 then Some (- 1, cfg1, h1)
                else (let tpm_data_key_version = drop_bit 16 tpm_fwver;
                          tpm_firmware_version = tpm_fwver AND 0xffff
                      in if tpm_data_key_version > data_key_version then Some (- 1, cfg1, h1)
                         else if tpm_firmware_version > firmware_version
                         then Some (- 1, cfg1, h1)
                         else Some (0, cfg1, h1)))
     }"

definition check_compatible_tpm_keys ::
  "vboot \<Rightarrow> updater_config \<Rightarrow> firmware_image \<Rightarrow> host
    \<Rightarrow> (int \<times> updater_config \<times> host) option" where
  "check_compatible_tpm_keys V cfg rw_image h =
     do {
       (r, cfg1, h1) \<leftarrow> do_check_compatible_tpm_keys V cfg rw_image h;
       if r = 0 then Some (r, cfg1, h1)
       else if force_update cfg1 = 0 then Some (r, cfg1, h1)
       else Some (0, cfg1, h1)
     }"

text \<open>
  \<^verbatim>\<open>legacy_needs_update\<close>. Both calls of \<^verbatim>\<open>cbfs_file_exists\<close> are given the
  temporary file that holds the contents of \<^verbatim>\<open>cfg->image\<close>.
\<close>

definition legacy_tag :: string where
  "legacy_tag = ''cros_allow_auto_update''"

definition legacy_needs_update ::
  "updater_config \<Rightarrow> host \<Rightarrow> (int \<times> updater_config \<times> host) option" where
  "legacy_needs_update cfg h =
     (let (tmp_path, cfg1, h1) = updater_create_temp_file cfg h
      in case tmp_path of
           None \<Rightarrow> Some (0, cfg1, h1)
         | Some tmp \<Rightarrow>
             (let (w, h2) = vb2_write_file tmp (image_bytes (cfg_image cfg1)) h1
              in if w \<noteq> 0 then Some (0, cfg1, h2)
                 else (let (has_to, h3) = cbfs_file_exists tmp FMAP_RW_LEGACY legacy_tag h2;
                           (has_from, h4) = cbfs_file_exists tmp FMAP_RW_LEGACY legacy_tag h3
                       in if has_from = 0 \<or> has_to = 0 then Some (0, cfg1, h4)
                          else map_option (\<lambda>r. (r, cfg1, h4))
                                 (section_needs_update (image_current cfg1) (cfg_image cfg1)
                                    (Some FMAP_RW_LEGACY)))))"

section \<open>Choosing the RW target and the trial cookies\<close>

definition decide_rw_target ::
  "updater_config \<Rightarrow> target_type \<Rightarrow> cint \<Rightarrow> host \<Rightarrow> string option \<times> updater_config \<times> host" where
  "decide_rw_target cfg target is_vboot2 h =
     (let a = FMAP_RW_SECTION_A; b = FMAP_RW_SECTION_B;
          (slot, cfg1, h1) = get_system_property SYS_PROP_MAINFW_ACT cfg h
      in if is_vboot2 = 0 then (Some (if target = TARGET_UPDATE then b else a), cfg1, h1)
         else if slot = SLOT_A then (Some (if target = TARGET_UPDATE then b else a), cfg1, h1)
         else if slot = SLOT_B then (Some (if target = TARGET_UPDATE then a else b), cfg1, h1)
         else (None, cfg1, h1))"

definition set_try_cookies :: "updater_config \<Rightarrow> string \<Rightarrow> cint \<Rightarrow> host \<Rightarrow> int \<times> host" where
  "set_try_cookies cfg target is_vboot2 h =
     (let tries = (if data (ec_image cfg) \<noteq> None then 6 + 2 else 6)
      in if target \<noteq> FMAP_RW_SECTION_A \<and> target \<noteq> FMAP_RW_SECTION_B then (- 1, h)
         else (let slot = (if target = FMAP_RW_SECTION_A then FWACT_A else FWACT_B)
               in if emulation cfg \<noteq> None then (0, h)
                  else (let (r1, h1) = (if is_vboot2 \<noteq> 0
                                        then perform (Set_property_string ''fw_try_next'' slot) h
                                        else (0, h))
                        in if r1 \<noteq> 0 then (- 1, h1)
                           else (let (r2, h2) = perform (Set_property_int ''fw_try_count'' tries) h1
                                 in if r2 \<noteq> 0 then (- 1, h2) else (0, h2)))))"

section \<open>The update strategies\<close>

text \<open>
  \<^verbatim>\<open>update_try_rw_firmware\<close> is given in three parts. The first is its block
  \<^verbatim>\<open>if (has_update) { ... }\<close>: the target to update is chosen, written, and the
  trial cookies are set; the result is the error code to return, if any. Were the
  choice to give no name, the code would write the whole image and then hand a null
  pointer to \<^verbatim>\<open>strcmp\<close>.
\<close>

definition try_rw_update_target ::
  "vboot \<Rightarrow> updater_config \<Rightarrow> cint \<Rightarrow> host
    \<Rightarrow> (updater_error_codes option \<times> updater_config \<times> host) option" where
  "try_rw_update_target V cfg is_vboot2 h =
     (let (target, cfg1, h1) = decide_rw_target cfg TARGET_UPDATE is_vboot2 h
      in do {
        (w, cfg2, h2) \<leftarrow> write_firmware V cfg1 (cfg_image cfg1) target h1;
        if w \<noteq> 0 then Some (Some UPDATE_ERR_WRITE_FIRMWARE, cfg2, h2)
        else (case target of
                None \<Rightarrow> None
              | Some name \<Rightarrow>
                  (let (c, h3) = set_try_cookies cfg2 name is_vboot2 h2
                   in if c \<noteq> 0 then Some (Some UPDATE_ERR_SET_COOKIES, cfg2, h3)
                      else Some (None, cfg2, h3)))
      })"

text \<open>
  The second part is the end of the function, from \<^verbatim>\<open>legacy_needs_update\<close> on: the
  status of the write of the legacy section is dropped.
\<close>

definition try_rw_legacy_update ::
  "vboot \<Rightarrow> updater_config \<Rightarrow> host
    \<Rightarrow> (updater_error_codes \<times> updater_config \<times> host) option" where
  "try_rw_legacy_update V cfg h =
     do {
       (legacy, cfg1, h1) \<leftarrow> legacy_needs_update cfg h;
       if legacy \<noteq> 0 then do {
         (w, cfg2, h2) \<leftarrow> write_firmware V cfg1 (cfg_image cfg1) (Some FMAP_RW_LEGACY) h1;
         Some (UPDATE_ERR_DONE, cfg2, h2)
       } else Some (UPDATE_ERR_DONE, cfg1, h1)
     }"

text \<open>
  The function itself. The status of \<^verbatim>\<open>preserve_gbb\<close> is dropped, and the RO
  section is compared only when the write protection is off.
\<close>

definition update_try_rw_firmware ::
  "vboot \<Rightarrow> updater_config \<Rightarrow> cint \<Rightarrow> host
    \<Rightarrow> (updater_error_codes \<times> updater_config \<times> host) option" where
  "update_try_rw_firmware V cfg wp_enabled h =
     (let (is_vboot2, cfg1, h1) = get_system_property SYS_PROP_FW_VBOOT2 cfg h
      in do {
        (r0, to1) \<leftarrow> preserve_gbb V (image_current cfg1) (cfg_image cfg1);
        let cfg2 = cfg1\<lparr>cfg_image := to1\<rparr>;
        ro_diff \<leftarrow> (if wp_enabled = 0
                     then section_needs_update (image_current cfg2) (cfg_image cfg2)
                            (Some FMAP_RO_SECTION)
                     else Some 0);
        if ro_diff \<noteq> 0 then Some (UPDATE_ERR_NEED_RO_UPDATE, cfg2, h1)
        else do {
          rk \<leftarrow> check_compatible_root_key V (image_current cfg2) (cfg_image cfg2);
          if rk \<noteq> 0 then Some (UPDATE_ERR_ROOT_KEY, cfg2, h1)
          else do {
            (tk, cfg3, h3) \<leftarrow> check_compatible_tpm_keys V cfg2 (cfg_image cfg2) h1;
            if tk \<noteq> 0 then Some (UPDATE_ERR_TPM_ROLLBACK, cfg3, h3)
            else (let (self, cfg4, h4) = decide_rw_target cfg3 TARGET_SELF is_vboot2 h3
                  in case self of
                       None \<Rightarrow> Some (UPDATE_ERR_TARGET, cfg4, h4)
                     | Some target \<Rightarrow>
                         if \<not> firmware_section_exists (cfg_image cfg4) target
                         then Some (UPDATE_ERR_INVALID_IMAGE, cfg4, h4)
                         else do {
                           has_update \<leftarrow>
                             (if force_update cfg4 = 0
                              then section_needs_update (image_current cfg4) (cfg_image cfg4)
                                     (Some target)
                              else Some 1);
                           (stop, cfg5, h5) \<leftarrow>
                             (if has_update \<noteq> 0
                              then try_rw_update_target V cfg4 is_vboot2 h4
                              else if is_vboot2 = 0 \<and> emulation cfg4 = None
                              then Some (None, cfg4,
                                         snd (perform (Set_property_int ''fwb_tries'' 0) h4))
                              else Some (None, cfg4, h4));
                           case stop of
                             Some code \<Rightarrow> Some (code, cfg5, h5)
                           | None \<Rightarrow> try_rw_legacy_update V cfg5 h5
                         })
          }
        }
      })"

text \<open>\<^verbatim>\<open>update_rw_firmrware\<close>: the four writes are joined by \<^verbatim>\<open>||\<close>.\<close>

definition update_rw_firmrware ::
  "vboot \<Rightarrow> updater_config \<Rightarrow> host
    \<Rightarrow> (updater_error_codes \<times> updater_config \<times> host) option" where
  "update_rw_firmrware V cfg h =
     do {
       rk \<leftarrow> check_compatible_root_key V (image_current cfg) (cfg_image cfg);
       if rk \<noteq> 0 then Some (UPDATE_ERR_ROOT_KEY, cfg, h)
       else do {
         (tk, cfg1, h1) \<leftarrow> check_compatible_tpm_keys V cfg (cfg_image cfg) h;
         if tk \<noteq> 0 then Some (UPDATE_ERR_TPM_ROLLBACK, cfg1, h1)
         else do {
           (w1, cfg2, h2) \<leftarrow> write_firmware V cfg1 (cfg_image cfg1) (Some FMAP_RW_SECTION_A) h1;
           if w1 \<noteq> 0 then Some (UPDATE_ERR_WRITE_FIRMWARE, cfg2, h2)
           else do {
             (w2, cfg3, h3) \<leftarrow>
               write_firmware V cfg2 (cfg_image cfg2) (Some FMAP_RW_SECTION_B) h2;
             if w2 \<noteq> 0 then Some (UPDATE_ERR_WRITE_FIRMWARE, cfg3, h3)
             else do {
               (w3, cfg4, h4) \<leftarrow>
                 write_firmware V cfg3 (cfg_image cfg3) (Some FMAP_RW_SHARED) h3;
               if w3 \<noteq> 0 then Some (UPDATE_ERR_WRITE_FIRMWARE, cfg4, h4)
               else do {
                 (w4, cfg5, h5) \<leftarrow>
                   write_optional_firmware V cfg4 (cfg_image cfg4) (Some FMAP_RW_LEGACY) h4;
                 if w4 \<noteq> 0 then Some (UPDATE_ERR_WRITE_FIRMWARE, cfg5, h5)
                 else Some (UPDATE_ERR_DONE, cfg5, h5)
               }
             }
           }
         }
       }
     }"

definition update_legacy_firmware ::
  "vboot \<Rightarrow> updater_config \<Rightarrow> host
    \<Rightarrow> (updater_error_codes \<times> updater_config \<times> host) option" where
  "update_legacy_firmware V cfg h =
     do {
       (w, cfg1, h1) \<leftarrow> write_firmware V cfg (cfg_image cfg) (Some FMAP_RW_LEGACY) h;
       Some (if w \<noteq> 0 then UPDATE_ERR_WRITE_FIRMWARE else UPDATE_ERR_DONE, cfg1, h1)
     }"

definition update_whole_firmware ::
  "vboot \<Rightarrow> quirk_table \<Rightarrow> updater_config \<Rightarrow> host
    \<Rightarrow> (updater_error_codes \<times> updater_config \<times> host) option" where
  "update_whole_firmware V Q cfg h =
     do {
       (p, cfg1, h1) \<leftarrow> preserve_images V Q cfg h;
       (tk, cfg2, h2) \<leftarrow> check_compatible_tpm_keys V cfg1 (cfg_image cfg1) h1;
       if tk \<noteq> 0 then Some (UPDATE_ERR_TPM_ROLLBACK, cfg2, h2)
       else do {
         (w1, cfg3, h3) \<leftarrow> write_firmware V cfg2 (cfg_image cfg2) None h2;
         if w1 \<noteq> 0 then Some (UPDATE_ERR_WRITE_FIRMWARE, cfg3, h3)
         else do {
           (w2, cfg4, h4) \<leftarrow> write_optional_firmware V cfg3 (ec_image cfg3) None h3;
           if w2 \<noteq> 0 then Some (UPDATE_ERR_WRITE_FIRMWARE, cfg4, h4)
           else do {
             (w3, cfg5, h5) \<leftarrow> write_optional_firmware V cfg4 (pd_image cfg4) None h4;
             if w3 \<noteq> 0 then Some (UPDATE_ERR_WRITE_FIRMWARE, cfg5, h5)
             else Some (UPDATE_ERR_DONE, cfg5, h5)
           }
         }
       }
     }"

section \<open>The main updater\<close>

text \<open>
  \<^verbatim>\<open>update_firmware\<close>. The message about the write protection reads both
  write-protection properties, the hardware one first here.
\<close>

definition update_firmware ::
  "vboot \<Rightarrow> quirk_table \<Rightarrow> updater_config \<Rightarrow> host
    \<Rightarrow> (updater_error_codes \<times> updater_config \<times> host) option" where
  "update_firmware V Q cfg h =
     (if data (cfg_image cfg) = None then Some (UPDATE_ERR_NO_IMAGE, cfg, h)
      else do {
        (q1, cfg1, h1) \<leftarrow> try_apply_quirk Q QUIRK_DAISY_SNOW_DUAL_MODEL cfg h;
        if q1 \<noteq> 0 then Some (UPDATE_ERR_PLATFORM, cfg1, h1)
        else do {
          (q2, cfg2, h2) \<leftarrow> try_apply_quirk Q QUIRK_MIN_PLATFORM_VERSION cfg1 h1;
          if q2 \<noteq> 0 then Some (UPDATE_ERR_PLATFORM, cfg2, h2)
          else do {
            (l, cfg3, h3) \<leftarrow>
              (if data (image_current cfg2) = None then load_system_firmware V cfg2 h2
               else Some (0, cfg2, h2));
            if l \<noteq> 0 then Some (UPDATE_ERR_SYSTEM_IMAGE, cfg3, h3)
            else if check_compatible_platform cfg3 \<noteq> 0 then Some (UPDATE_ERR_PLATFORM, cfg3, h3)
            else (let (wp_enabled, cfg4, h4) = is_write_protection_enabled cfg3 h3;
                      (hw, cfg5, h5) = get_system_property SYS_PROP_WP_HW cfg4 h4;
                      (sw, cfg6, h6) = get_system_property SYS_PROP_WP_SW cfg5 h5
                  in do {
                    (q3, cfg7, h7) \<leftarrow> try_apply_quirk Q QUIRK_ENLARGE_IMAGE cfg6 h6;
                    if q3 \<noteq> 0 then Some (UPDATE_ERR_SYSTEM_IMAGE, cfg7, h7)
                    else do {
                      (q4, cfg8, h8) \<leftarrow> try_apply_quirk Q QUIRK_EVE_SMM_STORE cfg7 h7;
                      if q4 \<noteq> 0 then Some (UPDATE_ERR_INVALID_IMAGE, cfg8, h8)
                      else (let (cfg9, h9) =
                                  (if debugging_enabled h8 \<noteq> 0
                                   then print_system_properties cfg8 h8 else (cfg8, h8))
                            in if legacy_update cfg9 \<noteq> 0 then update_legacy_firmware V cfg9 h9
                               else (let rest = (\<lambda>c k. if wp_enabled \<noteq> 0
                                                       then update_rw_firmrware V c k
                                                       else update_whole_firmware V Q c k)
                                     in if try_update cfg9 \<noteq> 0
                                        then do {
                                          (r, cfg10, h10) \<leftarrow>
                                            update_try_rw_firmware V cfg9 wp_enabled h9;
                                          if r \<noteq> UPDATE_ERR_NEED_RO_UPDATE
                                          then Some (r, cfg10, h10)
                                          else rest cfg10 h10
                                        }
                                        else rest cfg9 h9))
                    }
                  })
          }
        }
      })"

text \<open>
  The statements of \<^verbatim>\<open>update_firmware\<close> up to the choice of a strategy, as a block
  of their own: \<^const>\<open>Inl\<close> is the code the function returns before that point, with the
  state it leaves, and \<^const>\<open>Inr\<close> is the write protection found and the state in which
  the strategy starts.
\<close>

definition update_firmware_start ::
  "vboot \<Rightarrow> quirk_table \<Rightarrow> updater_config \<Rightarrow> host
    \<Rightarrow> ((updater_error_codes \<times> updater_config \<times> host) + (cint \<times> updater_config \<times> host)) option" where
  "update_firmware_start V Q cfg h =
     (if data (cfg_image cfg) = None then Some (Inl (UPDATE_ERR_NO_IMAGE, cfg, h))
      else do {
        (q1, cfg1, h1) \<leftarrow> try_apply_quirk Q QUIRK_DAISY_SNOW_DUAL_MODEL cfg h;
        if q1 \<noteq> 0 then Some (Inl (UPDATE_ERR_PLATFORM, cfg1, h1))
        else do {
          (q2, cfg2, h2) \<leftarrow> try_apply_quirk Q QUIRK_MIN_PLATFORM_VERSION cfg1 h1;
          if q2 \<noteq> 0 then Some (Inl (UPDATE_ERR_PLATFORM, cfg2, h2))
          else do {
            (l, cfg3, h3) \<leftarrow>
              (if data (image_current cfg2) = None then load_system_firmware V cfg2 h2
               else Some (0, cfg2, h2));
            if l \<noteq> 0 then Some (Inl (UPDATE_ERR_SYSTEM_IMAGE, cfg3, h3))
            else if check_compatible_platform cfg3 \<noteq> 0
            then Some (Inl (UPDATE_ERR_PLATFORM, cfg3, h3))
            else (let (wp_enabled, cfg4, h4) = is_write_protection_enabled cfg3 h3;
                      (hw, cfg5, h5) = get_system_property SYS_PROP_WP_HW cfg4 h4;
                      (sw, cfg6, h6) = get_system_property SYS_PROP_WP_SW cfg5 h5
                  in do {
                    (q3, cfg7, h7) \<leftarrow> try_apply_quirk Q QUIRK_ENLARGE_IMAGE cfg6 h6;
                    if q3 \<noteq> 0 then Some (Inl (UPDATE_ERR_SYSTEM_IMAGE, cfg7, h7))
                    else do {
                      (q4, cfg8, h8) \<leftarrow> try_apply_quirk Q QUIRK_EVE_SMM_STORE cfg7 h7;
                      if q4 \<noteq> 0 then Some (Inl (UPDATE_ERR_INVALID_IMAGE, cfg8, h8))
                      else Some (Inr (wp_enabled,
                                      if debugging_enabled h8 \<noteq> 0
                                      then print_system_properties cfg8 h8 else (cfg8, h8)))
                    }
                  })
          }
        }
      })"

section \<open>Runs of the property cache\<close>

text \<open>
  A run of the two operations on the cache, in any order and on any properties.
  \<open>getter_runs p\<close> counts the calls of \<^const>\<open>get_system_property\<close> for \<open>p\<close> that
  find it not initialized: those are the calls that run its getter.
\<close>

datatype property_op = Get_op system_property_type | Override_op system_property_type cint

fun run_property_ops ::
  "property_op list \<Rightarrow> updater_config \<Rightarrow> host \<Rightarrow> updater_config \<times> host" where
  "run_property_ops [] cfg h = (cfg, h)"
| "run_property_ops (Get_op q # ops) cfg h =
     (let (v, cfg', h') = get_system_property q cfg h in run_property_ops ops cfg' h')"
| "run_property_ops (Override_op q v # ops) cfg h =
     run_property_ops ops (override_system_property q cfg v) h"

fun getter_runs ::
  "system_property_type \<Rightarrow> property_op list \<Rightarrow> updater_config \<Rightarrow> host \<Rightarrow> nat" where
  "getter_runs p [] cfg h = 0"
| "getter_runs p (Get_op q # ops) cfg h =
     (if q = p \<and> initialized (system_properties cfg p) = 0 then 1 else 0)
     + (let (v, cfg', h') = get_system_property q cfg h in getter_runs p ops cfg' h')"
| "getter_runs p (Override_op q v # ops) cfg h =
     getter_runs p ops (override_system_property q cfg v) h"

section \<open>The writes a run issues\<close>

text \<open>
  The firmware writes in a list of events: the programmer, the section and the status
  of every \<^verbatim>\<open>flashrom -w\<close>, in the order issued.
\<close>

fun flash_writes :: "(event \<times> int) list \<Rightarrow> (string \<times> string option \<times> int) list" where
  "flash_writes [] = []"
| "flash_writes ((Flashrom FLASHROM_WRITE path prog section, r) # es) =
     (prog, section, r) # flash_writes es"
| "flash_writes (e # es) = flash_writes es"

text \<open>
  Writing sections of the image to install one after the other, in the order of the
  list, and stopping at the first write that fails: the status is that of the last
  write made.
\<close>

fun write_sections ::
  "vboot \<Rightarrow> updater_config \<Rightarrow> string list \<Rightarrow> host
    \<Rightarrow> (int \<times> updater_config \<times> host) option" where
  "write_sections V cfg [] h = Some (0, cfg, h)"
| "write_sections V cfg (name # names) h =
     do {
       (w, cfg', h') \<leftarrow> write_firmware V cfg (cfg_image cfg) (Some name) h;
       if w \<noteq> 0 then Some (w, cfg', h') else write_sections V cfg' names h'
     }"

text \<open>The sections of an RW update: the legacy section only when the image has it.\<close>

definition rw_sections :: "firmware_image \<Rightarrow> string list" where
  "rw_sections img =
     [FMAP_RW_SECTION_A, FMAP_RW_SECTION_B, FMAP_RW_SHARED]
     @ (if firmware_section_exists img FMAP_RW_LEGACY then [FMAP_RW_LEGACY] else [])"

section \<open>An example system\<close>

text \<open>
  A small image with the layout of vboot2: a GBB of 144 bytes (the header of 128
  bytes, then a HWID area of 16 bytes), a VBLOCK_A of 220 bytes (a keyblock of 112
  bytes with \<^verbatim>\<open>keyblock_size\<close> 112 and a signature of size 1, then a preamble of 108
  bytes), and four RW sections of two bytes each. The library accepts every GBB header
  of at least 128 bytes, every key and every signature.
\<close>

definition example_areas :: "fmap_area list" where
  "example_areas =
     [\<lparr>area_offset = 0, area_size = 144, area_name = ''RO_SECTION''\<rparr>,
      \<lparr>area_offset = 0, area_size = 144, area_name = ''GBB''\<rparr>,
      \<lparr>area_offset = 144, area_size = 220, area_name = ''VBLOCK_A''\<rparr>,
      \<lparr>area_offset = 364, area_size = 2, area_name = ''RW_SECTION_A''\<rparr>,
      \<lparr>area_offset = 366, area_size = 2, area_name = ''RW_SECTION_B''\<rparr>,
      \<lparr>area_offset = 368, area_size = 2, area_name = ''RW_SHARED''\<rparr>,
      \<lparr>area_offset = 370, area_size = 2, area_name = ''RW_LEGACY''\<rparr>]"

definition example_vboot :: vboot where
  "example_vboot =
     \<lparr>gbb_flags_at = 12, gbb_hwid_offset_at = 16, gbb_hwid_size_at = 20,
      gbb_rootkey_offset_at = 24, gbb_rootkey_size_at = 28,
      keyblock_sizeof = 112, fw_preamble_sizeof = 108,
      kb_keyblock_size_at = 16, kb_sig_size_at = 32, kb_key_version_at = 104,
      pre_firmware_version_at = 40,
      futil_valid_gbb_header = (\<lambda>d p n. p \<noteq> None \<and> 128 \<le> n),
      packed_key_looks_ok = (\<lambda>d p n. True),
      vb2_unpack_key = (\<lambda>d p. True),
      vb2_verify_keyblock = (\<lambda>block dk key. True),
      fmap_find = (\<lambda>d. Some example_areas)\<rparr>"

text \<open>
  The bytes of an image: the GBB flags, the size of the HWID area the header
  declares, the HWID, the two versions, and the eight bytes of the RW sections.
\<close>

definition example_bytes ::
  "byte \<Rightarrow> byte \<Rightarrow> byte list \<Rightarrow> byte \<Rightarrow> byte \<Rightarrow> byte list \<Rightarrow> byte list" where
  "example_bytes flags hwid_size hwid key_version firmware_version rw =
     replicate 12 0 @ [flags, 0, 0, 0] @ [128, 0, 0, 0] @ [hwid_size, 0, 0, 0]
     @ [128, 0, 0, 0] @ [16, 0, 0, 0] @ replicate 96 0
     @ hwid @ replicate (16 - length hwid) 0
     @ replicate 16 0 @ [112, 0, 0, 0] @ replicate 12 0 @ [1, 0, 0, 0] @ replicate 68 0
     @ [key_version, 0, 0, 0] @ replicate 4 0
     @ replicate 40 0 @ [firmware_version, 0, 0, 0] @ replicate 64 0
     @ rw"

definition example_image :: "string \<Rightarrow> byte list \<Rightarrow> firmware_image" where
  "example_image name bytes =
     \<lparr>programmer = ''host'', data = Some bytes, file_name = name,
      ro_version = ''Google_Link.1.2'', rw_version_a = ''Google_Link.1.2'',
      rw_version_b = ''Google_Link.1.2'', fmap_header = Some example_areas\<rparr>"

text \<open>The image on the system: flags \<open>0x39\<close>, HWID \<open>FOO A1B-C\<close>, versions 1 and 1.\<close>

definition example_hwid :: "byte list" where
  "example_hwid = [70, 79, 79, 32, 65, 49, 66, 45, 67]"

definition example_current :: firmware_image where
  "example_current =
     example_image ''current.bin''
       (example_bytes 0x39 16 example_hwid 1 1 [1, 1, 2, 2, 3, 3, 4, 4])"

text \<open>The image to install: no flags, an empty HWID, other RW sections.\<close>

definition example_new :: firmware_image where
  "example_new =
     example_image ''new.bin'' (example_bytes 0 16 [] 1 1 [5, 5, 6, 6, 7, 7, 8, 8])"

text \<open>A host on which every command succeeds and no file holds the legacy tag.\<close>

definition example_host :: host where
  "example_host =
     \<lparr>events = [], files = (\<lambda>path. None), status = (\<lambda>hist e. 0),
      temp_name = (\<lambda>hist. Some (''/tmp/fwupdater.'' @ replicate (length hist) CHR ''x'')),
      flash_dump = (\<lambda>hist prog. []),
      cbfstool = (\<lambda>contents section entry. 1),
      debugging_enabled = 0\<rparr>"

definition example_quirks :: quirk_table where
  "example_quirks = (\<lambda>q. None)"

text \<open>A configuration with both images loaded, no quirk set and no property read yet.\<close>

definition example_config :: "firmware_image \<Rightarrow> firmware_image \<Rightarrow> updater_config" where
  "example_config current new =
     \<lparr>cfg_image = new, image_current = current,
      ec_image = empty_image\<lparr>programmer := ''ec''\<rparr>,
      pd_image = empty_image\<lparr>programmer := ''ec:dev=1''\<rparr>,
      system_properties =
        (\<lambda>p. \<lparr>getter = (\<lambda>h. (- 1, h)), prop_value = 0, initialized = 0\<rparr>),
      quirks = (\<lambda>q. \<lparr>quirk_name = [], quirk_help = [], quirk_value = 0\<rparr>),
      tempfiles = [], try_update = 0, force_update = 0, legacy_update = 0, verbosity = 0,
      emulation = None\<rparr>"

text \<open>
  The properties as a test gives them: the active slot, the TPM firmware version, the
  vboot generation, and the write protection (hardware and software alike).
\<close>

definition example_properties ::
  "cint \<Rightarrow> cint \<Rightarrow> cint \<Rightarrow> cint \<Rightarrow> updater_config \<Rightarrow> updater_config" where
  "example_properties mainfw_act tpm_fwver fw_vboot2 wp cfg =
     override_system_property SYS_PROP_WP_SW
       (override_system_property SYS_PROP_WP_HW
          (override_system_property SYS_PROP_FW_VBOOT2
             (override_system_property SYS_PROP_TPM_FWVER
                (override_system_property SYS_PROP_MAINFW_ACT cfg mainfw_act)
                tpm_fwver)
             fw_vboot2)
          wp)
       wp"

text \<open>The image to install with a VBLOCK_A one byte too small for a keyblock and a preamble.\<close>

definition example_short_vblock :: firmware_image where
  "example_short_vblock =
     example_new\<lparr>fmap_header := Some
       [\<lparr>area_offset = 0, area_size = 144, area_name = ''GBB''\<rparr>,
        \<lparr>area_offset = 144, area_size = 219, area_name = ''VBLOCK_A''\<rparr>]\<rparr>"

text \<open>The image to install once the GBB flags and the HWID of the system are preserved in it.\<close>

definition example_new_preserved :: firmware_image where
  "example_new_preserved =
     example_image ''new.bin''
       (example_bytes 0x39 16 example_hwid 1 1 [5, 5, 6, 6, 7, 7, 8, 8])"

text \<open>
  The image to install with other GBB flags, another size of the HWID area in its
  header, or another HWID.
\<close>

definition example_candidate :: "byte \<Rightarrow> byte \<Rightarrow> byte list \<Rightarrow> firmware_image" where
  "example_candidate flags hwid_size hwid =
     example_image ''new.bin''
       (example_bytes flags hwid_size hwid 1 1 [5, 5, 6, 6, 7, 7, 8, 8])"

text \<open>A host whose flasher fails when it is asked to write the section \<open>name\<close>.\<close>

definition example_failing_host :: "string \<Rightarrow> host" where
  "example_failing_host name =
     example_host\<lparr>status :=
       (\<lambda>hist e. case e of
                    Flashrom op path prog (Some n) \<Rightarrow>
                      if op = FLASHROM_WRITE \<and> n = name then 1 else 0
                  | _ \<Rightarrow> 0)\<rparr>"

text \<open>
  The example system: slot A active, the TPM at the versions (1, 1), vboot2, and the
  write protection on.
\<close>

definition example_system :: updater_config where
  "example_system =
     example_properties 0 0x10001 1 1 (example_config example_current example_new)"

text \<open>The example system once it holds the image to install: both images are the same.\<close>

definition example_settled :: updater_config where
  "example_settled =
     example_properties 0 0x10001 1 1 (example_config example_new example_new)"

text \<open>
  Two runs of \<^verbatim>\<open>update_firmware\<close> from the same configuration, the second on the host
  as the first left it: the two results, and the events of the second run.
\<close>

definition run_twice ::
  "vboot \<Rightarrow> quirk_table \<Rightarrow> updater_config \<Rightarrow> host
    \<Rightarrow> (updater_error_codes \<times> updater_error_codes \<times> (event \<times> int) list) option" where
  "run_twice V Q cfg h =
     do {
       (r1, cfg1, h1) \<leftarrow> update_firmware V Q cfg h;
       (r2, cfg2, h2) \<leftarrow> update_firmware V Q cfg h1;
       Some (r1, r2, drop (length (events h1)) (events h2))
     }"

text \<open>
  A host on which \<^verbatim>\<open>cbfstool\<close> finds the tag of the legacy updater only in a file that
  holds the image to install (with the GBB preserved), and in no other file.
\<close>

definition example_tag_host :: host where
  "example_tag_host =
     example_host\<lparr>cbfstool :=
       (\<lambda>contents section entry.
          if contents = Some (image_bytes example_new_preserved)
             \<and> section = FMAP_RW_LEGACY \<and> entry = legacy_tag
          then 0 else 1)\<rparr>"

text \<open>
  Properties that are still to be read: the getters find the active slot given, the
  TPM at the versions (1, 1), vboot2, and the write protection on, whatever the state of
  the host.
\<close>

definition example_getters :: "cint \<Rightarrow> system_property_type \<Rightarrow> system_property" where
  "example_getters slot p =
     \<lparr>getter = (\<lambda>h. (case p of SYS_PROP_MAINFW_ACT \<Rightarrow> slot
                          | SYS_PROP_TPM_FWVER \<Rightarrow> 0x10001
                          | SYS_PROP_FW_VBOOT2 \<Rightarrow> 1
                          | SYS_PROP_PLATFORM_VER \<Rightarrow> 1
                          | SYS_PROP_WP_HW \<Rightarrow> 1
                          | SYS_PROP_WP_SW \<Rightarrow> 1, h)),
      prop_value = 0, initialized = 0\<rparr>"

text \<open>
  The example system with no property read yet, for an active slot and an image to
  install.
\<close>

definition example_unread :: "cint \<Rightarrow> firmware_image \<Rightarrow> updater_config" where
  "example_unread slot new =
     (example_config example_current new)\<lparr>system_properties := example_getters slot\<rparr>"

text \<open>
  A machine whose images carry their firmware ID, so that the current image can be
  loaded from the flash: the layout of the example followed by a section RO_FRID of 16
  bytes that holds \<open>Google_Link.1.2\<close>. The images differ in the eight bytes of their RW
  sections only.
\<close>

definition example_frid_areas :: "fmap_area list" where
  "example_frid_areas =
     example_areas @ [\<lparr>area_offset = 372, area_size = 16, area_name = ''RO_FRID''\<rparr>]"

definition example_frid_bytes :: "byte list \<Rightarrow> byte list" where
  "example_frid_bytes rw =
     example_bytes 0x39 16 example_hwid 1 1 rw
     @ [71, 111, 111, 103, 108, 101, 95, 76, 105, 110, 107, 46, 49, 46, 50, 0]"

definition example_frid_image :: "string \<Rightarrow> byte list \<Rightarrow> firmware_image" where
  "example_frid_image name rw =
     \<lparr>programmer = ''host'', data = Some (example_frid_bytes rw), file_name = name,
      ro_version = ''Google_Link.1.2'', rw_version_a = [], rw_version_b = [],
      fmap_header = Some example_frid_areas\<rparr>"

definition example_machine :: vboot where
  "example_machine = example_vboot\<lparr>fmap_find := (\<lambda>d. Some example_frid_areas)\<rparr>"

text \<open>
  A host whose flash holds the image with the RW sections given, with debugging on or
  off.
\<close>

definition example_flash_host :: "byte list \<Rightarrow> int \<Rightarrow> host" where
  "example_flash_host rw debugging =
     example_host\<lparr>flash_dump := (\<lambda>hist prog. example_frid_bytes rw),
                  debugging_enabled := debugging\<rparr>"

text \<open>
  The configuration at the start of a run: the image to install is loaded from its
  file, the current image is not loaded, and no property is read.
\<close>

definition example_fresh :: "int \<Rightarrow> byte list \<Rightarrow> updater_config" where
  "example_fresh try rw =
     (example_config (empty_image\<lparr>programmer := ''host''\<rparr>) (example_frid_image ''new.bin'' rw))
       \<lparr>system_properties := example_getters 0, try_update := try\<rparr>"

text \<open>
  The RW sections of the image to install, and those of an older image.
\<close>

definition example_new_rw :: "byte list" where
  "example_new_rw = [5, 5, 6, 6, 7, 7, 8, 8]"

definition example_old_rw :: "byte list" where
  "example_old_rw = [1, 1, 2, 2, 3, 3, 4, 4]"

section \<open>Properties of the property cache\<close>

lemma get_system_property_cached:
  "initialized (system_properties cfg p) \<noteq> 0 \<Longrightarrow>
   get_system_property p cfg h = (prop_value (system_properties cfg p), cfg, h)"
  by (simp add: get_system_property_def)

lemma get_system_property_fresh:
  "initialized (system_properties cfg p) = 0 \<Longrightarrow>
   get_system_property p cfg h =
     (fst (getter (system_properties cfg p) h),
      override_system_property p cfg (fst (getter (system_properties cfg p) h)),
      snd (getter (system_properties cfg p) h))"
  by (simp add: get_system_property_def override_system_property_def Let_def split: prod.splits)

lemma get_system_property_fields:
  assumes "get_system_property p cfg h = (v, cfg1, h1)"
  shows "initialized (system_properties cfg1 p) \<noteq> 0"
    and "prop_value (system_properties cfg1 p) = v"
    and "q \<noteq> p \<Longrightarrow> system_properties cfg1 q = system_properties cfg q"
    and "force_update cfg1 = force_update cfg"
    and "cfg_image cfg1 = cfg_image cfg"
    and "image_current cfg1 = image_current cfg"
    and "emulation cfg1 = emulation cfg"
    and "ec_image cfg1 = ec_image cfg"
  using assms
  by (auto simp: get_system_property_def Let_def split: if_splits prod.splits)

lemma get_keeps_initialized:
  assumes "get_system_property q cfg h = (v, cfg1, h1)"
      and "initialized (system_properties cfg p) \<noteq> 0"
  shows "initialized (system_properties cfg1 p) \<noteq> 0
       \<and> prop_value (system_properties cfg1 p) = prop_value (system_properties cfg p)"
  using assms
  by (auto simp: get_system_property_def Let_def split: if_splits prod.splits)

lemma override_keeps_initialized:
  "initialized (system_properties cfg p) \<noteq> 0 \<Longrightarrow>
   initialized (system_properties (override_system_property q cfg v) p) \<noteq> 0"
  by (simp add: override_system_property_def)

lemma getter_runs_initialized:
  "initialized (system_properties cfg p) \<noteq> 0 \<Longrightarrow> getter_runs p ops cfg h = 0"
proof (induction ops arbitrary: cfg h)
  case Nil
  then show ?case by simp
next
  case (Cons op ops)
  show ?case
  proof (cases op)
    case (Get_op q)
    obtain v cfg1 h1 where g: "get_system_property q cfg h = (v, cfg1, h1)"
      by (cases "get_system_property q cfg h") auto
    from get_keeps_initialized [OF g Cons.prems]
    have "getter_runs p ops cfg1 h1 = 0" by (intro Cons.IH) simp
    with Get_op g Cons.prems show ?thesis by simp
  next
    case (Override_op q v)
    with Cons.IH [OF override_keeps_initialized [OF Cons.prems]] show ?thesis by simp
  qed
qed

lemma getter_runs_le: "getter_runs p ops cfg h \<le> 1"
proof (induction ops arbitrary: cfg h)
  case Nil
  then show ?case by simp
next
  case (Cons op ops)
  show ?case
  proof (cases op)
    case (Get_op q)
    obtain v cfg1 h1 where g: "get_system_property q cfg h = (v, cfg1, h1)"
      by (cases "get_system_property q cfg h") auto
    show ?thesis
    proof (cases "q = p \<and> initialized (system_properties cfg p) = 0")
      case True
      then have "initialized (system_properties cfg1 p) \<noteq> 0"
        using get_system_property_fields(1) [OF g] by simp
      then have "getter_runs p ops cfg1 h1 = 0" by (rule getter_runs_initialized)
      with Get_op g True show ?thesis by simp
    next
      case False
      with Get_op g Cons.IH [of cfg1 h1] show ?thesis by auto
    qed
  next
    case (Override_op q v)
    with Cons.IH show ?thesis by simp
  qed
qed

lemma run_keeps_value:
  "initialized (system_properties cfg p) \<noteq> 0 \<Longrightarrow>
   (\<forall>v. Override_op p v \<notin> set ops) \<Longrightarrow>
   run_property_ops ops cfg h = (cfg', h') \<Longrightarrow>
   initialized (system_properties cfg' p) \<noteq> 0
   \<and> prop_value (system_properties cfg' p) = prop_value (system_properties cfg p)"
proof (induction ops arbitrary: cfg h)
  case Nil
  then show ?case by simp
next
  case (Cons op ops)
  show ?case
  proof (cases op)
    case (Get_op q)
    obtain v cfg1 h1 where g: "get_system_property q cfg h = (v, cfg1, h1)"
      by (cases "get_system_property q cfg h") auto
    from get_keeps_initialized [OF g Cons.prems(1)]
    have k: "initialized (system_properties cfg1 p) \<noteq> 0"
        "prop_value (system_properties cfg1 p) = prop_value (system_properties cfg p)"
      by simp_all
    from Cons.prems Get_op g have "run_property_ops ops cfg1 h1 = (cfg', h')" by simp
    from Cons.IH [OF k(1) _ this] Cons.prems(2) k(2) show ?thesis by simp
  next
    case (Override_op q v)
    with Cons.prems have qp: "q \<noteq> p" by auto
    let ?c = "override_system_property q cfg v"
    have k: "initialized (system_properties ?c p) \<noteq> 0"
        "prop_value (system_properties ?c p) = prop_value (system_properties cfg p)"
      using Cons.prems(1) qp by (simp_all add: override_system_property_def)
    from Cons.prems Override_op have "run_property_ops ops ?c h = (cfg', h')" by simp
    from Cons.IH [OF k(1) _ this] Cons.prems(2) k(2) show ?thesis by simp
  qed
qed


lemma mem_write_length: "mem_write d off bs = Some d' \<Longrightarrow> length d' = length d"
  by (auto simp: mem_write_def split: if_splits)

lemma mem_write_inside:
  "mem_write d off bs = Some d' \<Longrightarrow> i < length bs \<Longrightarrow> d' ! (off + i) = bs ! i"
  by (auto simp: mem_write_def nth_append split: if_splits)

lemma mem_write_outside:
  assumes "mem_write d off bs = Some d'" and "j < off \<or> off + length bs \<le> j"
  shows "d' ! j = d ! j"
proof -
  from assms(1) have le: "off + length bs \<le> length d"
    and d': "d' = take off d @ bs @ drop (off + length bs) d"
    by (auto simp: mem_write_def split: if_splits)
  show ?thesis
  proof (cases "j < off")
    case True
    with le d' show ?thesis by (simp add: nth_append)
  next
    case False
    with assms(2) have j: "off + length bs \<le> j" by simp
    have "d' ! j = (bs @ drop (off + length bs) d) ! (j - off)"
      using le j d' by (simp add: nth_append)
    also have "\<dots> = drop (off + length bs) d ! (j - off - length bs)"
    proof -
      from j have "\<not> j - off < length bs" by arith
      then show ?thesis by (simp only: nth_append if_False)
    qed
    finally have "d' ! j = drop (off + length bs) d ! (j - off - length bs)" .
    also have "\<dots> = d ! j"
      using j le by simp
    finally show ?thesis .
  qed
qed

lemma mem_read_length: "mem_read d off n = Some bs \<Longrightarrow> length bs = n"
  by (auto simp: mem_read_def split: if_splits)

lemma mem_read_nth: "mem_read d off n = Some bs \<Longrightarrow> i < n \<Longrightarrow> bs ! i = d ! (off + i)"
  by (auto simp: mem_read_def split: if_splits)

section \<open>Properties of the GBB preservation\<close>

lemma mem_read_eq: "mem_read d p n = Some bs \<Longrightarrow> bs = take n (drop p d) \<and> p + n \<le> length d"
  by (auto simp: mem_read_def split: if_splits)

lemma strlen_bound: "strlen d p = Some n \<Longrightarrow> p + n < length d"
  by (auto simp: strlen_def Let_def split: if_splits)

lemma len_word:
  assumes "n < 2 ^ 31"
  shows "unat (word_of_nat n :: 32 word) = n" and "sint (word_of_nat n :: 32 word) = int n"
proof -
  from assms have "n < 2 ^ 32" by simp
  then show u: "unat (word_of_nat n :: 32 word) = n"
    by (simp add: unat_of_nat)
  have "- (2 ^ 31) \<le> int n" "int n < 2 ^ 31"
    using assms by simp_all
  then have "signed_take_bit 31 (int n) = int n"
    by (rule signed_take_bit_int_eq_self)
  then show "sint (word_of_nat n :: 32 word) = int n"
    by (simp add: signed_of_nat)
qed

lemma mem_write_twice:
  assumes "mem_write d p (replicate k 0) = Some d2"
      and "mem_write d2 p bs = Some d3"
      and "length bs \<le> k"
  shows "mem_write d p (bs @ replicate (k - length bs) 0) = Some d3"
proof -
  from assms(1) have le: "p + k \<le> length d"
    and d2: "d2 = take p d @ replicate k 0 @ drop (p + k) d"
    by (auto simp: mem_write_def split: if_splits)
  from assms(2) have d3: "d3 = take p d2 @ bs @ drop (p + length bs) d2"
    by (auto simp: mem_write_def split: if_splits)
  have t: "take p d2 = take p d" using le d2 by simp
  have "drop (p + length bs) d2 = drop (length bs) (replicate k 0 @ drop (p + k) d)"
    using le d2 by (simp add: drop_append)
  also have "\<dots> = replicate (k - length bs) 0 @ drop (p + k) d"
    using assms(3) by simp
  finally have dr: "drop (p + length bs) d2 = replicate (k - length bs) 0 @ drop (p + k) d" .
  have "length (bs @ replicate (k - length bs) 0) = k"
    using assms(3) by simp
  then show ?thesis
    using le d3 t dr by (simp add: mem_write_def)
qed

lemma preserve_gbb_missing:
  "find_gbb V image_from = None \<or> find_gbb V image_to = None \<Longrightarrow>
   preserve_gbb V image_from image_to = Some (- 1, image_to)"
  by (auto simp: preserve_gbb_def split: option.splits)

lemma read_u32_after_write:
  assumes "mem_write d p bs = Some d1" and "p + length bs \<le> q \<or> q + 4 \<le> p"
  shows "read_u32 d1 q = read_u32 d q"
proof -
  from assms(1) have le: "p + length bs \<le> length d"
    and d1: "d1 = take p d @ bs @ drop (p + length bs) d"
    by (auto simp: mem_write_def split: if_splits)
  have len: "length d1 = length d" using le d1 by simp
  have "take 4 (drop q d1) = take 4 (drop q d)" if "q + 4 \<le> length d"
  proof (rule nth_equalityI)
    show "length (take 4 (drop q d1)) = length (take 4 (drop q d))"
      using len by simp
  next
    fix i assume "i < length (take 4 (drop q d1))"
    then have i: "i < 4" by simp
    have "d1 ! (q + i) = d ! (q + i)"
      using assms(2) i by (intro mem_write_outside [OF assms(1)]) auto
    then show "take 4 (drop q d1) ! i = take 4 (drop q d) ! i"
      using i that len by simp
  qed
  then show ?thesis
    using len by (auto simp: read_u32_def mem_read_def)
qed

lemma preserve_gbb_found:
  assumes gf: "find_gbb V image_from = Some gbb_from"
      and gt: "find_gbb V image_to = Some gbb_to"
      and res: "preserve_gbb V image_from image_to = Some (r, to')"
      and small: "image_size image_from < 2 ^ 31"
      and apart: "gbb_flags_at V + 4 \<le> gbb_hwid_offset_at V"
                 "gbb_flags_at V + 4 \<le> gbb_hwid_size_at V"
  shows "\<exists>flags from_offset to_offset hwid_size n d1.
           mem_read (image_bytes image_from) (gbb_from + gbb_flags_at V) 4 = Some flags
         \<and> read_u32 (image_bytes image_from) (gbb_from + gbb_hwid_offset_at V) = Some from_offset
         \<and> read_u32 (image_bytes image_to) (gbb_to + gbb_hwid_offset_at V) = Some to_offset
         \<and> read_u32 (image_bytes image_to) (gbb_to + gbb_hwid_size_at V) = Some hwid_size
         \<and> strlen (image_bytes image_from) (gbb_from + unat from_offset) = Some n
         \<and> mem_write (image_bytes image_to) (gbb_to + gbb_flags_at V) flags = Some d1
         \<and> (if unat hwid_size < n + 1
             then r = - 1 \<and> to' = image_to\<lparr>data := Some d1\<rparr>
             else r = 0
               \<and> (\<exists>d3. to' = image_to\<lparr>data := Some d3\<rparr>
                    \<and> mem_write d1 (gbb_to + unat to_offset)
                         (take n (drop (gbb_from + unat from_offset) (image_bytes image_from))
                          @ replicate (unat hwid_size - n) 0) = Some d3))"
proof -
  let ?fd = "image_bytes image_from" and ?td = "image_bytes image_to"
  from res gf gt obtain flags d1 to_offset from_offset n hwid_size where
    f: "mem_read ?fd (gbb_from + gbb_flags_at V) 4 = Some flags"
    and w: "mem_write ?td (gbb_to + gbb_flags_at V) flags = Some d1"
    and to1: "read_u32 d1 (gbb_to + gbb_hwid_offset_at V) = Some to_offset"
    and fo: "read_u32 ?fd (gbb_from + gbb_hwid_offset_at V) = Some from_offset"
    and n: "strlen ?fd (gbb_from + unat from_offset) = Some n"
    and hs1: "read_u32 d1 (gbb_to + gbb_hwid_size_at V) = Some hwid_size"
    and rest: "(if (word_of_nat n :: 32 word) \<ge> hwid_size
                then Some (- 1, image_to\<lparr>data := Some d1\<rparr>)
                else do {
                   d2 \<leftarrow> mem_write d1 (gbb_to + unat to_offset) (replicate (unat hwid_size) 0);
                   hwid \<leftarrow> mem_read ?fd (gbb_from + unat from_offset)
                              (nat (sint (word_of_nat n :: 32 word) mod 2 ^ 64));
                   d3 \<leftarrow> mem_write d2 (gbb_to + unat to_offset) hwid;
                   Some (0, image_to\<lparr>data := Some d3\<rparr>)
                 }) = Some (r, to')"
    by (auto simp: preserve_gbb_def Let_def split: Option.bind_splits)
  have lf: "length flags = 4" using f by (rule mem_read_length)
  have to0: "read_u32 ?td (gbb_to + gbb_hwid_offset_at V) = Some to_offset"
    using read_u32_after_write [OF w, of "gbb_to + gbb_hwid_offset_at V"] lf apart to1 by simp
  have hs0: "read_u32 ?td (gbb_to + gbb_hwid_size_at V) = Some hwid_size"
    using read_u32_after_write [OF w, of "gbb_to + gbb_hwid_size_at V"] lf apart hs1 by simp
  have nb: "n < 2 ^ 31"
    using strlen_bound [OF n] small by (simp add: image_size_def)
  note lw = len_word [OF nb]
  have cmp: "(word_of_nat n :: 32 word) \<ge> hwid_size \<longleftrightarrow> unat hwid_size < n + 1"
    using lw(1) by (auto simp: word_le_nat_alt)
  have cnt: "nat (sint (word_of_nat n :: 32 word) mod 2 ^ 64) = n"
    using lw(2) nb by simp
  show ?thesis
  proof (cases "unat hwid_size < n + 1")
    case True
    with rest cmp have "r = - 1 \<and> to' = image_to\<lparr>data := Some d1\<rparr>" by simp
    with True f fo to0 hs0 n w show ?thesis by simp
  next
    case False
    with rest cmp cnt obtain d2 hwid d3 where
      w2: "mem_write d1 (gbb_to + unat to_offset) (replicate (unat hwid_size) 0) = Some d2"
      and rd: "mem_read ?fd (gbb_from + unat from_offset) n = Some hwid"
      and w3: "mem_write d2 (gbb_to + unat to_offset) hwid = Some d3"
      and r: "r = 0" "to' = image_to\<lparr>data := Some d3\<rparr>"
      by (auto split: Option.bind_splits)
    have hw: "hwid = take n (drop (gbb_from + unat from_offset) ?fd)"
      using mem_read_eq [OF rd] by simp
    have lh: "length hwid = n" using rd by (rule mem_read_length)
    have "mem_write d1 (gbb_to + unat to_offset) (hwid @ replicate (unat hwid_size - length hwid) 0)
            = Some d3"
      using w2 w3 False lh by (intro mem_write_twice) simp_all
    with hw lh have "mem_write d1 (gbb_to + unat to_offset)
             (take n (drop (gbb_from + unat from_offset) ?fd) @ replicate (unat hwid_size - n) 0)
            = Some d3" by simp
    with False f fo to0 hs0 n w r show ?thesis by simp
  qed
qed


section \<open>Properties of the checks and of the choice of a target\<close>

lemma do_check_tpm_frame:
  assumes "do_check_compatible_tpm_keys V cfg img h = Some (r, cfg', h')"
  shows "(\<forall>q. q \<noteq> SYS_PROP_TPM_FWVER \<longrightarrow> system_properties cfg' q = system_properties cfg q)
       \<and> force_update cfg' = force_update cfg \<and> cfg_image cfg' = cfg_image cfg
       \<and> image_current cfg' = image_current cfg \<and> emulation cfg' = emulation cfg
       \<and> ec_image cfg' = ec_image cfg"
proof -
  obtain v cfg1 h1 where g: "get_system_property SYS_PROP_TPM_FWVER cfg h = (v, cfg1, h1)"
    by (cases "get_system_property SYS_PROP_TPM_FWVER cfg h") auto
  have "cfg' = cfg \<or> cfg' = cfg1"
    using assms g
    by (auto simp: do_check_compatible_tpm_keys_def Let_def split: Option.bind_splits if_splits)
  then show ?thesis
    using get_system_property_fields [OF g] by auto
qed

lemma check_tpm_frame:
  assumes "check_compatible_tpm_keys V cfg img h = Some (r, cfg', h')"
  shows "(\<forall>q. q \<noteq> SYS_PROP_TPM_FWVER \<longrightarrow> system_properties cfg' q = system_properties cfg q)
       \<and> force_update cfg' = force_update cfg \<and> cfg_image cfg' = cfg_image cfg
       \<and> image_current cfg' = image_current cfg \<and> emulation cfg' = emulation cfg
       \<and> ec_image cfg' = ec_image cfg"
proof -
  from assms obtain r0 where "do_check_compatible_tpm_keys V cfg img h = Some (r0, cfg', h')"
    by (auto simp: check_compatible_tpm_keys_def split: Option.bind_splits if_splits)
  then show ?thesis by (rule do_check_tpm_frame)
qed

lemma section_names_distinct: "FMAP_RW_SECTION_A \<noteq> FMAP_RW_SECTION_B"
  by (simp add: FMAP_RW_SECTION_A_def FMAP_RW_SECTION_B_def)

lemma decide_rw_target_eq:
  assumes "get_system_property SYS_PROP_MAINFW_ACT cfg h = (slot, cfg1, h1)"
  shows "decide_rw_target cfg target is_vboot2 h =
      (if is_vboot2 = 0 \<or> slot = SLOT_A
       then Some (case target of TARGET_UPDATE \<Rightarrow> FMAP_RW_SECTION_B
                  | TARGET_SELF \<Rightarrow> FMAP_RW_SECTION_A)
       else if slot = SLOT_B
       then Some (case target of TARGET_UPDATE \<Rightarrow> FMAP_RW_SECTION_A
                  | TARGET_SELF \<Rightarrow> FMAP_RW_SECTION_B)
       else None, cfg1, h1)"
  using assms by (cases target) (simp_all add: decide_rw_target_def)

lemma check_tpm_eq:
  assumes "get_key_versions V rw_image FMAP_RW_VBLOCK_A (0, 0) = Some (0, dkv, fv)"
      and "get_system_property SYS_PROP_TPM_FWVER cfg h = (tpm_fwver, cfg1, h1)"
  shows "do_check_compatible_tpm_keys V cfg rw_image h =
           Some (if sint tpm_fwver < 0 then - 1
                 else if drop_bit 16 tpm_fwver \<le> dkv \<and> tpm_fwver AND 0xffff \<le> fv then 0
                 else - 1, cfg1, h1)"
    and "check_compatible_tpm_keys V cfg rw_image h =
           Some (if force_update cfg \<noteq> 0 then 0
                 else if sint tpm_fwver < 0 then - 1
                 else if drop_bit 16 tpm_fwver \<le> dkv \<and> tpm_fwver AND 0xffff \<le> fv then 0
                 else - 1, cfg1, h1)"
proof -
  have f: "force_update cfg1 = force_update cfg"
    using assms(2) by (rule get_system_property_fields)
  show d: "do_check_compatible_tpm_keys V cfg rw_image h =
           Some (if sint tpm_fwver < 0 then - 1
                 else if drop_bit 16 tpm_fwver \<le> dkv \<and> tpm_fwver AND 0xffff \<le> fv then 0
                 else - 1, cfg1, h1)"
    using assms by (auto simp: do_check_compatible_tpm_keys_def not_less)
  show "check_compatible_tpm_keys V cfg rw_image h =
           Some (if force_update cfg \<noteq> 0 then 0
                 else if sint tpm_fwver < 0 then - 1
                 else if drop_bit 16 tpm_fwver \<le> dkv \<and> tpm_fwver AND 0xffff \<le> fv then 0
                 else - 1, cfg1, h1)"
    unfolding d check_compatible_tpm_keys_def using f by simp
qed

section \<open>Facts about the example system\<close>

lemma example_key_versions:
  "get_key_versions example_vboot example_new FMAP_RW_VBLOCK_A (0, 0) = Some (0, 1, 1)"
  by code_simp

lemma example_sections:
  "firmware_section_exists example_current FMAP_RW_LEGACY"
  "firmware_section_exists example_new FMAP_RW_LEGACY"
  "section_in_image example_current FMAP_RW_LEGACY"
  "section_in_image example_new FMAP_RW_LEGACY"
  by code_simp+

lemma example_preserve_gbb:
  "preserve_gbb example_vboot example_current example_new = Some (0, example_new_preserved)"
  by code_simp

lemma example_root_key:
  "check_compatible_root_key example_vboot example_current example_new_preserved = Some 0"
  by code_simp

lemma example_preserved_versions:
  "get_key_versions example_vboot example_new_preserved FMAP_RW_VBLOCK_A (0, 0) = Some (0, 1, 1)"
  by code_simp

lemma example_tpm_value:
  "\<not> sint (0x10001 :: 32 word) < 0" "drop_bit 16 (0x10001 :: 32 word) \<le> 1"
  "(0x10001 :: 32 word) AND 0xffff \<le> 1"
  by code_simp+

lemma example_properties_fields:
  "system_properties (example_properties a t v w cfg) SYS_PROP_MAINFW_ACT
     = (system_properties cfg SYS_PROP_MAINFW_ACT)\<lparr>initialized := 1, prop_value := a\<rparr>"
  "system_properties (example_properties a t v w cfg) SYS_PROP_TPM_FWVER
     = (system_properties cfg SYS_PROP_TPM_FWVER)\<lparr>initialized := 1, prop_value := t\<rparr>"
  "system_properties (example_properties a t v w cfg) SYS_PROP_FW_VBOOT2
     = (system_properties cfg SYS_PROP_FW_VBOOT2)\<lparr>initialized := 1, prop_value := v\<rparr>"
  "system_properties (example_properties a t v w cfg) SYS_PROP_WP_HW
     = (system_properties cfg SYS_PROP_WP_HW)\<lparr>initialized := 1, prop_value := w\<rparr>"
  "system_properties (example_properties a t v w cfg) SYS_PROP_WP_SW
     = (system_properties cfg SYS_PROP_WP_SW)\<lparr>initialized := 1, prop_value := w\<rparr>"
  "cfg_image (example_properties a t v w cfg) = cfg_image cfg"
  "image_current (example_properties a t v w cfg) = image_current cfg"
  "ec_image (example_properties a t v w cfg) = ec_image cfg"
  "pd_image (example_properties a t v w cfg) = pd_image cfg"
  "quirks (example_properties a t v w cfg) = quirks cfg"
  "tempfiles (example_properties a t v w cfg) = tempfiles cfg"
  "try_update (example_properties a t v w cfg) = try_update cfg"
  "force_update (example_properties a t v w cfg) = force_update cfg"
  "legacy_update (example_properties a t v w cfg) = legacy_update cfg"
  "verbosity (example_properties a t v w cfg) = verbosity cfg"
  "emulation (example_properties a t v w cfg) = emulation cfg"
  by (simp_all add: example_properties_def override_system_property_def)

lemma example_gbb_exact:
  "preserve_gbb example_vboot example_current (example_candidate 0 10 [])
     = Some (0, example_candidate 0x39 10 example_hwid)"
  by code_simp

lemma example_current_size: "image_size example_current < 2 ^ 31"
  by (simp add: image_size_def image_bytes_def example_current_def example_image_def example_bytes_def example_hwid_def)

lemma example_gbb_layout:
  "gbb_flags_at example_vboot + 4 \<le> gbb_hwid_offset_at example_vboot"
  "gbb_flags_at example_vboot + 4 \<le> gbb_hwid_size_at example_vboot"
  by (simp_all add: example_vboot_def)

lemma example_gbb_found:
  "find_gbb example_vboot example_current = Some 0"
  "find_gbb example_vboot (example_candidate 0 10 []) = Some 0"
  "strlen (image_bytes example_current) 128 = Some 9"
  by code_simp+

lemma example_hwid_sizes:
  "read_u32 (image_bytes (example_candidate 0 10 [])) 20 = Some 10"
  "read_u32 (image_bytes (example_candidate 0 9 [])) 20 = Some 9"
  by code_simp+

lemma example_gbb_preserved:
  "mem_read (image_bytes (example_candidate 0x39 10 example_hwid)) 12 4 = Some [0x39, 0, 0, 0]"
  "mem_read (image_bytes (example_candidate 0x39 10 example_hwid)) 128 10
     = Some (example_hwid @ [0])"
  by code_simp+


lemma flash_writes_append: "flash_writes (xs @ ys) = flash_writes xs @ flash_writes ys"
  by (induction xs rule: flash_writes.induct) simp_all

lemma perform_events:
  "perform e h = (r, h') \<Longrightarrow> events h' = events h @ [(e, r)]"
  by (auto simp: perform_def Let_def)

lemma vb2_write_file_events:
  "vb2_write_file path bytes h = (r, h') \<Longrightarrow> events h' = events h @ [(Write_file path bytes, r)]"
  by (auto simp: vb2_write_file_def perform_def Let_def split: if_splits)

lemma host_flashrom_events:
  "host_flashrom op path prog verbose section h = (r, h') \<Longrightarrow>
   events h' = events h @ [(Flashrom op path prog
                              (case section of None \<Rightarrow> None
                               | Some n \<Rightarrow> if n = [] then None else Some n), r)]"
  by (auto simp: host_flashrom_def perform_def Let_def split: if_splits)

lemma updater_create_temp_file_events:
  "updater_create_temp_file cfg h = (tmp, cfg', h') \<Longrightarrow>
   (\<exists>r. events h' = events h @ [(Mkstemp, r)])
   \<and> cfg' = cfg\<lparr>tempfiles := tempfiles cfg'\<rparr>"
  by (auto simp: updater_create_temp_file_def split: option.splits)

lemma write_firmware_flash:
  assumes "emulation cfg = None"
      and "write_firmware V cfg img (Some name) h = Some (w, cfg', h')"
      and "name \<noteq> []"
  shows "\<exists>evs. events h' = events h @ evs
           \<and> (flash_writes evs = [(programmer img, Some name, w)]
               \<or> flash_writes evs = [] \<and> w \<noteq> 0)"
    and "cfg' = cfg\<lparr>tempfiles := tempfiles cfg'\<rparr>"
proof -
  obtain tmp cfg1 h1 where t: "updater_create_temp_file cfg h = (tmp, cfg1, h1)"
    by (cases "updater_create_temp_file cfg h") auto
  from updater_create_temp_file_events [OF t] obtain r1 where
    e1: "events h1 = events h @ [(Mkstemp, r1)]" and c1: "cfg1 = cfg\<lparr>tempfiles := tempfiles cfg1\<rparr>"
    by auto
  have "emulation (cfg\<lparr>tempfiles := tempfiles cfg1\<rparr>) = None" using assms(1) by simp
  then have em: "emulation cfg1 = None" using c1 by simp
  show "\<exists>evs. events h' = events h @ evs
           \<and> (flash_writes evs = [(programmer img, Some name, w)]
               \<or> flash_writes evs = [] \<and> w \<noteq> 0)"
  proof (cases tmp)
    case None
    with assms(2) t have "w = - 1" "h' = h1" by (auto simp: write_firmware_def)
    with e1 show ?thesis by auto
  next
    case (Some path)
    obtain w2 h2 where v: "vb2_write_file path (image_bytes img) h1 = (w2, h2)"
      by (cases "vb2_write_file path (image_bytes img) h1") auto
    note e2 = vb2_write_file_events [OF v]
    show ?thesis
    proof (cases "w2 = 0")
      case False
      with assms(2) t Some em v have "w = - 1" "h' = h2" by (auto simp: write_firmware_def)
      with e1 e2 show ?thesis by auto
    next
      case True
      obtain w3 h3 where f: "host_flashrom FLASHROM_WRITE path (programmer img)
                               (verbosity cfg1 + 1) (Some name) h2 = (w3, h3)"
        by (cases "host_flashrom FLASHROM_WRITE path (programmer img)
                               (verbosity cfg1 + 1) (Some name) h2") auto
      note e3 = host_flashrom_events [OF f]
      from assms(2) t Some em v True f have "w = w3" "h' = h3" by (auto simp: write_firmware_def)
      with e1 e2 e3 assms(3) show ?thesis by auto
    qed
  qed
  show "cfg' = cfg\<lparr>tempfiles := tempfiles cfg'\<rparr>"
    using assms(2) t c1
    by (auto simp: write_firmware_def Let_def split: option.splits prod.splits if_splits)
qed

lemma tempfiles_only:
  assumes "cfg' = cfg\<lparr>tempfiles := t\<rparr>"
  shows "emulation cfg' = emulation cfg" "cfg_image cfg' = cfg_image cfg"
    "image_current cfg' = image_current cfg" "system_properties cfg' = system_properties cfg"
    "force_update cfg' = force_update cfg" "ec_image cfg' = ec_image cfg"
    "verbosity cfg' = verbosity cfg"
  using assms by simp_all

lemma write_sections_flash:
  assumes "emulation cfg = None"
      and "write_sections V cfg names h = Some (w, cfg', h')"
      and "[] \<notin> set names"
  shows "\<exists>evs k tail.
           events h' = events h @ evs \<and> k \<le> length names
         \<and> flash_writes evs
             = map (\<lambda>n. (programmer (cfg_image cfg), Some n, 0)) (take k names) @ tail
         \<and> (if w = 0 then k = length names \<and> tail = []
             else k < length names
                  \<and> (tail = [] \<or> tail = [(programmer (cfg_image cfg), Some (names ! k), w)]))"
  using assms
proof (induction names arbitrary: cfg h)
  case Nil
  then show ?case by simp
next
  case (Cons name names)
  from Cons.prems(2) obtain w1 cfg1 h1 where
    w1: "write_firmware V cfg (cfg_image cfg) (Some name) h = Some (w1, cfg1, h1)"
    by (auto split: Option.bind_splits)
  from Cons.prems(3) have ne: "name \<noteq> []" "[] \<notin> set names" by auto
  from write_firmware_flash [OF Cons.prems(1) w1 ne(1)] obtain evs1 where
    e1: "events h1 = events h @ evs1"
    and f1: "flash_writes evs1 = [(programmer (cfg_image cfg), Some name, w1)]
             \<or> flash_writes evs1 = [] \<and> w1 \<noteq> 0"
    and c1: "cfg1 = cfg\<lparr>tempfiles := tempfiles cfg1\<rparr>"
    by blast
  note k1 = tempfiles_only [OF c1]
  show ?case
  proof (cases "w1 = 0")
    case False
    with Cons.prems(2) w1 have r: "w = w1" "h' = h1" by auto
    from f1 False r e1 have
      "events h' = events h @ evs1 \<and> (0::nat) \<le> length (name # names)
       \<and> flash_writes evs1 = map (\<lambda>n. (programmer (cfg_image cfg), Some n, 0))
                                (take 0 (name # names)) @ flash_writes evs1
       \<and> (if w = 0 then 0 = length (name # names) \<and> flash_writes evs1 = []
           else 0 < length (name # names)
                \<and> (flash_writes evs1 = []
                    \<or> flash_writes evs1 = [(programmer (cfg_image cfg),
                                             Some ((name # names) ! 0), w)]))"
      by auto
    then show ?thesis by blast
  next
    case True
    with Cons.prems(2) w1 have rest: "write_sections V cfg1 names h1 = Some (w, cfg', h')"
      by simp
    have em: "emulation cfg1 = None" using k1(1) Cons.prems(1) by simp
    from Cons.IH [OF em rest ne(2)] obtain evs k tail where
      e2: "events h' = events h1 @ evs" and k: "k \<le> length names"
      and f2: "flash_writes evs
             = map (\<lambda>n. (programmer (cfg_image cfg1), Some n, 0)) (take k names) @ tail"
      and t: "if w = 0 then k = length names \<and> tail = []
             else k < length names
                  \<and> (tail = [] \<or> tail = [(programmer (cfg_image cfg1), Some (names ! k), w)])"
      by blast
    from f1 True have f1': "flash_writes evs1 = [(programmer (cfg_image cfg), Some name, 0)]"
      by simp
    have "events h' = events h @ (evs1 @ evs) \<and> Suc k \<le> length (name # names)
       \<and> flash_writes (evs1 @ evs)
           = map (\<lambda>n. (programmer (cfg_image cfg), Some n, 0)) (take (Suc k) (name # names)) @ tail
       \<and> (if w = 0 then Suc k = length (name # names) \<and> tail = []
           else Suc k < length (name # names)
                \<and> (tail = [] \<or> tail = [(programmer (cfg_image cfg),
                                          Some ((name # names) ! Suc k), w)]))"
      using e1 e2 k f1' f2 t k1(2) by (auto simp: flash_writes_append split: if_splits)
    then show ?thesis by blast
  qed
qed

lemma write_firmware_config:
  assumes "write_firmware V cfg img section h = Some (w, cfg', h')"
  shows "cfg' = cfg\<lparr>tempfiles := tempfiles cfg'\<rparr>"
proof -
  obtain tmp cfg1 h1 where t: "updater_create_temp_file cfg h = (tmp, cfg1, h1)"
    by (cases "updater_create_temp_file cfg h") auto
  from updater_create_temp_file_events [OF t]
  have c1: "cfg1 = cfg\<lparr>tempfiles := tempfiles cfg1\<rparr>" by simp
  from assms t have "cfg' = cfg1"
    by (auto simp: write_firmware_def Let_def split: option.splits prod.splits if_splits)
  with c1 show ?thesis by simp
qed

lemma no_data_no_section: "data img = None \<Longrightarrow> \<not> firmware_section_exists img name"
  by (simp add: firmware_section_exists_def find_firmware_section_def no_section_def)

lemma write_optional_section:
  "write_optional_firmware V cfg img (Some name) h =
     (if firmware_section_exists img name then write_firmware V cfg img (Some name) h
      else Some (0, cfg, h))"
  using no_data_no_section [of img name] by (auto simp: write_optional_firmware_def)

lemma update_rw_refines:
  assumes rk: "check_compatible_root_key V (image_current cfg) (cfg_image cfg) = Some 0"
      and tk: "check_compatible_tpm_keys V cfg (cfg_image cfg) h = Some (0, cfg1, h1)"
  shows "update_rw_firmrware V cfg h =
           do {
             (w, cfg', h') \<leftarrow> write_sections V cfg1 (rw_sections (cfg_image cfg1)) h1;
             Some (if w \<noteq> 0 then UPDATE_ERR_WRITE_FIRMWARE else UPDATE_ERR_DONE, cfg', h')
           }"
proof -
  let ?W = "\<lambda>n c k. write_firmware V c (cfg_image c) (Some n) k"
  let ?img = "cfg_image cfg1"
  let ?fin = "\<lambda>(w :: int, c :: updater_config, k :: host).
                if w \<noteq> 0 then Some (UPDATE_ERR_WRITE_FIRMWARE, c, k)
                else Some (UPDATE_ERR_DONE, c, k)"
  have fin: "?fin = (\<lambda>(w, c, k).
                Some (if w \<noteq> 0 then UPDATE_ERR_WRITE_FIRMWARE else UPDATE_ERR_DONE, c, k))"
    by (auto simp: fun_eq_iff)
  let ?legacy = "if firmware_section_exists ?img FMAP_RW_LEGACY then [FMAP_RW_LEGACY] else []"
  have last: "write_optional_firmware V c (cfg_image c) (Some FMAP_RW_LEGACY) k \<bind> ?fin
              = write_sections V c ?legacy k \<bind> ?fin"
    if "cfg_image c = ?img" for c k
    using that by (auto simp: write_optional_section split: Option.bind_splits)
  have step: "(?W n c k \<bind> (\<lambda>(w, c', k').
                 if w \<noteq> 0 then Some (UPDATE_ERR_WRITE_FIRMWARE, c', k') else rest c' k'))
              = write_sections V c (n # ns) k \<bind> ?fin"
    if "\<And>c' k'. cfg_image c' = ?img \<Longrightarrow> rest c' k' = write_sections V c' ns k' \<bind> ?fin"
      and "cfg_image c = ?img" for n ns c k rest
  proof (cases "?W n c k")
    case None
    then show ?thesis by simp
  next
    case (Some res)
    obtain w c' k' where res: "res = (w, c', k')" by (cases res) auto
    from write_firmware_config [of V c "cfg_image c" "Some n" k w c' k'] Some res
    have "c' = c\<lparr>tempfiles := tempfiles c'\<rparr>" by simp
    then have "cfg_image c' = cfg_image c" by (rule tempfiles_only)
    with that(2) have "cfg_image c' = ?img" by simp
    from that(1) [OF this] Some res show ?thesis by simp
  qed
  have s3: "(?W FMAP_RW_SHARED c k \<bind> (\<lambda>(w, c', k').
                 if w \<noteq> 0 then Some (UPDATE_ERR_WRITE_FIRMWARE, c', k')
                 else write_optional_firmware V c' (cfg_image c') (Some FMAP_RW_LEGACY) k' \<bind> ?fin))
            = write_sections V c (FMAP_RW_SHARED # ?legacy) k \<bind> ?fin"
    if "cfg_image c = ?img" for c k
    by (rule step [OF last that])
  have s2: "(?W FMAP_RW_SECTION_B c k \<bind> (\<lambda>(w, c', k').
                 if w \<noteq> 0 then Some (UPDATE_ERR_WRITE_FIRMWARE, c', k')
                 else ?W FMAP_RW_SHARED c' k' \<bind> (\<lambda>(w, c', k').
                   if w \<noteq> 0 then Some (UPDATE_ERR_WRITE_FIRMWARE, c', k')
                   else write_optional_firmware V c' (cfg_image c') (Some FMAP_RW_LEGACY) k'
                          \<bind> ?fin)))
            = write_sections V c (FMAP_RW_SECTION_B # FMAP_RW_SHARED # ?legacy) k \<bind> ?fin"
    if "cfg_image c = ?img" for c k
    by (rule step [OF s3 that])
  have s1: "(?W FMAP_RW_SECTION_A c k \<bind> (\<lambda>(w, c', k').
                 if w \<noteq> 0 then Some (UPDATE_ERR_WRITE_FIRMWARE, c', k')
                 else ?W FMAP_RW_SECTION_B c' k' \<bind> (\<lambda>(w, c', k').
                   if w \<noteq> 0 then Some (UPDATE_ERR_WRITE_FIRMWARE, c', k')
                   else ?W FMAP_RW_SHARED c' k' \<bind> (\<lambda>(w, c', k').
                     if w \<noteq> 0 then Some (UPDATE_ERR_WRITE_FIRMWARE, c', k')
                     else write_optional_firmware V c' (cfg_image c') (Some FMAP_RW_LEGACY) k'
                            \<bind> ?fin))))
            = write_sections V c
                (FMAP_RW_SECTION_A # FMAP_RW_SECTION_B # FMAP_RW_SHARED # ?legacy) k \<bind> ?fin"
    if "cfg_image c = ?img" for c k
    by (rule step [OF s2 that])
  have "update_rw_firmrware V cfg h
          = write_sections V cfg1
              (FMAP_RW_SECTION_A # FMAP_RW_SECTION_B # FMAP_RW_SHARED # ?legacy) h1 \<bind> ?fin"
    unfolding s1 [of cfg1 h1, OF refl, symmetric]
    by (simp add: update_rw_firmrware_def rk tk)
  then show ?thesis unfolding fin by (simp add: rw_sections_def)
qed

lemma rw_sections_nonempty: "[] \<notin> set (rw_sections img)"
  by (simp add: rw_sections_def FMAP_RW_SECTION_A_def FMAP_RW_SECTION_B_def
        FMAP_RW_SHARED_def FMAP_RW_LEGACY_def)

lemma example_system_fields:
  "cfg_image example_system = example_new"
  "image_current example_system = example_current"
  "emulation example_system = None"
  "force_update example_system = 0"
  by (simp_all add: example_system_def example_properties_fields example_config_def)

lemma example_system_root_key:
  "check_compatible_root_key example_vboot example_current example_new = Some 0"
  by code_simp

lemma example_system_tpm:
  "check_compatible_tpm_keys example_vboot example_system example_new h
     = Some (0, example_system, h)"
proof -
  have g: "get_system_property SYS_PROP_TPM_FWVER example_system h = (0x10001, example_system, h)"
    by (simp add: get_system_property_def example_system_def example_properties_fields)
  show ?thesis
    using check_tpm_eq(2) [OF example_key_versions g] example_tpm_value
    by (simp add: example_system_fields)
qed

lemma example_rw_sections:
  "rw_sections example_new = [''RW_SECTION_A'', ''RW_SECTION_B'', ''RW_SHARED'', ''RW_LEGACY'']"
  by code_simp

lemma example_rw_update:
  "map_option (\<lambda>(r, c, k). (r, flash_writes (events k)))
     (update_rw_firmrware example_vboot example_system example_host)
   = Some (UPDATE_ERR_DONE,
           [(''host'', Some ''RW_SECTION_A'', 0), (''host'', Some ''RW_SECTION_B'', 0),
            (''host'', Some ''RW_SHARED'', 0), (''host'', Some ''RW_LEGACY'', 0)])"
  by code_simp

lemma example_rw_update_failing:
  "map_option (\<lambda>(r, c, k). (r, flash_writes (events k)))
     (update_rw_firmrware example_vboot example_system (example_failing_host ''RW_SECTION_B''))
   = Some (UPDATE_ERR_WRITE_FIRMWARE,
           [(''host'', Some ''RW_SECTION_A'', 0), (''host'', Some ''RW_SECTION_B'', 1)])"
  by code_simp

lemma example_rw_update_no_legacy:
  "map_option (\<lambda>(r, c, k). (r, flash_writes (events k)))
     (update_rw_firmrware example_vboot
        (example_system\<lparr>cfg_image := example_new\<lparr>fmap_header := Some (butlast example_areas)\<rparr>\<rparr>)
        example_host)
   = Some (UPDATE_ERR_DONE,
           [(''host'', Some ''RW_SECTION_A'', 0), (''host'', Some ''RW_SECTION_B'', 0),
            (''host'', Some ''RW_SHARED'', 0)])"
  by code_simp

lemma cbfs_file_exists_events:
  "cbfs_file_exists f section entry h = (r, h') \<Longrightarrow>
   \<exists>x. events h' = events h @ [(Cbfstool f section entry, x)]"
  by (auto simp: cbfs_file_exists_def Let_def)

section \<open>Properties of the update strategies\<close>

lemma get_system_property_entry:
  "system_properties c p = system_properties cfg p \<Longrightarrow>
   fst (get_system_property p c k) = fst (get_system_property p cfg k)"
  by (simp add: get_system_property_def Let_def split: prod.splits)

lemma try_rw_unknown_slot_run:
  assumes v: "get_system_property SYS_PROP_FW_VBOOT2 cfg h = (v, c1, k1)" "v \<noteq> 0"
      and unk: "\<And>k. fst (get_system_property SYS_PROP_MAINFW_ACT cfg k) \<noteq> SLOT_A
                   \<and> fst (get_system_property SYS_PROP_MAINFW_ACT cfg k) \<noteq> SLOT_B"
  shows "update_try_rw_firmware V cfg wp_enabled h =
     do {
       (r0, to1) \<leftarrow> preserve_gbb V (image_current cfg) (cfg_image cfg);
       ro \<leftarrow> (if wp_enabled = 0
               then section_needs_update (image_current cfg) to1 (Some FMAP_RO_SECTION)
               else Some 0);
       if ro \<noteq> 0 then Some (UPDATE_ERR_NEED_RO_UPDATE, c1\<lparr>cfg_image := to1\<rparr>, k1)
       else do {
         rk \<leftarrow> check_compatible_root_key V (image_current cfg) to1;
         if rk \<noteq> 0 then Some (UPDATE_ERR_ROOT_KEY, c1\<lparr>cfg_image := to1\<rparr>, k1)
         else do {
           (tk, cfg3, h3) \<leftarrow> check_compatible_tpm_keys V (c1\<lparr>cfg_image := to1\<rparr>) to1 k1;
           if tk \<noteq> 0 then Some (UPDATE_ERR_TPM_ROLLBACK, cfg3, h3)
           else Some (UPDATE_ERR_TARGET, snd (get_system_property SYS_PROP_MAINFW_ACT cfg3 h3))
         }
       }
     }"
proof -
  note f1 = get_system_property_fields [OF v(1)]
  have im: "image_current c1 = image_current cfg" "cfg_image c1 = cfg_image cfg"
    using f1 by simp_all
  have p1: "system_properties c1 SYS_PROP_MAINFW_ACT = system_properties cfg SYS_PROP_MAINFW_ACT"
    using f1(3) [of SYS_PROP_MAINFW_ACT] by simp
  have key: "decide_rw_target cfg3 TARGET_SELF v h3
               = (None, snd (get_system_property SYS_PROP_MAINFW_ACT cfg3 h3))"
    if tk: "check_compatible_tpm_keys V (c1\<lparr>cfg_image := to1\<rparr>) to1 k1 = Some (tk, cfg3, h3)"
    for to1 tk cfg3 h3
  proof -
    from check_tpm_frame [OF tk]
    have "system_properties cfg3 SYS_PROP_MAINFW_ACT
            = system_properties (c1\<lparr>cfg_image := to1\<rparr>) SYS_PROP_MAINFW_ACT"
      by simp
    with p1 have "system_properties cfg3 SYS_PROP_MAINFW_ACT
                    = system_properties cfg SYS_PROP_MAINFW_ACT" by simp
    from get_system_property_entry [OF this, of h3] unk [of h3]
    have u: "fst (get_system_property SYS_PROP_MAINFW_ACT cfg3 h3) \<noteq> SLOT_A"
        "fst (get_system_property SYS_PROP_MAINFW_ACT cfg3 h3) \<noteq> SLOT_B"
      by simp_all
    obtain slot cfg4 h4 where g: "get_system_property SYS_PROP_MAINFW_ACT cfg3 h3 = (slot, cfg4, h4)"
      by (cases "get_system_property SYS_PROP_MAINFW_ACT cfg3 h3") auto
    from decide_rw_target_eq [OF g, of TARGET_SELF v] u g v(2) show ?thesis by simp
  qed
  show ?thesis
  proof (cases "preserve_gbb V (image_current cfg) (cfg_image cfg)")
    case None
    then show ?thesis by (simp add: update_try_rw_firmware_def v im Let_def)
  next
    case (Some p)
    then obtain r0 to1 where pg: "preserve_gbb V (image_current cfg) (cfg_image cfg) = Some (r0, to1)"
      by (cases p) auto
    let ?ro = "if wp_enabled = 0
               then section_needs_update (image_current cfg) to1 (Some FMAP_RO_SECTION)
               else Some 0"
    show ?thesis
    proof (cases ?ro)
      case None
      then show ?thesis by (cases "wp_enabled = 0") (simp_all add: update_try_rw_firmware_def v im pg Let_def)
    next
      case ro: (Some ro)
      show ?thesis
      proof (cases "ro = 0")
        case False
        with ro show ?thesis by (cases "wp_enabled = 0") (simp_all add: update_try_rw_firmware_def v im pg Let_def)
      next
        case ro0: True
        show ?thesis
        proof (cases "check_compatible_root_key V (image_current cfg) to1")
          case None
          with ro ro0 show ?thesis by (cases "wp_enabled = 0") (simp_all add: update_try_rw_firmware_def v im pg Let_def)
        next
          case rk: (Some rk)
          show ?thesis
          proof (cases "rk = 0")
            case False
            with ro ro0 rk show ?thesis by (cases "wp_enabled = 0") (simp_all add: update_try_rw_firmware_def v im pg Let_def)
          next
            case rk0: True
            show ?thesis
            proof (cases "check_compatible_tpm_keys V (c1\<lparr>cfg_image := to1\<rparr>) to1 k1")
              case None
              with ro ro0 rk rk0 show ?thesis by (cases "wp_enabled = 0") (simp_all add: update_try_rw_firmware_def v im pg Let_def)
            next
              case (Some t)
              then obtain tk cfg3 h3 where
                tk: "check_compatible_tpm_keys V (c1\<lparr>cfg_image := to1\<rparr>) to1 k1 = Some (tk, cfg3, h3)"
                by (cases t) auto
              show ?thesis
              proof (cases "tk = 0")
                case False
                with ro ro0 rk rk0 tk show ?thesis
                  by (cases "wp_enabled = 0") (simp_all add: update_try_rw_firmware_def v im pg Let_def)
              next
                case True
                with ro ro0 rk rk0 tk key [OF tk] show ?thesis
                  by (cases "wp_enabled = 0") (simp_all add: update_try_rw_firmware_def v im pg Let_def)
              qed
            qed
          qed
        qed
      qed
    qed
  qed
qed

lemma try_rw_unknown_slot_code:
  assumes v: "get_system_property SYS_PROP_FW_VBOOT2 cfg h = (v, c1, k1)" "v \<noteq> 0"
      and unk: "\<And>k. fst (get_system_property SYS_PROP_MAINFW_ACT cfg k) \<noteq> SLOT_A
                   \<and> fst (get_system_property SYS_PROP_MAINFW_ACT cfg k) \<noteq> SLOT_B"
      and run: "update_try_rw_firmware V cfg wp_enabled h = Some (r, c', k')"
  shows "r = UPDATE_ERR_NEED_RO_UPDATE \<or> r = UPDATE_ERR_ROOT_KEY
         \<or> r = UPDATE_ERR_TPM_ROLLBACK \<or> r = UPDATE_ERR_TARGET"
  using run unfolding try_rw_unknown_slot_run [OF v unk]
  by (auto split: Option.bind_splits if_splits)

lemma bind_if_distrib:
  "Option.bind (if c then a else b) K = (if c then Option.bind a K else Option.bind b K)"
  by simp

lemma bind_case_prod_distrib:
  "Option.bind (case p of (a, b) \<Rightarrow> f a b) K = (case p of (a, b) \<Rightarrow> Option.bind (f a b) K)"
  by (cases p) simp

lemma update_firmware_split:
  "update_firmware V Q cfg h =
     do {
       s \<leftarrow> update_firmware_start V Q cfg h;
       case s of
         Inl stopped \<Rightarrow> Some stopped
       | Inr (wp_enabled, cfg9, h9) \<Rightarrow>
           if legacy_update cfg9 \<noteq> 0 then update_legacy_firmware V cfg9 h9
           else if try_update cfg9 \<noteq> 0
           then do {
             (r, cfg10, h10) \<leftarrow> update_try_rw_firmware V cfg9 wp_enabled h9;
             if r \<noteq> UPDATE_ERR_NEED_RO_UPDATE then Some (r, cfg10, h10)
             else if wp_enabled \<noteq> 0 then update_rw_firmrware V cfg10 h10
             else update_whole_firmware V Q cfg10 h10
           }
           else if wp_enabled \<noteq> 0 then update_rw_firmrware V cfg9 h9
           else update_whole_firmware V Q cfg9 h9
     }"
  unfolding update_firmware_def update_firmware_start_def
  by (simp add: Let_def bind_if_distrib bind_case_prod_distrib
        cong: if_cong)

lemma write_firmware_returns:
  assumes "emulation cfg = None"
  shows "\<exists>w cfg' h'. write_firmware V cfg img section h = Some (w, cfg', h')"
proof -
  obtain tmp cfg1 h1 where t: "updater_create_temp_file cfg h = (tmp, cfg1, h1)"
    by (cases "updater_create_temp_file cfg h") auto
  from updater_create_temp_file_events [OF t]
  have c1: "cfg1 = cfg\<lparr>tempfiles := tempfiles cfg1\<rparr>" by simp
  have em: "emulation cfg1 = None" using tempfiles_only(1) [OF c1] assms by simp
  show ?thesis
    using t em
    by (auto simp: write_firmware_def Let_def split: option.splits prod.splits)
qed

lemma write_sections_returns:
  assumes "emulation cfg = None"
  shows "\<exists>w cfg' h'. write_sections V cfg names h = Some (w, cfg', h')"
  using assms
proof (induction names arbitrary: cfg h)
  case Nil
  then show ?case by simp
next
  case (Cons name names)
  from write_firmware_returns [OF Cons.prems, of V "cfg_image cfg" "Some name" h]
  obtain w cfg1 h1 where w: "write_firmware V cfg (cfg_image cfg) (Some name) h = Some (w, cfg1, h1)"
    by blast
  from write_firmware_config [OF w] have "cfg1 = cfg\<lparr>tempfiles := tempfiles cfg1\<rparr>" .
  from tempfiles_only(1) [OF this] Cons.prems have "emulation cfg1 = None" by simp
  from Cons.IH [OF this, of h1] w show ?case by (cases "w = 0") auto
qed

lemma set_try_cookies_events:
  assumes "set_try_cookies cfg target is_vboot2 h = (c, h')"
  shows "\<exists>evs. events h' = events h @ evs \<and> flash_writes evs = []"
proof -
  let ?slot = "if target = FMAP_RW_SECTION_A then FWACT_A else FWACT_B"
  let ?tries = "if data (ec_image cfg) \<noteq> None then (6 + 2 :: int) else 6"
  obtain r1 h1 where p1: "perform (Set_property_string ''fw_try_next'' ?slot) h = (r1, h1)"
    by (cases "perform (Set_property_string ''fw_try_next'' ?slot) h") auto
  obtain r2 h2 where p2: "perform (Set_property_int ''fw_try_count'' ?tries) h1 = (r2, h2)"
    by (cases "perform (Set_property_int ''fw_try_count'' ?tries) h1") auto
  obtain r3 h3 where p3: "perform (Set_property_int ''fw_try_count'' ?tries) h = (r3, h3)"
    by (cases "perform (Set_property_int ''fw_try_count'' ?tries) h") auto
  note e = perform_events [OF p1] perform_events [OF p2] perform_events [OF p3]
  have "h' = h \<or> h' = h1 \<or> h' = h2 \<or> h' = h3"
    using assms p1 p2 p3
    by (auto simp: set_try_cookies_def Let_def split: if_splits prod.splits)
  then show ?thesis
  proof (elim disjE)
    assume "h' = h" then show ?thesis by simp
  next
    assume "h' = h1" with e show ?thesis by simp
  next
    assume "h' = h2" with e show ?thesis by simp
  next
    assume "h' = h3" with e show ?thesis by simp
  qed
qed

lemma legacy_needs_update_events:
  assumes "section_needs_update (image_current cfg) (cfg_image cfg) (Some FMAP_RW_LEGACY) = Some l"
  shows "\<exists>x cfg1 h1 evs. legacy_needs_update cfg h = Some (x, cfg1, h1)
           \<and> events h1 = events h @ evs \<and> flash_writes evs = []
           \<and> cfg1 = cfg\<lparr>tempfiles := tempfiles cfg1\<rparr> \<and> (l = 0 \<longrightarrow> x = 0)"
proof -
  obtain tmp cfg1 h1 where t: "updater_create_temp_file cfg h = (tmp, cfg1, h1)"
    by (cases "updater_create_temp_file cfg h") auto
  from updater_create_temp_file_events [OF t] obtain r1 where
    e1: "events h1 = events h @ [(Mkstemp, r1)]" and c1: "cfg1 = cfg\<lparr>tempfiles := tempfiles cfg1\<rparr>"
    by auto
  note k1 = tempfiles_only [OF c1]
  show ?thesis
  proof (cases tmp)
    case None
    with t e1 c1 show ?thesis by (simp add: legacy_needs_update_def)
  next
    case (Some path)
    obtain w h2 where v: "vb2_write_file path (image_bytes (cfg_image cfg1)) h1 = (w, h2)"
      by (cases "vb2_write_file path (image_bytes (cfg_image cfg1)) h1") auto
    note e2 = vb2_write_file_events [OF v]
    show ?thesis
    proof (cases "w = 0")
      case False
      with t Some v e1 e2 c1 show ?thesis by (simp add: legacy_needs_update_def)
    next
      case True
      obtain a h3 where c3: "cbfs_file_exists path FMAP_RW_LEGACY legacy_tag h2 = (a, h3)"
        by (cases "cbfs_file_exists path FMAP_RW_LEGACY legacy_tag h2") auto
      obtain b h4 where c4: "cbfs_file_exists path FMAP_RW_LEGACY legacy_tag h3 = (b, h4)"
        by (cases "cbfs_file_exists path FMAP_RW_LEGACY legacy_tag h3") auto
      from cbfs_file_exists_events [OF c3] cbfs_file_exists_events [OF c4] e1 e2
      obtain x y where e4: "events h4 = events h @ [(Mkstemp, r1),
          (Write_file path (image_bytes (cfg_image cfg1)), w),
          (Cbfstool path FMAP_RW_LEGACY legacy_tag, x),
          (Cbfstool path FMAP_RW_LEGACY legacy_tag, y)]"
        by auto
      have "legacy_needs_update cfg h = Some (if b = 0 \<or> a = 0 then 0 else l, cfg1, h4)"
        using t Some v True c3 c4 assms k1 by (simp add: legacy_needs_update_def)
      with e4 c1 show ?thesis by simp
    qed
  qed
qed

lemma try_rw_legacy_events:
  assumes l: "section_needs_update (image_current cfg) (cfg_image cfg) (Some FMAP_RW_LEGACY) = Some l"
      and em: "l = 0 \<or> emulation cfg = None"
  shows "\<exists>cfg1 h1 evs. try_rw_legacy_update V cfg h = Some (UPDATE_ERR_DONE, cfg1, h1)
           \<and> events h1 = events h @ evs
           \<and> (flash_writes evs = []
               \<or> l \<noteq> 0 \<and> (\<exists>w. flash_writes evs
                                  = [(programmer (cfg_image cfg), Some FMAP_RW_LEGACY, w)]))"
proof -
  from legacy_needs_update_events [OF l, of h] obtain x cfg1 h1 evs where
    n: "legacy_needs_update cfg h = Some (x, cfg1, h1)" and e: "events h1 = events h @ evs"
    and f: "flash_writes evs = []" and c1: "cfg1 = cfg\<lparr>tempfiles := tempfiles cfg1\<rparr>"
    and x: "l = 0 \<longrightarrow> x = 0"
    by blast
  note k1 = tempfiles_only [OF c1]
  show ?thesis
  proof (cases "x = 0")
    case True
    with n e f show ?thesis by (simp add: try_rw_legacy_update_def)
  next
    case False
    with x em have l0: "l \<noteq> 0" and em1: "emulation cfg1 = None" using k1 by auto
    from write_firmware_returns [OF em1, of V "cfg_image cfg1" "Some FMAP_RW_LEGACY" h1]
    obtain w cfg2 h2 where
      w: "write_firmware V cfg1 (cfg_image cfg1) (Some FMAP_RW_LEGACY) h1 = Some (w, cfg2, h2)"
      by blast
    have ne: "FMAP_RW_LEGACY \<noteq> []" by (simp add: FMAP_RW_LEGACY_def)
    from write_firmware_flash(1) [OF em1 w ne] obtain evs2 where
      e2: "events h2 = events h1 @ evs2"
      and f2: "flash_writes evs2 = [(programmer (cfg_image cfg1), Some FMAP_RW_LEGACY, w)]
               \<or> flash_writes evs2 = [] \<and> w \<noteq> 0"
      by blast
    have r: "try_rw_legacy_update V cfg h = Some (UPDATE_ERR_DONE, cfg2, h2)"
      using n False w by (simp add: try_rw_legacy_update_def)
    have "events h2 = events h @ (evs @ evs2)
          \<and> (flash_writes (evs @ evs2) = []
               \<or> l \<noteq> 0 \<and> (\<exists>w. flash_writes (evs @ evs2)
                                  = [(programmer (cfg_image cfg), Some FMAP_RW_LEGACY, w)]))"
      using e e2 f f2 l0 k1 by (auto simp: flash_writes_append)
    with r show ?thesis by blast
  qed
qed

lemma try_rw_reaches:
  assumes v: "get_system_property SYS_PROP_FW_VBOOT2 cfg h = (v, c1, k1)"
      and pg: "preserve_gbb V (image_current cfg) (cfg_image cfg) = Some (r0, to1)"
      and ro: "wp_enabled \<noteq> 0
               \<or> section_needs_update (image_current cfg) to1 (Some FMAP_RO_SECTION) = Some 0"
      and rk: "check_compatible_root_key V (image_current cfg) to1 = Some 0"
      and tk: "check_compatible_tpm_keys V (c1\<lparr>cfg_image := to1\<rparr>) to1 k1 = Some (0, cfg3, h3)"
      and sl: "get_system_property SYS_PROP_MAINFW_ACT cfg3 h3 = (slot, cfg4, h4)"
      and known: "v = 0 \<or> slot = SLOT_A \<or> slot = SLOT_B"
      and self: "self = (if v = 0 \<or> slot = SLOT_A then FMAP_RW_SECTION_A else FMAP_RW_SECTION_B)"
      and ex: "firmware_section_exists to1 self"
      and f0: "force_update cfg = 0"
      and d: "section_needs_update (image_current cfg) to1 (Some self) = Some d"
  shows "update_try_rw_firmware V cfg wp_enabled h =
           do {
             (stop, cfg5, h5) \<leftarrow>
               (if d \<noteq> 0 then try_rw_update_target V cfg4 v h4
                else if v = 0 \<and> emulation cfg = None
                then Some (None, cfg4, snd (perform (Set_property_int ''fwb_tries'' 0) h4))
                else Some (None, cfg4, h4));
             case stop of
               Some code \<Rightarrow> Some (code, cfg5, h5)
             | None \<Rightarrow> try_rw_legacy_update V cfg5 h5
           }"
    and "cfg_image cfg4 = to1" and "image_current cfg4 = image_current cfg"
    and "emulation cfg4 = emulation cfg"
    and "initialized (system_properties cfg4 SYS_PROP_MAINFW_ACT) \<noteq> 0"
    and "prop_value (system_properties cfg4 SYS_PROP_MAINFW_ACT) = slot"
proof -
  note f1 = get_system_property_fields [OF v]
  note f3 = check_tpm_frame [OF tk]
  note f4 = get_system_property_fields [OF sl]
  have im: "image_current c1 = image_current cfg" "cfg_image c1 = cfg_image cfg"
    using f1 by simp_all
  show i4: "cfg_image cfg4 = to1" using f4(5) f3 by simp
  show c4: "image_current cfg4 = image_current cfg" using f4(6) f3 f1(6) by simp
  show e4: "emulation cfg4 = emulation cfg" using f4(7) f3 f1(7) by simp
  have fu: "force_update cfg4 = 0" using f4(4) f3 f1(4) f0 by simp
  show "initialized (system_properties cfg4 SYS_PROP_MAINFW_ACT) \<noteq> 0" by (rule f4(1))
  show "prop_value (system_properties cfg4 SYS_PROP_MAINFW_ACT) = slot" by (rule f4(2))
  have dt: "decide_rw_target cfg3 TARGET_SELF v h3 = (Some self, cfg4, h4)"
    using decide_rw_target_eq [OF sl, of TARGET_SELF v] known self by auto
  show "update_try_rw_firmware V cfg wp_enabled h =
           do {
             (stop, cfg5, h5) \<leftarrow>
               (if d \<noteq> 0 then try_rw_update_target V cfg4 v h4
                else if v = 0 \<and> emulation cfg = None
                then Some (None, cfg4, snd (perform (Set_property_int ''fwb_tries'' 0) h4))
                else Some (None, cfg4, h4));
             case stop of
               Some code \<Rightarrow> Some (code, cfg5, h5)
             | None \<Rightarrow> try_rw_legacy_update V cfg5 h5
           }"
  proof (cases "wp_enabled = 0")
    case True
    with ro have "section_needs_update (image_current cfg) to1 (Some FMAP_RO_SECTION) = Some 0"
      by simp
    with True v pg rk tk dt ex d i4 c4 e4 fu im show ?thesis
      by (simp add: update_try_rw_firmware_def Let_def)
  next
    case False
    with v pg rk tk dt ex d i4 c4 e4 fu im show ?thesis
      by (simp add: update_try_rw_firmware_def Let_def)
  qed
qed

lemma try_rw_same:
  assumes v: "get_system_property SYS_PROP_FW_VBOOT2 cfg h = (v, c1, k1)"
      and pg: "preserve_gbb V (image_current cfg) (cfg_image cfg) = Some (r0, to1)"
      and ro: "wp_enabled \<noteq> 0
               \<or> section_needs_update (image_current cfg) to1 (Some FMAP_RO_SECTION) = Some 0"
      and rk: "check_compatible_root_key V (image_current cfg) to1 = Some 0"
      and tk: "check_compatible_tpm_keys V (c1\<lparr>cfg_image := to1\<rparr>) to1 k1 = Some (0, cfg3, h3)"
      and sl: "get_system_property SYS_PROP_MAINFW_ACT cfg3 h3 = (slot, cfg4, h4)"
      and known: "v = 0 \<or> slot = SLOT_A \<or> slot = SLOT_B"
      and self: "self = (if v = 0 \<or> slot = SLOT_A then FMAP_RW_SECTION_A else FMAP_RW_SECTION_B)"
      and ex: "firmware_section_exists to1 self"
      and f0: "force_update cfg = 0"
      and d: "section_needs_update (image_current cfg) to1 (Some self) = Some 0"
      and legacy: "section_needs_update (image_current cfg) to1 (Some FMAP_RW_LEGACY) = Some 0"
  shows "\<exists>cfg' h' evs. update_try_rw_firmware V cfg wp_enabled h = Some (UPDATE_ERR_DONE, cfg', h')
           \<and> events h' = events h4 @ evs \<and> flash_writes evs = []"
proof -
  note r = try_rw_reaches [OF v pg ro rk tk sl known self ex f0 d]
  let ?hx = "if v = 0 \<and> emulation cfg = None
             then snd (perform (Set_property_int ''fwb_tries'' 0) h4) else h4"
  have hx: "\<exists>evs. events ?hx = events h4 @ evs \<and> flash_writes evs = []"
  proof (cases "v = 0 \<and> emulation cfg = None")
    case True
    obtain x k where p: "perform (Set_property_int ''fwb_tries'' 0) h4 = (x, k)"
      by (cases "perform (Set_property_int ''fwb_tries'' 0) h4") auto
    from perform_events [OF p] True p show ?thesis by simp
  next
    case False
    then show ?thesis by auto
  qed
  have lg: "section_needs_update (image_current cfg4) (cfg_image cfg4) (Some FMAP_RW_LEGACY)
              = Some 0"
    using legacy r(2,3) by simp
  from try_rw_legacy_events [OF lg, of V ?hx] obtain cfg' h' evs where
    l: "try_rw_legacy_update V cfg4 ?hx = Some (UPDATE_ERR_DONE, cfg', h')"
    and e: "events h' = events ?hx @ evs" "flash_writes evs = []"
    by auto
  have run: "update_try_rw_firmware V cfg wp_enabled h = try_rw_legacy_update V cfg4 ?hx"
    unfolding r(1) by simp
  from hx obtain evs0 where "events ?hx = events h4 @ evs0" "flash_writes evs0 = []" by blast
  with e have "events h' = events h4 @ (evs0 @ evs) \<and> flash_writes (evs0 @ evs) = []"
    by (simp add: flash_writes_append)
  with run l show ?thesis by metis
qed

lemma try_rw_differs:
  assumes v: "get_system_property SYS_PROP_FW_VBOOT2 cfg h = (v, c1, k1)"
      and pg: "preserve_gbb V (image_current cfg) (cfg_image cfg) = Some (r0, to1)"
      and ro: "wp_enabled \<noteq> 0
               \<or> section_needs_update (image_current cfg) to1 (Some FMAP_RO_SECTION) = Some 0"
      and rk: "check_compatible_root_key V (image_current cfg) to1 = Some 0"
      and tk: "check_compatible_tpm_keys V (c1\<lparr>cfg_image := to1\<rparr>) to1 k1 = Some (0, cfg3, h3)"
      and sl: "get_system_property SYS_PROP_MAINFW_ACT cfg3 h3 = (slot, cfg4, h4)"
      and known: "v = 0 \<or> slot = SLOT_A \<or> slot = SLOT_B"
      and self: "self = (if v = 0 \<or> slot = SLOT_A then FMAP_RW_SECTION_A else FMAP_RW_SECTION_B)"
      and upd: "update = (if v = 0 \<or> slot = SLOT_A then FMAP_RW_SECTION_B else FMAP_RW_SECTION_A)"
      and ex: "firmware_section_exists to1 self"
      and f0: "force_update cfg = 0"
      and d: "section_needs_update (image_current cfg) to1 (Some self) = Some d" "d \<noteq> 0"
      and legacy: "section_needs_update (image_current cfg) to1 (Some FMAP_RW_LEGACY) = Some l"
      and em: "emulation cfg = None"
  shows "\<exists>r cfg' h' evs. update_try_rw_firmware V cfg wp_enabled h = Some (r, cfg', h')
           \<and> events h' = events h4 @ evs
           \<and> (r = UPDATE_ERR_WRITE_FIRMWARE
                 \<and> (flash_writes evs = []
                     \<or> (\<exists>w. w \<noteq> 0 \<and> flash_writes evs = [(programmer to1, Some update, w)]))
               \<or> r = UPDATE_ERR_SET_COOKIES
                 \<and> flash_writes evs = [(programmer to1, Some update, 0)]
               \<or> r = UPDATE_ERR_DONE
                 \<and> (flash_writes evs = [(programmer to1, Some update, 0)]
                     \<or> l \<noteq> 0 \<and> (\<exists>w. flash_writes evs
                                        = [(programmer to1, Some update, 0),
                                           (programmer to1, Some FMAP_RW_LEGACY, w)])))"
proof -
  note r = try_rw_reaches [OF v pg ro rk tk sl known self ex f0 d(1)]
  have em4: "emulation cfg4 = None" using r(4) em by simp
  have g: "get_system_property SYS_PROP_MAINFW_ACT cfg4 h4 = (slot, cfg4, h4)"
    using get_system_property_cached [OF r(5), of h4] r(6) by simp
  have dt: "decide_rw_target cfg4 TARGET_UPDATE v h4 = (Some update, cfg4, h4)"
    using decide_rw_target_eq [OF g, of TARGET_UPDATE v] known upd by auto
  have ne: "update \<noteq> []"
    using upd by (simp add: FMAP_RW_SECTION_A_def FMAP_RW_SECTION_B_def)
  from write_firmware_returns [OF em4, of V to1 "Some update" h4]
  obtain w cfg5 h5 where w: "write_firmware V cfg4 to1 (Some update) h4 = Some (w, cfg5, h5)"
    by blast
  from write_firmware_flash [OF em4 w ne] obtain evs1 where
    e1: "events h5 = events h4 @ evs1"
    and f1: "flash_writes evs1 = [(programmer to1, Some update, w)]
             \<or> flash_writes evs1 = [] \<and> w \<noteq> 0"
    and c5: "cfg5 = cfg4\<lparr>tempfiles := tempfiles cfg5\<rparr>"
    by blast
  note k5 = tempfiles_only [OF c5]
  show ?thesis
  proof (cases "w = 0")
    case False
    have "update_try_rw_firmware V cfg wp_enabled h = Some (UPDATE_ERR_WRITE_FIRMWARE, cfg5, h5)"
      unfolding r(1) using d(2) dt w False r(2) by (simp add: try_rw_update_target_def)
    moreover have "flash_writes evs1 = []
                   \<or> (\<exists>w. w \<noteq> 0 \<and> flash_writes evs1 = [(programmer to1, Some update, w)])"
      using f1 False by auto
    ultimately show ?thesis using e1 by blast
  next
    case True
    with f1 have f1': "flash_writes evs1 = [(programmer to1, Some update, 0)]" by simp
    obtain c h6 where s: "set_try_cookies cfg5 update v h5 = (c, h6)"
      by (cases "set_try_cookies cfg5 update v h5") auto
    from set_try_cookies_events [OF s] obtain evs2 where
      e2: "events h6 = events h5 @ evs2" and f2: "flash_writes evs2 = []"
      by blast
    show ?thesis
    proof (cases "c = 0")
      case False
      have "update_try_rw_firmware V cfg wp_enabled h = Some (UPDATE_ERR_SET_COOKIES, cfg5, h6)"
        unfolding r(1) using d(2) dt w True s False r(2) by (simp add: try_rw_update_target_def)
      moreover have "events h6 = events h4 @ (evs1 @ evs2)
                     \<and> flash_writes (evs1 @ evs2) = [(programmer to1, Some update, 0)]"
        using e1 e2 f1' f2 by (simp add: flash_writes_append)
      ultimately show ?thesis by blast
    next
      case c0: True
      have lg: "section_needs_update (image_current cfg5) (cfg_image cfg5) (Some FMAP_RW_LEGACY)
                  = Some l"
        using legacy k5(2,3) r(2,3) by simp
      have em5: "l = 0 \<or> emulation cfg5 = None" using k5(1) em4 by simp
      from try_rw_legacy_events [OF lg em5, of V h6] obtain cfg' h' evs3 where
        t: "try_rw_legacy_update V cfg5 h6 = Some (UPDATE_ERR_DONE, cfg', h')"
        and e3: "events h' = events h6 @ evs3"
        and f3: "flash_writes evs3 = []
                 \<or> l \<noteq> 0 \<and> (\<exists>w. flash_writes evs3
                                    = [(programmer (cfg_image cfg5), Some FMAP_RW_LEGACY, w)])"
        by blast
      have p5: "programmer (cfg_image cfg5) = programmer to1" using k5(2) r(2) by simp
      have "update_try_rw_firmware V cfg wp_enabled h = Some (UPDATE_ERR_DONE, cfg', h')"
        unfolding r(1) using d(2) dt w True s c0 t r(2) by (simp add: try_rw_update_target_def)
      moreover have "events h' = events h4 @ (evs1 @ evs2 @ evs3)
          \<and> (flash_writes (evs1 @ evs2 @ evs3) = [(programmer to1, Some update, 0)]
              \<or> l \<noteq> 0 \<and> (\<exists>w. flash_writes (evs1 @ evs2 @ evs3)
                                 = [(programmer to1, Some update, 0),
                                    (programmer to1, Some FMAP_RW_LEGACY, w)]))"
        using e1 e2 e3 f1' f2 f3 p5 by (auto simp: flash_writes_append)
      ultimately show ?thesis by blast
    qed
  qed
qed

lemma update_firmware_reaches:
  assumes start: "update_firmware_start V Q cfg h = Some (Inr (wp_enabled, cfg0, h0))"
      and leg: "legacy_update cfg0 = 0"
  shows "update_firmware V Q cfg h =
           (if try_update cfg0 \<noteq> 0
            then do {
              (r, cfg10, h10) \<leftarrow> update_try_rw_firmware V cfg0 wp_enabled h0;
              if r \<noteq> UPDATE_ERR_NEED_RO_UPDATE then Some (r, cfg10, h10)
              else if wp_enabled \<noteq> 0 then update_rw_firmrware V cfg10 h10
              else update_whole_firmware V Q cfg10 h10
            }
            else if wp_enabled \<noteq> 0 then update_rw_firmrware V cfg0 h0
            else update_whole_firmware V Q cfg0 h0)"
  unfolding update_firmware_split using start leg by simp

lemma rw_update_all_written:
  assumes rk: "check_compatible_root_key V (image_current cfg) (cfg_image cfg) = Some 0"
      and tk: "check_compatible_tpm_keys V cfg (cfg_image cfg) h = Some (0, cfg1, h1)"
      and em: "emulation cfg = None"
  shows "\<exists>r cfg' h' evs. update_rw_firmrware V cfg h = Some (r, cfg', h')
           \<and> events h' = events h1 @ evs
           \<and> (r = UPDATE_ERR_DONE \<or> r = UPDATE_ERR_WRITE_FIRMWARE)
           \<and> (r = UPDATE_ERR_DONE \<longrightarrow>
                flash_writes evs = map (\<lambda>n. (programmer (cfg_image cfg), Some n, 0))
                                     (rw_sections (cfg_image cfg)))"
proof -
  note fr = check_tpm_frame [OF tk]
  from fr have img: "cfg_image cfg1 = cfg_image cfg" and em1: "emulation cfg1 = None"
    using em by simp_all
  from write_sections_returns [OF em1, of V "rw_sections (cfg_image cfg)" h1]
  obtain w cfg' h' where
    ws: "write_sections V cfg1 (rw_sections (cfg_image cfg)) h1 = Some (w, cfg', h')"
    by blast
  from write_sections_flash [OF em1 ws rw_sections_nonempty] obtain evs k tail where
    e: "events h' = events h1 @ evs"
    and f: "flash_writes evs
             = map (\<lambda>n. (programmer (cfg_image cfg1), Some n, 0))
                 (take k (rw_sections (cfg_image cfg))) @ tail"
    and t: "if w = 0 then k = length (rw_sections (cfg_image cfg)) \<and> tail = []
       else k < length (rw_sections (cfg_image cfg))
            \<and> (tail = [] \<or> tail = [(programmer (cfg_image cfg1),
                                      Some (rw_sections (cfg_image cfg) ! k), w)])"
    by blast
  have run: "update_rw_firmrware V cfg h
               = Some (if w \<noteq> 0 then UPDATE_ERR_WRITE_FIRMWARE else UPDATE_ERR_DONE, cfg', h')"
    using update_rw_refines [OF rk tk] img ws by simp
  show ?thesis
  proof (cases "w = 0")
    case True
    with t f img have "flash_writes evs = map (\<lambda>n. (programmer (cfg_image cfg), Some n, 0))
                                     (rw_sections (cfg_image cfg))" by simp
    with run True e show ?thesis by simp
  next
    case False
    with run e show ?thesis by simp
  qed
qed

section \<open>Facts about runs that read the properties and load the firmware\<close>

lemma example_unread_fields:
  "system_properties (example_unread slot new) = example_getters slot"
  "cfg_image (example_unread slot new) = new"
  "image_current (example_unread slot new) = example_current"
  "force_update (example_unread slot new) = 0"
  by (simp_all add: example_unread_def example_config_def)

lemma example_unread_read:
  "initialized (system_properties cfg p) = 0 \<Longrightarrow> getter (system_properties cfg p) = (\<lambda>h. (x, h)) \<Longrightarrow>
   get_system_property p cfg h = (x, override_system_property p cfg x, h)"
  by (simp add: get_system_property_fresh)

lemma example_unknown_root_key:
  "map_option fst (update_try_rw_firmware example_vboot
      (example_unread (- 1) example_short_vblock) 1 example_host) = Some UPDATE_ERR_ROOT_KEY"
  by code_simp

lemma example_fresh_try_start:
  "map_option (map_sum fst (\<lambda>(wp, c, k).
      (wp, cfg_image c, image_current c,
       (try_update c, legacy_update c, force_update c, emulation c),
       map (\<lambda>p. (initialized (system_properties c p), prop_value (system_properties c p)))
         all_properties)))
     (update_firmware_start example_machine example_quirks (example_fresh 1 example_new_rw)
        (example_flash_host example_new_rw 1))
   = Some (Inr (1, example_frid_image ''new.bin'' example_new_rw,
                example_frid_image ''/tmp/fwupdater.'' example_new_rw,
                (1, 0, 0, None),
                [(1, 0), (1, 0x10001), (1, 1), (1, 1), (1, 1), (1, 1)]))"
  by code_simp

lemma update_firmware_start_fields:
  assumes "map_option (map_sum fst (\<lambda>(wp, c, k).
      (wp, cfg_image c, image_current c,
       (try_update c, legacy_update c, force_update c, emulation c),
       map (\<lambda>p. (initialized (system_properties c p), prop_value (system_properties c p)))
         all_properties))) s
   = Some (Inr (wp, new, cur, (t, l, f, e), [(i1, v1), (i2, v2), (i3, v3), (i4, v4), (i5, v5), (i6, v6)]))"
  shows "\<exists>cfg0 h0. s = Some (Inr (wp, cfg0, h0)) \<and> cfg_image cfg0 = new
           \<and> image_current cfg0 = cur \<and> try_update cfg0 = t \<and> legacy_update cfg0 = l
           \<and> force_update cfg0 = f \<and> emulation cfg0 = e
           \<and> initialized (system_properties cfg0 SYS_PROP_MAINFW_ACT) = i1
           \<and> prop_value (system_properties cfg0 SYS_PROP_MAINFW_ACT) = v1
           \<and> initialized (system_properties cfg0 SYS_PROP_TPM_FWVER) = i2
           \<and> prop_value (system_properties cfg0 SYS_PROP_TPM_FWVER) = v2
           \<and> initialized (system_properties cfg0 SYS_PROP_FW_VBOOT2) = i3
           \<and> prop_value (system_properties cfg0 SYS_PROP_FW_VBOOT2) = v3"
proof -
  from assms obtain x where s: "s = Some x" by (cases s) auto
  with assms obtain y where x: "x = Inr y" by (cases x) auto
  obtain w c k where y: "y = (w, c, k)" by (cases y) auto
  from assms s x y show ?thesis by (simp add: all_properties_def)
qed

lemma example_fresh_rw_start:
  "map_option (map_sum fst (\<lambda>(wp, c, k).
      (wp, cfg_image c, image_current c,
       (try_update c, legacy_update c, force_update c, emulation c),
       map (\<lambda>p. (initialized (system_properties c p), prop_value (system_properties c p)))
         all_properties)))
     (update_firmware_start example_machine example_quirks (example_fresh 0 example_new_rw)
        (example_flash_host example_new_rw 1))
   = Some (Inr (1, example_frid_image ''new.bin'' example_new_rw,
                example_frid_image ''/tmp/fwupdater.'' example_new_rw,
                (0, 0, 0, None),
                [(1, 0), (1, 0x10001), (1, 1), (1, 1), (1, 1), (1, 1)]))"
  by code_simp

lemma example_fresh_checks:
  "preserve_gbb example_machine (example_frid_image ''/tmp/fwupdater.'' example_new_rw)
     (example_frid_image ''new.bin'' example_new_rw)
   = Some (0, example_frid_image ''new.bin'' example_new_rw)"
  "check_compatible_root_key example_machine
     (example_frid_image ''/tmp/fwupdater.'' example_new_rw)
     (example_frid_image ''new.bin'' example_new_rw) = Some 0"
  "get_key_versions example_machine (example_frid_image ''new.bin'' example_new_rw)
     FMAP_RW_VBLOCK_A (0, 0) = Some (0, 1, 1)"
  "firmware_section_exists (example_frid_image ''new.bin'' example_new_rw) FMAP_RW_SECTION_A"
  "section_needs_update (example_frid_image ''/tmp/fwupdater.'' example_new_rw)
     (example_frid_image ''new.bin'' example_new_rw) (Some FMAP_RW_SECTION_A) = Some 0"
  "section_needs_update (example_frid_image ''/tmp/fwupdater.'' example_new_rw)
     (example_frid_image ''new.bin'' example_new_rw) (Some FMAP_RW_LEGACY) = Some 0"
  by code_simp+

lemma example_fresh_runs:
  "map_option (\<lambda>(r, c, k). (r, flash_writes (events k)))
     (update_firmware example_machine example_quirks (example_fresh 1 example_new_rw)
        (example_flash_host example_new_rw 1))
   = Some (UPDATE_ERR_DONE, [])"
  "map_option (\<lambda>(r, c, k). (r, flash_writes (events k)))
     (update_firmware example_machine example_quirks (example_fresh 1 example_new_rw)
        (example_flash_host example_new_rw 0))
   = Some (UPDATE_ERR_DONE, [])"
  "map_option (\<lambda>(r, c, k). (r, flash_writes (events k)))
     (update_firmware example_machine example_quirks (example_fresh 1 example_new_rw)
        (example_flash_host example_old_rw 0))
   = Some (UPDATE_ERR_DONE, [(''host'', Some ''RW_SECTION_B'', 0)])"
  "map_option (\<lambda>(r, c, k). (r, flash_writes (events k)))
     (update_firmware example_machine example_quirks (example_fresh 0 example_new_rw)
        (example_flash_host example_new_rw 1))
   = Some (UPDATE_ERR_DONE,
           [(''host'', Some ''RW_SECTION_A'', 0), (''host'', Some ''RW_SECTION_B'', 0),
            (''host'', Some ''RW_SHARED'', 0), (''host'', Some ''RW_LEGACY'', 0)])"
  "map_option (\<lambda>(r, c, k). (r, flash_writes (events k)))
     (update_firmware example_machine example_quirks (example_fresh 0 example_new_rw)
        (example_flash_host example_new_rw 0))
   = Some (UPDATE_ERR_DONE,
           [(''host'', Some ''RW_SECTION_A'', 0), (''host'', Some ''RW_SECTION_B'', 0),
            (''host'', Some ''RW_SHARED'', 0), (''host'', Some ''RW_LEGACY'', 0)])"
  by code_simp+

lemma example_fresh_fields:
  "data (image_current (example_fresh try rw)) = None"
  "initialized (system_properties (example_fresh try rw) p) = 0"
  "force_update (example_fresh try rw) = 0"
  by (simp_all add: example_fresh_def example_config_def empty_image_def example_getters_def)

section \<open>The TPM anti-rollback check\<close>

text \<open>
  C1. For an image whose VBLOCK_A decodes to the versions \<open>dkv\<close> and \<open>fv\<close>, and the
  value \<open>tpm_fwver\<close> of the TPM property (cached or just read): the check fails when
  \<open>tpm_fwver\<close> is negative; otherwise it passes exactly when \<open>dkv\<close> is at least
  \<open>tpm_fwver >> 16\<close> and \<open>fv\<close> is at least \<open>tpm_fwver & 0xffff\<close>. The wrapper returns
  success whenever \<open>force_update\<close> is set, and the verdict of the check otherwise.
\<close>

theorem tpm_rollback_check:
  assumes "get_key_versions V rw_image FMAP_RW_VBLOCK_A (0, 0) = Some (0, dkv, fv)"
      and "get_system_property SYS_PROP_TPM_FWVER cfg h = (tpm_fwver, cfg1, h1)"
  shows "do_check_compatible_tpm_keys V cfg rw_image h =
           Some (if sint tpm_fwver < 0 then - 1
                 else if drop_bit 16 tpm_fwver \<le> dkv \<and> tpm_fwver AND 0xffff \<le> fv then 0
                 else - 1, cfg1, h1)
         \<and> check_compatible_tpm_keys V cfg rw_image h =
           Some (if force_update cfg \<noteq> 0 then 0
                 else if sint tpm_fwver < 0 then - 1
                 else if drop_bit 16 tpm_fwver \<le> dkv \<and> tpm_fwver AND 0xffff \<le> fv then 0
                 else - 1, cfg1, h1)"
  using assms by (simp add: check_tpm_eq)

text \<open>
  At the versions (1, 1) the packed TPM value \<open>0x10001\<close> passes, and \<open>0x10002\<close>,
  whose firmware version is one more, fails.
\<close>

theorem tpm_rollback_check_witness:
  "get_key_versions example_vboot example_new FMAP_RW_VBLOCK_A (0, 0) = Some (0, 1, 1)
   \<and> do_check_compatible_tpm_keys example_vboot
        (override_system_property SYS_PROP_TPM_FWVER
           (example_config example_current example_new) 0x10001)
        example_new example_host
      = Some (0, override_system_property SYS_PROP_TPM_FWVER
                   (example_config example_current example_new) 0x10001, example_host)
   \<and> do_check_compatible_tpm_keys example_vboot
        (override_system_property SYS_PROP_TPM_FWVER
           (example_config example_current example_new) 0x10002)
        example_new example_host
      = Some (- 1, override_system_property SYS_PROP_TPM_FWVER
                     (example_config example_current example_new) 0x10002, example_host)"
proof -
  let ?c = "\<lambda>v. override_system_property SYS_PROP_TPM_FWVER
                  (example_config example_current example_new) v"
  have g: "\<And>v. get_system_property SYS_PROP_TPM_FWVER (?c v) example_host
                = (v, ?c v, example_host)"
    by (simp add: get_system_property_def override_system_property_def)
  have a: "\<not> sint (0x10001 :: 32 word) < 0" "drop_bit 16 (0x10001 :: 32 word) \<le> 1"
      "(0x10001 :: 32 word) AND 0xffff \<le> 1"
      "\<not> sint (0x10002 :: 32 word) < 0" "\<not> (0x10002 :: 32 word) AND 0xffff \<le> 1"
    by code_simp+
  show ?thesis
    using tpm_rollback_check [OF example_key_versions g, of "0x10001"]
      tpm_rollback_check [OF example_key_versions g, of "0x10002"]
      example_key_versions a
    by simp
qed

section \<open>The RW target\<close>

text \<open>
  C2, amended. With \<open>slot\<close> the value of the property of the active slot, the target is a
  function of the generation, the slot and the kind of target: under vboot1 the target
  to update is RW_SECTION_B and the target to check is RW_SECTION_A, whatever the slot;
  under vboot2 they are B and A when slot A is active, and A and B when slot B is
  active; under vboot2 with any other slot there is no target. Whenever the generation
  is vboot1 or the slot is known, both targets exist and differ. Under vboot2 with an
  unknown slot (the property of the generation reads other than 0, and the property of
  the active slot, cached or read in any state of the host, is neither A nor B) the
  try-RW updater never succeeds. It preserves the GBB, compares the RO section when the
  write protection is off, checks the root key and checks the TPM versions, and returns
  the code of the first of these that fails: UPDATE_ERR_NEED_RO_UPDATE,
  UPDATE_ERR_ROOT_KEY or UPDATE_ERR_TPM_ROLLBACK. When they all pass it returns
  UPDATE_ERR_TARGET, in the state the read of the active slot leaves.
\<close>

theorem rw_target_selection:
  assumes "get_system_property SYS_PROP_MAINFW_ACT cfg h = (slot, cfg1, h1)"
  shows "decide_rw_target cfg target is_vboot2 h =
           (if is_vboot2 = 0 \<or> slot = SLOT_A
            then Some (case target of TARGET_UPDATE \<Rightarrow> FMAP_RW_SECTION_B
                       | TARGET_SELF \<Rightarrow> FMAP_RW_SECTION_A)
            else if slot = SLOT_B
            then Some (case target of TARGET_UPDATE \<Rightarrow> FMAP_RW_SECTION_A
                       | TARGET_SELF \<Rightarrow> FMAP_RW_SECTION_B)
            else None, cfg1, h1)
       \<and> (is_vboot2 = 0 \<or> slot = SLOT_A \<or> slot = SLOT_B \<longrightarrow>
            (\<exists>u s. fst (decide_rw_target cfg TARGET_UPDATE is_vboot2 h) = Some u
                 \<and> fst (decide_rw_target cfg TARGET_SELF is_vboot2 h) = Some s \<and> u \<noteq> s))
       \<and> (fst (get_system_property SYS_PROP_FW_VBOOT2 cfg h) \<noteq> 0
            \<and> (\<forall>k. fst (get_system_property SYS_PROP_MAINFW_ACT cfg k) \<noteq> SLOT_A
                  \<and> fst (get_system_property SYS_PROP_MAINFW_ACT cfg k) \<noteq> SLOT_B) \<longrightarrow>
            update_try_rw_firmware V cfg wp_enabled h =
              (let (v, c1, k1) = get_system_property SYS_PROP_FW_VBOOT2 cfg h
               in do {
                 (r0, to1) \<leftarrow> preserve_gbb V (image_current cfg) (cfg_image cfg);
                 ro \<leftarrow> (if wp_enabled = 0
                         then section_needs_update (image_current cfg) to1 (Some FMAP_RO_SECTION)
                         else Some 0);
                 if ro \<noteq> 0 then Some (UPDATE_ERR_NEED_RO_UPDATE, c1\<lparr>cfg_image := to1\<rparr>, k1)
                 else do {
                   rk \<leftarrow> check_compatible_root_key V (image_current cfg) to1;
                   if rk \<noteq> 0 then Some (UPDATE_ERR_ROOT_KEY, c1\<lparr>cfg_image := to1\<rparr>, k1)
                   else do {
                     (tk, cfg3, h3) \<leftarrow>
                       check_compatible_tpm_keys V (c1\<lparr>cfg_image := to1\<rparr>) to1 k1;
                     if tk \<noteq> 0 then Some (UPDATE_ERR_TPM_ROLLBACK, cfg3, h3)
                     else Some (UPDATE_ERR_TARGET,
                                snd (get_system_property SYS_PROP_MAINFW_ACT cfg3 h3))
                   }
                 }
               })
            \<and> (\<forall>r cfg' h'. update_try_rw_firmware V cfg wp_enabled h = Some (r, cfg', h') \<longrightarrow>
                  r = UPDATE_ERR_NEED_RO_UPDATE \<or> r = UPDATE_ERR_ROOT_KEY
                  \<or> r = UPDATE_ERR_TPM_ROLLBACK \<or> r = UPDATE_ERR_TARGET))"
proof (intro conjI impI allI)
  show t: "decide_rw_target cfg target is_vboot2 h =
           (if is_vboot2 = 0 \<or> slot = SLOT_A
            then Some (case target of TARGET_UPDATE \<Rightarrow> FMAP_RW_SECTION_B
                       | TARGET_SELF \<Rightarrow> FMAP_RW_SECTION_A)
            else if slot = SLOT_B
            then Some (case target of TARGET_UPDATE \<Rightarrow> FMAP_RW_SECTION_A
                       | TARGET_SELF \<Rightarrow> FMAP_RW_SECTION_B)
            else None, cfg1, h1)"
    using assms by (rule decide_rw_target_eq)
next
  assume "is_vboot2 = 0 \<or> slot = SLOT_A \<or> slot = SLOT_B"
  then show "\<exists>u s. fst (decide_rw_target cfg TARGET_UPDATE is_vboot2 h) = Some u
                 \<and> fst (decide_rw_target cfg TARGET_SELF is_vboot2 h) = Some s \<and> u \<noteq> s"
    using section_names_distinct
    by (auto simp: decide_rw_target_eq [OF assms])
next
  assume a: "fst (get_system_property SYS_PROP_FW_VBOOT2 cfg h) \<noteq> 0
            \<and> (\<forall>k. fst (get_system_property SYS_PROP_MAINFW_ACT cfg k) \<noteq> SLOT_A
                  \<and> fst (get_system_property SYS_PROP_MAINFW_ACT cfg k) \<noteq> SLOT_B)"
  obtain v c1 k1 where g: "get_system_property SYS_PROP_FW_VBOOT2 cfg h = (v, c1, k1)"
    by (cases "get_system_property SYS_PROP_FW_VBOOT2 cfg h") auto
  with a have v: "v \<noteq> 0" by simp
  from a have unk: "\<And>k. fst (get_system_property SYS_PROP_MAINFW_ACT cfg k) \<noteq> SLOT_A
                   \<and> fst (get_system_property SYS_PROP_MAINFW_ACT cfg k) \<noteq> SLOT_B"
    by blast
  show "update_try_rw_firmware V cfg wp_enabled h =
              (let (v, c1, k1) = get_system_property SYS_PROP_FW_VBOOT2 cfg h
               in do {
                 (r0, to1) \<leftarrow> preserve_gbb V (image_current cfg) (cfg_image cfg);
                 ro \<leftarrow> (if wp_enabled = 0
                         then section_needs_update (image_current cfg) to1 (Some FMAP_RO_SECTION)
                         else Some 0);
                 if ro \<noteq> 0 then Some (UPDATE_ERR_NEED_RO_UPDATE, c1\<lparr>cfg_image := to1\<rparr>, k1)
                 else do {
                   rk \<leftarrow> check_compatible_root_key V (image_current cfg) to1;
                   if rk \<noteq> 0 then Some (UPDATE_ERR_ROOT_KEY, c1\<lparr>cfg_image := to1\<rparr>, k1)
                   else do {
                     (tk, cfg3, h3) \<leftarrow>
                       check_compatible_tpm_keys V (c1\<lparr>cfg_image := to1\<rparr>) to1 k1;
                     if tk \<noteq> 0 then Some (UPDATE_ERR_TPM_ROLLBACK, cfg3, h3)
                     else Some (UPDATE_ERR_TARGET,
                                snd (get_system_property SYS_PROP_MAINFW_ACT cfg3 h3))
                   }
                 }
               })"
    unfolding try_rw_unknown_slot_run [OF g v unk] g by simp
next
  fix r cfg' h'
  assume a: "fst (get_system_property SYS_PROP_FW_VBOOT2 cfg h) \<noteq> 0
            \<and> (\<forall>k. fst (get_system_property SYS_PROP_MAINFW_ACT cfg k) \<noteq> SLOT_A
                  \<and> fst (get_system_property SYS_PROP_MAINFW_ACT cfg k) \<noteq> SLOT_B)"
    and run: "update_try_rw_firmware V cfg wp_enabled h = Some (r, cfg', h')"
  obtain v c1 k1 where g: "get_system_property SYS_PROP_FW_VBOOT2 cfg h = (v, c1, k1)"
    by (cases "get_system_property SYS_PROP_FW_VBOOT2 cfg h") auto
  with a have v: "v \<noteq> 0" by simp
  from a have unk: "\<And>k. fst (get_system_property SYS_PROP_MAINFW_ACT cfg k) \<noteq> SLOT_A
                   \<and> fst (get_system_property SYS_PROP_MAINFW_ACT cfg k) \<noteq> SLOT_B"
    by blast
  show "r = UPDATE_ERR_NEED_RO_UPDATE \<or> r = UPDATE_ERR_ROOT_KEY
               \<or> r = UPDATE_ERR_TPM_ROLLBACK \<or> r = UPDATE_ERR_TARGET"
    by (rule try_rw_unknown_slot_code [OF g v unk run])
qed

text \<open>
  The six targets of the known cases and the unknown slot under vboot2, on a
  configuration that has read no property yet; and the try-RW update of the example
  from that configuration with an unknown slot, which returns UPDATE_ERR_TARGET.
\<close>

theorem rw_target_selection_witness:
  "fst (decide_rw_target (example_unread 0 example_new) TARGET_UPDATE 1 example_host)
     = Some ''RW_SECTION_B''
   \<and> fst (decide_rw_target (example_unread 0 example_new) TARGET_SELF 1 example_host)
     = Some ''RW_SECTION_A''
   \<and> fst (decide_rw_target (example_unread 1 example_new) TARGET_UPDATE 1 example_host)
     = Some ''RW_SECTION_A''
   \<and> fst (decide_rw_target (example_unread 1 example_new) TARGET_SELF 1 example_host)
     = Some ''RW_SECTION_B''
   \<and> fst (decide_rw_target (example_unread 1 example_new) TARGET_UPDATE 0 example_host)
     = Some ''RW_SECTION_B''
   \<and> fst (decide_rw_target (example_unread 1 example_new) TARGET_SELF 0 example_host)
     = Some ''RW_SECTION_A''
   \<and> fst (decide_rw_target (example_unread (- 1) example_new) TARGET_SELF 1 example_host)
     = None
   \<and> initialized (system_properties (example_unread (- 1) example_new) SYS_PROP_MAINFW_ACT) = 0
   \<and> initialized (system_properties (example_unread (- 1) example_new) SYS_PROP_FW_VBOOT2) = 0
   \<and> map_option fst
        (update_try_rw_firmware example_vboot (example_unread (- 1) example_new) 1 example_host)
     = Some UPDATE_ERR_TARGET"
proof -
  let ?c = "\<lambda>a. example_unread a example_new"
  have i: "\<And>a p. initialized (system_properties (?c a) p) = 0"
    by (simp add: example_unread_fields example_getters_def)
  have g: "\<And>a k. get_system_property SYS_PROP_MAINFW_ACT (?c a) k
                 = (a, override_system_property SYS_PROP_MAINFW_ACT (?c a) a, k)"
    by (rule example_unread_read) (simp_all add: example_unread_fields example_getters_def)
  have v: "get_system_property SYS_PROP_FW_VBOOT2 (?c (- 1)) example_host
             = (1, override_system_property SYS_PROP_FW_VBOOT2 (?c (- 1)) 1, example_host)"
    by (rule example_unread_read) (simp_all add: example_unread_fields example_getters_def)
  have n: "(- 1 :: 32 word) \<noteq> 0" "(- 1 :: 32 word) \<noteq> 1" "(1 :: 32 word) \<noteq> 0"
    by simp_all
  let ?c1 = "override_system_property SYS_PROP_FW_VBOOT2 (?c (- 1)) 1"
  let ?c2 = "?c1\<lparr>cfg_image := example_new_preserved\<rparr>"
  have pg: "preserve_gbb example_vboot (image_current (?c (- 1))) (cfg_image (?c (- 1)))
              = Some (0, example_new_preserved)"
    by (simp add: example_unread_fields example_preserve_gbb)
  have rk: "check_compatible_root_key example_vboot (image_current (?c (- 1)))
              example_new_preserved = Some 0"
    by (simp add: example_unread_fields example_root_key)
  have tg: "get_system_property SYS_PROP_TPM_FWVER ?c2 example_host
            = (0x10001, override_system_property SYS_PROP_TPM_FWVER ?c2 0x10001, example_host)"
    by (rule example_unread_read)
       (simp_all add: example_unread_fields example_getters_def override_system_property_def)
  have f: "force_update ?c2 = 0"
    by (simp add: override_system_property_def example_unread_fields)
  have tk: "check_compatible_tpm_keys example_vboot ?c2 example_new_preserved example_host
            = Some (0, override_system_property SYS_PROP_TPM_FWVER ?c2 0x10001, example_host)"
    using check_tpm_eq(2) [OF example_preserved_versions tg] example_tpm_value f
    by simp
  show ?thesis
    using rw_target_selection [OF g [of 0 example_host], of TARGET_UPDATE 1]
      rw_target_selection [OF g [of 0 example_host], of TARGET_SELF 1]
      rw_target_selection [OF g [of 1 example_host], of TARGET_UPDATE 1]
      rw_target_selection [OF g [of 1 example_host], of TARGET_SELF 1]
      rw_target_selection [OF g [of 1 example_host], of TARGET_UPDATE 0]
      rw_target_selection [OF g [of 1 example_host], of TARGET_SELF 0]
      rw_target_selection [OF g [of "- 1" example_host], of TARGET_SELF 1 example_vboot 1]
      n i g v pg rk tk
    by (simp add: SLOT_A_def SLOT_B_def FMAP_RW_SECTION_A_def FMAP_RW_SECTION_B_def)
qed

text \<open>
  The claim as stated fails. With an unknown slot under vboot2 and an image to install
  whose VBLOCK_A is one byte too small for a keyblock and a preamble, the selector gives
  no target and the try-RW updater returns UPDATE_ERR_ROOT_KEY, not UPDATE_ERR_TARGET:
  the root key is checked before the target is chosen.
\<close>

theorem unknown_slot_other_error:
  "(\<forall>k. fst (get_system_property SYS_PROP_MAINFW_ACT
              (example_unread (- 1) example_short_vblock) k) = SLOT_UNKNOWN)
   \<and> fst (get_system_property SYS_PROP_FW_VBOOT2
            (example_unread (- 1) example_short_vblock) example_host) = 1
   \<and> fst (decide_rw_target (example_unread (- 1) example_short_vblock) TARGET_SELF 1
            example_host) = None
   \<and> map_option fst
        (update_try_rw_firmware example_vboot (example_unread (- 1) example_short_vblock) 1
           example_host)
     = Some UPDATE_ERR_ROOT_KEY"
proof -
  let ?c = "example_unread (- 1) example_short_vblock"
  have g: "\<And>k. get_system_property SYS_PROP_MAINFW_ACT ?c k
                 = (- 1, override_system_property SYS_PROP_MAINFW_ACT ?c (- 1), k)"
    by (rule example_unread_read) (simp_all add: example_unread_fields example_getters_def)
  have v: "get_system_property SYS_PROP_FW_VBOOT2 ?c example_host
             = (1, override_system_property SYS_PROP_FW_VBOOT2 ?c 1, example_host)"
    by (rule example_unread_read) (simp_all add: example_unread_fields example_getters_def)
  have n: "(- 1 :: 32 word) \<noteq> 0" "(- 1 :: 32 word) \<noteq> 1" "(1 :: 32 word) \<noteq> 0"
    by simp_all
  show ?thesis
    using g v n decide_rw_target_eq [OF g [of example_host], of TARGET_SELF 1] example_unknown_root_key
    by (simp add: SLOT_UNKNOWN_def SLOT_A_def SLOT_B_def)
qed

section \<open>The write protection\<close>

text \<open>
  C3. With \<open>hw\<close> the value of the property WP_HW and \<open>sw\<close> the value of WP_SW: the
  result is disabled when \<open>hw\<close> is disabled, and WP_SW is then not consulted (the
  configuration and the host are as the read of WP_HW left them); otherwise the result
  is disabled exactly when \<open>sw\<close> is disabled, and enabled for every other \<open>sw\<close>,
  negative ones included.
\<close>

theorem write_protection_computed:
  assumes "get_system_property SYS_PROP_WP_HW cfg h = (hw, cfg1, h1)"
      and "get_system_property SYS_PROP_WP_SW cfg1 h1 = (sw, cfg2, h2)"
  shows "is_write_protection_enabled cfg h =
           (if hw = WP_DISABLED then (WP_DISABLED, cfg1, h1)
            else if sw = WP_DISABLED then (WP_DISABLED, cfg2, h2)
            else (WP_ENABLED, cfg2, h2))"
  using assms by (simp add: is_write_protection_enabled_def)

text \<open>
  The three cases of the specification: hardware disabled and software enabled,
  hardware in error and software disabled, hardware enabled and software in error.
\<close>

theorem write_protection_computed_witness:
  "fst (is_write_protection_enabled
          (override_system_property SYS_PROP_WP_SW
             (override_system_property SYS_PROP_WP_HW
                (example_config example_current example_new) 0) 1) example_host) = WP_DISABLED
   \<and> fst (is_write_protection_enabled
          (override_system_property SYS_PROP_WP_SW
             (override_system_property SYS_PROP_WP_HW
                (example_config example_current example_new) (- 1)) 0) example_host) = WP_DISABLED
   \<and> fst (is_write_protection_enabled
          (override_system_property SYS_PROP_WP_SW
             (override_system_property SYS_PROP_WP_HW
                (example_config example_current example_new) 1) (- 1)) example_host) = WP_ENABLED"
proof -
  let ?c = "\<lambda>hw sw. override_system_property SYS_PROP_WP_SW
                      (override_system_property SYS_PROP_WP_HW
                         (example_config example_current example_new) hw) sw"
  have g: "\<And>hw sw. get_system_property SYS_PROP_WP_HW (?c hw sw) example_host
                   = (hw, ?c hw sw, example_host)"
    "\<And>hw sw. get_system_property SYS_PROP_WP_SW (?c hw sw) example_host
                   = (sw, ?c hw sw, example_host)"
    by (simp_all add: get_system_property_def override_system_property_def)
  show ?thesis
    using write_protection_computed [OF g, of 0 1]
      write_protection_computed [OF g, of "- 1" 0]
      write_protection_computed [OF g, of 1 "- 1"]
    by (simp add: WP_DISABLED_def WP_ENABLED_def)
qed

section \<open>Preserving the GBB\<close>

text \<open>
  C5, amended. For images of less than \<open>2^31\<close> bytes and a header whose flags come
  before the two HWID fields: when either image has no valid GBB header the
  preservation fails and the destination is unchanged. Otherwise, with \<open>n\<close> the
  length of the source HWID, it fails exactly when \<open>n + 1\<close> exceeds the destination's
  \<open>hwid_size\<close> (so \<open>n + 1 = hwid_size\<close> succeeds). On that failure the destination
  is not unchanged: its GBB flags are already those of the source, and nothing else
  has changed. On success the destination is the one with the source's flags in which
  the whole HWID area holds the source HWID followed by zeros.
\<close>

theorem preserve_gbb_outcome:
  assumes res: "preserve_gbb V image_from image_to = Some (r, to')"
      and small: "image_size image_from < 2 ^ 31"
      and apart: "gbb_flags_at V + 4 \<le> gbb_hwid_offset_at V"
                 "gbb_flags_at V + 4 \<le> gbb_hwid_size_at V"
  shows "(find_gbb V image_from = None \<or> find_gbb V image_to = None \<longrightarrow>
            r = - 1 \<and> to' = image_to)
       \<and> (\<forall>gbb_from gbb_to.
            find_gbb V image_from = Some gbb_from \<and> find_gbb V image_to = Some gbb_to \<longrightarrow>
            (\<exists>flags from_offset to_offset hwid_size n d1.
               mem_read (image_bytes image_from) (gbb_from + gbb_flags_at V) 4 = Some flags
             \<and> read_u32 (image_bytes image_from) (gbb_from + gbb_hwid_offset_at V)
                 = Some from_offset
             \<and> read_u32 (image_bytes image_to) (gbb_to + gbb_hwid_offset_at V) = Some to_offset
             \<and> read_u32 (image_bytes image_to) (gbb_to + gbb_hwid_size_at V) = Some hwid_size
             \<and> strlen (image_bytes image_from) (gbb_from + unat from_offset) = Some n
             \<and> mem_write (image_bytes image_to) (gbb_to + gbb_flags_at V) flags = Some d1
             \<and> (if unat hwid_size < n + 1
                 then r = - 1 \<and> to' = image_to\<lparr>data := Some d1\<rparr>
                 else r = 0
                   \<and> (\<exists>d3. to' = image_to\<lparr>data := Some d3\<rparr>
                        \<and> mem_write d1 (gbb_to + unat to_offset)
                             (take n (drop (gbb_from + unat from_offset)
                                        (image_bytes image_from))
                              @ replicate (unat hwid_size - n) 0) = Some d3))))"
proof -
  have missing: "r = - 1 \<and> to' = image_to"
    if "find_gbb V image_from = None \<or> find_gbb V image_to = None"
  proof -
    from that have "preserve_gbb V image_from image_to = Some (- 1, image_to)"
      by (rule preserve_gbb_missing)
    with res show ?thesis by simp
  qed
  show ?thesis
    using missing preserve_gbb_found [OF _ _ res small apart] by blast
qed

text \<open>
  A HWID of nine characters is preserved into a HWID area of ten bytes, with the flags.
\<close>

theorem preserve_gbb_outcome_witness:
  "preserve_gbb example_vboot example_current (example_candidate 0 10 [])
     = Some (0, example_candidate 0x39 10 example_hwid)
   \<and> image_size example_current < 2 ^ 31
   \<and> gbb_flags_at example_vboot + 4 \<le> gbb_hwid_offset_at example_vboot
   \<and> gbb_flags_at example_vboot + 4 \<le> gbb_hwid_size_at example_vboot
   \<and> find_gbb example_vboot example_current = Some 0
   \<and> find_gbb example_vboot (example_candidate 0 10 []) = Some 0
   \<and> strlen (image_bytes example_current) 128 = Some 9
   \<and> read_u32 (image_bytes (example_candidate 0 10 [])) 20 = Some 10
   \<and> mem_read (image_bytes (example_candidate 0x39 10 example_hwid)) 12 4 = Some [0x39, 0, 0, 0]
   \<and> mem_read (image_bytes (example_candidate 0x39 10 example_hwid)) 128 10
       = Some (example_hwid @ [0])"
  using preserve_gbb_outcome [OF example_gbb_exact example_current_size example_gbb_layout]
    example_gbb_exact example_current_size example_gbb_layout example_gbb_found
    example_hwid_sizes example_gbb_preserved
  by simp

text \<open>
  The claim as stated fails: into a HWID area of nine bytes the same preservation
  fails, and the destination has changed, its flags being \<open>0x39\<close> now.
\<close>

theorem preserve_gbb_mutates_on_failure:
  "strlen (image_bytes example_current) 128 = Some 9
   \<and> read_u32 (image_bytes (example_candidate 0 9 [])) 20 = Some 9
   \<and> preserve_gbb example_vboot example_current (example_candidate 0 9 [])
       = Some (- 1, example_candidate 0x39 9 [])
   \<and> example_candidate 0x39 9 [] \<noteq> example_candidate 0 9 []"
  by code_simp

section \<open>Preserving a section\<close>

text \<open>
  C8. When both images contain the section \<open>n\<close> (each inside its buffer), preserving
  it succeeds; with \<open>m\<close> the smaller of the two sizes, the first \<open>m\<close> bytes of the
  section in the destination are those of the section in the source, and every other
  byte of the destination, in the rest of the section or outside it, is unchanged, as
  is every other field of the image. When an image lacks the section the operation
  fails and the destination is unchanged; it fails in no other case.
\<close>

theorem preserve_section_frame:
  "(firmware_section_exists image_from n \<and> firmware_section_exists image_to n
      \<and> section_in_image image_from n \<and> section_in_image image_to n \<longrightarrow>
    (\<exists>d' from_p to_p.
       section_data (snd (find_firmware_section image_from n)) = Some from_p
     \<and> section_data (snd (find_firmware_section image_to n)) = Some to_p
     \<and> preserve_firmware_section image_from image_to n = Some (0, image_to\<lparr>data := Some d'\<rparr>)
     \<and> length d' = image_size image_to
     \<and> (\<forall>i < min (section_size (snd (find_firmware_section image_from n)))
                  (section_size (snd (find_firmware_section image_to n))).
           d' ! (to_p + i) = image_bytes image_from ! (from_p + i))
     \<and> (\<forall>j. j < to_p \<or> to_p + min (section_size (snd (find_firmware_section image_from n)))
                                   (section_size (snd (find_firmware_section image_to n))) \<le> j \<longrightarrow>
           d' ! j = image_bytes image_to ! j)))
   \<and> (\<not> (firmware_section_exists image_from n \<and> firmware_section_exists image_to n) \<longrightarrow>
        preserve_firmware_section image_from image_to n = Some (- 1, image_to))"
proof (intro conjI impI)
  assume a: "firmware_section_exists image_from n \<and> firmware_section_exists image_to n
      \<and> section_in_image image_from n \<and> section_in_image image_to n"
  let ?f = "snd (find_firmware_section image_from n)"
  let ?t = "snd (find_firmware_section image_to n)"
  let ?m = "min (section_size ?f) (section_size ?t)"
  from a obtain from_p to_p where p: "section_data ?f = Some from_p" "section_data ?t = Some to_p"
    by (auto simp: firmware_section_exists_def)
  from a p have b: "from_p + section_size ?f \<le> length (image_bytes image_from)"
      "to_p + section_size ?t \<le> length (image_bytes image_to)"
    by (auto simp: section_in_image_def image_size_def Let_def)
  have "from_p + ?m \<le> length (image_bytes image_from)"
    using b by simp
  then obtain moved where r: "mem_read (image_bytes image_from) from_p ?m = Some moved"
    unfolding mem_read_def by simp
  have lm: "length moved = ?m" using r by (rule mem_read_length)
  have "to_p + length moved \<le> length (image_bytes image_to)"
    unfolding lm using b by simp
  then obtain d' where w: "mem_write (image_bytes image_to) to_p moved = Some d'"
    unfolding mem_write_def by simp
  have res: "preserve_firmware_section image_from image_to n = Some (0, image_to\<lparr>data := Some d'\<rparr>)"
    using p r w by (simp add: preserve_firmware_section_def Let_def)
  have len: "length d' = image_size image_to"
    using mem_write_length [OF w] by (simp add: image_size_def)
  have ins: "\<forall>i < ?m. d' ! (to_p + i) = image_bytes image_from ! (from_p + i)"
  proof (intro allI impI)
    fix i assume i: "i < ?m"
    from i have "i < length moved" unfolding lm .
    then have "d' ! (to_p + i) = moved ! i"
      by (rule mem_write_inside [OF w])
    also have "\<dots> = image_bytes image_from ! (from_p + i)"
      using r i by (rule mem_read_nth)
    finally show "d' ! (to_p + i) = image_bytes image_from ! (from_p + i)" .
  qed
  have out: "\<forall>j. j < to_p \<or> to_p + ?m \<le> j \<longrightarrow> d' ! j = image_bytes image_to ! j"
    using mem_write_outside [OF w] unfolding lm by blast
  show "\<exists>d' from_p to_p.
       section_data ?f = Some from_p
     \<and> section_data ?t = Some to_p
     \<and> preserve_firmware_section image_from image_to n = Some (0, image_to\<lparr>data := Some d'\<rparr>)
     \<and> length d' = image_size image_to
     \<and> (\<forall>i < ?m. d' ! (to_p + i) = image_bytes image_from ! (from_p + i))
     \<and> (\<forall>j. j < to_p \<or> to_p + ?m \<le> j \<longrightarrow> d' ! j = image_bytes image_to ! j)"
    using p res len ins out by blast
next
  assume "\<not> (firmware_section_exists image_from n \<and> firmware_section_exists image_to n)"
  then show "preserve_firmware_section image_from image_to n = Some (- 1, image_to)"
    by (auto simp: preserve_firmware_section_def firmware_section_exists_def Let_def
             split: option.splits)
qed


theorem preserve_section_frame_witness:
  "firmware_section_exists example_current FMAP_RW_LEGACY
   \<and> firmware_section_exists example_new FMAP_RW_LEGACY
   \<and> section_in_image example_current FMAP_RW_LEGACY
   \<and> section_in_image example_new FMAP_RW_LEGACY
   \<and> map_option fst (preserve_firmware_section example_current example_new FMAP_RW_LEGACY)
       = Some 0
   \<and> \<not> firmware_section_exists example_new ''RO_FSG''
   \<and> preserve_firmware_section example_current example_new ''RO_FSG''
       = Some (- 1, example_new)"
proof -
  have n: "\<not> firmware_section_exists example_new ''RO_FSG''"
    by code_simp
  show ?thesis
    using preserve_section_frame [of example_current FMAP_RW_LEGACY example_new]
      preserve_section_frame [of example_current "''RO_FSG''" example_new]
      example_sections n
    by auto
qed

section \<open>The cache of system properties\<close>

text \<open>
  C9. Once a property is initialized, \<^const>\<open>get_system_property\<close> returns the cached
  value and leaves the configuration and the host as they are, whatever the getter is:
  the getter is not run. This holds after a first read and after an override, on every
  later host, and through any run of reads and overrides that does not override the
  property again. In every run, from every configuration, at most one read of the
  property runs its getter.
\<close>

theorem property_cache_once:
  "(initialized (system_properties cfg p) \<noteq> 0 \<longrightarrow>
      get_system_property p cfg h = (prop_value (system_properties cfg p), cfg, h))
   \<and> (get_system_property p cfg h = (v, cfg1, h1) \<longrightarrow>
        (\<forall>h2. get_system_property p cfg1 h2 = (v, cfg1, h2)))
   \<and> (\<forall>h2. get_system_property p (override_system_property p cfg v) h2
             = (v, override_system_property p cfg v, h2))
   \<and> (initialized (system_properties cfg p) \<noteq> 0 \<and> (\<forall>w. Override_op p w \<notin> set ops)
        \<and> run_property_ops ops cfg h = (cfg', h') \<longrightarrow>
        (\<forall>h2. get_system_property p cfg' h2 = (prop_value (system_properties cfg p), cfg', h2)))
   \<and> getter_runs p ops cfg h \<le> 1"
proof (intro conjI impI allI)
  assume "initialized (system_properties cfg p) \<noteq> 0"
  then show "get_system_property p cfg h = (prop_value (system_properties cfg p), cfg, h)"
    by (rule get_system_property_cached)
next
  fix h2
  assume g: "get_system_property p cfg h = (v, cfg1, h1)"
  from get_system_property_fields(1,2) [OF g]
  show "get_system_property p cfg1 h2 = (v, cfg1, h2)"
    by (simp add: get_system_property_cached)
next
  fix h2
  show "get_system_property p (override_system_property p cfg v) h2
          = (v, override_system_property p cfg v, h2)"
    by (simp add: get_system_property_def override_system_property_def)
next
  fix h2
  assume a: "initialized (system_properties cfg p) \<noteq> 0 \<and> (\<forall>w. Override_op p w \<notin> set ops)
        \<and> run_property_ops ops cfg h = (cfg', h')"
  then have "initialized (system_properties cfg' p) \<noteq> 0
     \<and> prop_value (system_properties cfg' p) = prop_value (system_properties cfg p)"
    by (intro run_keeps_value [of cfg p ops h cfg' h']) simp_all
  then show "get_system_property p cfg' h2 = (prop_value (system_properties cfg p), cfg', h2)"
    by (simp add: get_system_property_cached)
next
  show "getter_runs p ops cfg h \<le> 1" by (rule getter_runs_le)
qed

text \<open>
  The first read of the TPM property in the example runs the getter, which answers
  \<open>-1\<close>; a later read on a host that answers otherwise still returns \<open>-1\<close>.
\<close>

theorem property_cache_once_witness:
  "get_system_property SYS_PROP_TPM_FWVER (example_config example_current example_new) example_host
     = (- 1, override_system_property SYS_PROP_TPM_FWVER
               (example_config example_current example_new) (- 1), example_host)
   \<and> get_system_property SYS_PROP_TPM_FWVER
       (override_system_property SYS_PROP_TPM_FWVER
          (example_config example_current example_new) (- 1))
       (example_host\<lparr>status := (\<lambda>hist e. 1)\<rparr>)
     = (- 1, override_system_property SYS_PROP_TPM_FWVER
               (example_config example_current example_new) (- 1),
        example_host\<lparr>status := (\<lambda>hist e. 1)\<rparr>)
   \<and> initialized (system_properties
        (override_system_property SYS_PROP_TPM_FWVER
           (example_config example_current example_new) (- 1)) SYS_PROP_TPM_FWVER) \<noteq> 0
   \<and> getter_runs SYS_PROP_TPM_FWVER
        [Get_op SYS_PROP_TPM_FWVER, Get_op SYS_PROP_WP_HW, Get_op SYS_PROP_TPM_FWVER]
        (example_config example_current example_new) example_host = 1"
proof -
  let ?c = "example_config example_current example_new"
  let ?c1 = "override_system_property SYS_PROP_TPM_FWVER ?c (- 1)"
  have u: "initialized (system_properties ?c SYS_PROP_TPM_FWVER) = 0"
    by (simp add: example_config_def)
  have gt: "getter (system_properties ?c SYS_PROP_TPM_FWVER) example_host = (- 1, example_host)"
    by (simp add: example_config_def)
  have g: "get_system_property SYS_PROP_TPM_FWVER ?c example_host = (- 1, ?c1, example_host)"
    using get_system_property_fresh [OF u, of example_host] gt by simp
  have r: "getter_runs SYS_PROP_TPM_FWVER
        [Get_op SYS_PROP_TPM_FWVER, Get_op SYS_PROP_WP_HW, Get_op SYS_PROP_TPM_FWVER]
        ?c example_host = 1"
    by code_simp
  have i: "initialized (system_properties ?c1 SYS_PROP_TPM_FWVER) \<noteq> 0"
    by (simp add: override_system_property_def)
  show ?thesis
    using property_cache_once [of ?c SYS_PROP_TPM_FWVER example_host "- 1" ?c1 example_host]
      g r i
    by simp
qed

section \<open>The size guard of the keyblock\<close>

text \<open>
  C10. When VBLOCK_A is absent or smaller than a keyblock and a firmware preamble
  together, \<^const>\<open>get_keyblock\<close> returns no pointer; the key versions are then
  reported as a failure with no field read, the TPM check fails with no property read,
  and the root-key check fails after reading the GBB of the RO image only. So a result
  that comes from keyblock or preamble fields needs a section of at least that size.
\<close>

theorem keyblock_size_guard:
  assumes "\<not> firmware_section_exists img FMAP_RW_VBLOCK_A
           \<or> section_size (snd (find_firmware_section img FMAP_RW_VBLOCK_A))
               < keyblock_sizeof V + fw_preamble_sizeof V"
  shows "get_keyblock V img FMAP_RW_VBLOCK_A = None
       \<and> get_key_versions V img FMAP_RW_VBLOCK_A versions = Some (- 1, versions)
       \<and> do_check_compatible_tpm_keys V cfg img h = Some (- 1, cfg, h)
       \<and> check_compatible_root_key V ro_image img =
           (case find_gbb V ro_image of
              None \<Rightarrow> Some (- 1)
            | Some gbb \<Rightarrow> map_option (\<lambda>key. - 1) (get_rootkey V (image_bytes ro_image) gbb))"
proof -
  have k: "get_keyblock V img FMAP_RW_VBLOCK_A = None"
    using assms by (auto simp: get_keyblock_def firmware_section_exists_def Let_def)
  have v: "\<And>vs. get_key_versions V img FMAP_RW_VBLOCK_A vs = Some (- 1, vs)"
    by (simp add: get_key_versions_def k)
  have t: "do_check_compatible_tpm_keys V cfg img h = Some (- 1, cfg, h)"
    by (simp add: do_check_compatible_tpm_keys_def v)
  have r: "check_compatible_root_key V ro_image img =
           (case find_gbb V ro_image of
              None \<Rightarrow> Some (- 1)
            | Some gbb \<Rightarrow> map_option (\<lambda>key. - 1) (get_rootkey V (image_bytes ro_image) gbb))"
    by (auto simp: check_compatible_root_key_def k split: option.splits Option.bind_splits)
  show ?thesis using k v t r by simp
qed

text \<open>A VBLOCK_A of 219 bytes is refused, and one of 220 bytes is accepted.\<close>

theorem keyblock_size_guard_witness:
  "firmware_section_exists example_short_vblock FMAP_RW_VBLOCK_A
   \<and> section_size (snd (find_firmware_section example_short_vblock FMAP_RW_VBLOCK_A)) = 219
   \<and> keyblock_sizeof example_vboot + fw_preamble_sizeof example_vboot = 220
   \<and> get_keyblock example_vboot example_short_vblock FMAP_RW_VBLOCK_A = None
   \<and> get_key_versions example_vboot example_short_vblock FMAP_RW_VBLOCK_A (0, 0)
       = Some (- 1, 0, 0)
   \<and> check_compatible_root_key example_vboot example_current example_short_vblock = Some (- 1)
   \<and> get_keyblock example_vboot example_new FMAP_RW_VBLOCK_A = Some 144"
proof -
  have a: "firmware_section_exists example_short_vblock FMAP_RW_VBLOCK_A"
      "section_size (snd (find_firmware_section example_short_vblock FMAP_RW_VBLOCK_A)) = 219"
      "keyblock_sizeof example_vboot + fw_preamble_sizeof example_vboot = 220"
      "get_keyblock example_vboot example_new FMAP_RW_VBLOCK_A = Some 144"
    by code_simp+
  have g: "find_gbb example_vboot example_current = Some 0"
    by code_simp
  have k: "get_rootkey example_vboot (image_bytes example_current) 0 = Some (Some 128)"
    by code_simp
  show ?thesis
    using keyblock_size_guard [of example_short_vblock example_vboot "(0, 0)" _ _ example_current]
      a g k
    by simp
qed

section \<open>The writes of an RW update\<close>

text \<open>
  C4. Once the root key check and the TPM check have passed, the RW update is the
  writing, one after the other and up to the first write that fails, of RW_SECTION_A,
  RW_SECTION_B, RW_SHARED and then RW_LEGACY, the last only when the image to install
  has that section; it returns UPDATE_ERR_WRITE_FIRMWARE when a write failed and
  UPDATE_ERR_DONE otherwise. On the flasher this reads: the writes issued are the first
  \<open>k\<close> sections of that list, in order and each with status 0, followed by at most one
  more write, that of the next section with a status other than 0; all the sections
  are written when the update succeeds, and after a write that failed (in the flasher,
  or before it was reached) none is issued.
\<close>

theorem rw_update_write_order:
  assumes rk: "check_compatible_root_key V (image_current cfg) (cfg_image cfg) = Some 0"
      and tk: "check_compatible_tpm_keys V cfg (cfg_image cfg) h = Some (0, cfg1, h1)"
  shows "update_rw_firmrware V cfg h =
           do {
             (w, cfg', h') \<leftarrow> write_sections V cfg1 (rw_sections (cfg_image cfg)) h1;
             Some (if w \<noteq> 0 then UPDATE_ERR_WRITE_FIRMWARE else UPDATE_ERR_DONE, cfg', h')
           }
       \<and> (emulation cfg = None \<longrightarrow>
            (\<forall>r cfg' h'. update_rw_firmrware V cfg h = Some (r, cfg', h') \<longrightarrow>
               (\<exists>evs k tail.
                  events h' = events h1 @ evs \<and> k \<le> length (rw_sections (cfg_image cfg))
                \<and> flash_writes evs
                    = map (\<lambda>n. (programmer (cfg_image cfg), Some n, 0))
                        (take k (rw_sections (cfg_image cfg))) @ tail
                \<and> (if r = UPDATE_ERR_DONE
                    then k = length (rw_sections (cfg_image cfg)) \<and> tail = []
                    else r = UPDATE_ERR_WRITE_FIRMWARE
                       \<and> k < length (rw_sections (cfg_image cfg))
                       \<and> (tail = []
                           \<or> (\<exists>w. w \<noteq> 0
                                \<and> tail = [(programmer (cfg_image cfg),
                                           Some (rw_sections (cfg_image cfg) ! k), w)]))))))"
proof -
  note fr = check_tpm_frame [OF tk]
  from fr have img: "cfg_image cfg1 = cfg_image cfg" and em: "emulation cfg1 = emulation cfg"
    by simp_all
  have eq: "update_rw_firmrware V cfg h =
           do {
             (w, cfg', h') \<leftarrow> write_sections V cfg1 (rw_sections (cfg_image cfg)) h1;
             Some (if w \<noteq> 0 then UPDATE_ERR_WRITE_FIRMWARE else UPDATE_ERR_DONE, cfg', h')
           }"
    using update_rw_refines [OF rk tk] img by simp
  have tr: "\<exists>evs k tail.
                  events h' = events h1 @ evs \<and> k \<le> length (rw_sections (cfg_image cfg))
                \<and> flash_writes evs
                    = map (\<lambda>n. (programmer (cfg_image cfg), Some n, 0))
                        (take k (rw_sections (cfg_image cfg))) @ tail
                \<and> (if r = UPDATE_ERR_DONE
                    then k = length (rw_sections (cfg_image cfg)) \<and> tail = []
                    else r = UPDATE_ERR_WRITE_FIRMWARE
                       \<and> k < length (rw_sections (cfg_image cfg))
                       \<and> (tail = []
                           \<or> (\<exists>w. w \<noteq> 0
                                \<and> tail = [(programmer (cfg_image cfg),
                                           Some (rw_sections (cfg_image cfg) ! k), w)])))"
    if e: "emulation cfg = None" and run: "update_rw_firmrware V cfg h = Some (r, cfg', h')"
    for r cfg' h'
  proof -
    from run eq obtain w where
      ws: "write_sections V cfg1 (rw_sections (cfg_image cfg)) h1 = Some (w, cfg', h')"
      and r: "r = (if w \<noteq> 0 then UPDATE_ERR_WRITE_FIRMWARE else UPDATE_ERR_DONE)"
      by (auto split: Option.bind_splits)
    have e1: "emulation cfg1 = None" using em e by simp
    from write_sections_flash [OF e1 ws rw_sections_nonempty] obtain evs k tail where
      "events h' = events h1 @ evs" "k \<le> length (rw_sections (cfg_image cfg))"
      "flash_writes evs
             = map (\<lambda>n. (programmer (cfg_image cfg1), Some n, 0))
                 (take k (rw_sections (cfg_image cfg))) @ tail"
      "if w = 0 then k = length (rw_sections (cfg_image cfg)) \<and> tail = []
       else k < length (rw_sections (cfg_image cfg))
            \<and> (tail = [] \<or> tail = [(programmer (cfg_image cfg1),
                                      Some (rw_sections (cfg_image cfg) ! k), w)])"
      by blast
    then have "events h' = events h1 @ evs \<and> k \<le> length (rw_sections (cfg_image cfg))
                \<and> flash_writes evs
                    = map (\<lambda>n. (programmer (cfg_image cfg), Some n, 0))
                        (take k (rw_sections (cfg_image cfg))) @ tail
                \<and> (if r = UPDATE_ERR_DONE
                    then k = length (rw_sections (cfg_image cfg)) \<and> tail = []
                    else r = UPDATE_ERR_WRITE_FIRMWARE
                       \<and> k < length (rw_sections (cfg_image cfg))
                       \<and> (tail = []
                           \<or> (\<exists>w. w \<noteq> 0
                                \<and> tail = [(programmer (cfg_image cfg),
                                           Some (rw_sections (cfg_image cfg) ! k), w)])))"
      using r img by (cases "w = 0") auto
    then show ?thesis by blast
  qed
  show ?thesis using eq tr by blast
qed

text \<open>
  The example writes the four sections in order; on a host whose flasher fails on
  RW_SECTION_B the update stops there; an image with no RW_LEGACY gets three writes.
\<close>

theorem rw_update_write_order_witness:
  "check_compatible_root_key example_vboot (image_current example_system)
     (cfg_image example_system) = Some 0
   \<and> check_compatible_tpm_keys example_vboot example_system (cfg_image example_system)
       example_host = Some (0, example_system, example_host)
   \<and> emulation example_system = None
   \<and> rw_sections (cfg_image example_system)
       = [''RW_SECTION_A'', ''RW_SECTION_B'', ''RW_SHARED'', ''RW_LEGACY'']
   \<and> map_option (\<lambda>(r, c, k). (r, flash_writes (events k)))
       (update_rw_firmrware example_vboot example_system example_host)
     = Some (UPDATE_ERR_DONE,
             [(''host'', Some ''RW_SECTION_A'', 0), (''host'', Some ''RW_SECTION_B'', 0),
              (''host'', Some ''RW_SHARED'', 0), (''host'', Some ''RW_LEGACY'', 0)])
   \<and> map_option (\<lambda>(r, c, k). (r, flash_writes (events k)))
       (update_rw_firmrware example_vboot example_system
          (example_failing_host ''RW_SECTION_B''))
     = Some (UPDATE_ERR_WRITE_FIRMWARE,
             [(''host'', Some ''RW_SECTION_A'', 0), (''host'', Some ''RW_SECTION_B'', 1)])
   \<and> map_option (\<lambda>(r, c, k). (r, flash_writes (events k)))
       (update_rw_firmrware example_vboot
          (example_system\<lparr>cfg_image :=
             example_new\<lparr>fmap_header := Some (butlast example_areas)\<rparr>\<rparr>)
          example_host)
     = Some (UPDATE_ERR_DONE,
             [(''host'', Some ''RW_SECTION_A'', 0), (''host'', Some ''RW_SECTION_B'', 0),
              (''host'', Some ''RW_SHARED'', 0)])"
proof -
  have rk: "check_compatible_root_key example_vboot (image_current example_system)
              (cfg_image example_system) = Some 0"
    by (simp add: example_system_fields example_system_root_key)
  have tk: "check_compatible_tpm_keys example_vboot example_system (cfg_image example_system)
              example_host = Some (0, example_system, example_host)"
    by (simp add: example_system_fields example_system_tpm)
  show ?thesis
    using rw_update_write_order [OF rk tk] rk tk example_system_fields example_rw_sections
      example_rw_update example_rw_update_failing example_rw_update_no_legacy
    by simp
qed

section \<open>The legacy section in a try-RW update\<close>

text \<open>
  C6. The claim asks for the tag in the legacy section of both the current image and
  the image to install. The code asks \<^verbatim>\<open>cbfstool\<close> twice about the one temporary
  file, which holds the image to install. On a host where only that image carries the
  tag and the current image does not, with legacy sections that differ, the try-RW
  update of the example writes RW_SECTION_B and then RW_LEGACY. The status of that
  last write is dropped: when it fails the update still returns UPDATE_ERR_DONE.
\<close>

theorem legacy_update_ignores_current:
  "cbfstool example_tag_host (Some (image_bytes example_current)) FMAP_RW_LEGACY legacy_tag = 1
   \<and> cbfstool example_tag_host (Some (image_bytes example_new_preserved)) FMAP_RW_LEGACY
       legacy_tag = 0
   \<and> map_option (\<lambda>(r, c, k). (r, flash_writes (events k)))
       (update_try_rw_firmware example_vboot example_system 1 example_tag_host)
     = Some (UPDATE_ERR_DONE,
             [(''host'', Some ''RW_SECTION_B'', 0), (''host'', Some ''RW_LEGACY'', 0)])
   \<and> map_option (\<lambda>(r, c, k). (r, flash_writes (events k)))
       (update_try_rw_firmware example_vboot example_system 1
          (example_tag_host\<lparr>status := status (example_failing_host ''RW_LEGACY'')\<rparr>))
     = Some (UPDATE_ERR_DONE,
             [(''host'', Some ''RW_SECTION_B'', 0), (''host'', Some ''RW_LEGACY'', 1)])"
  by code_simp

section \<open>Running the updater twice\<close>

text \<open>
  C7, amended. Take a run of \<^verbatim>\<open>update_firmware\<close> that reaches the choice of a
  strategy, with the write protection found and in the state given by
  \<^const>\<open>update_firmware_start\<close>, and with neither \<^verbatim>\<open>legacy_update\<close> nor
  \<^verbatim>\<open>force_update\<close> set.

  An RW-only run (\<^verbatim>\<open>try_update\<close> clear, write protection on) compares nothing: once the
  root key check and the TPM check pass, the run is the writing of the RW sections of the
  image to install, whatever the current image holds. Outside emulation it returns
  UPDATE_ERR_DONE or UPDATE_ERR_WRITE_FIRMWARE, and UPDATE_ERR_DONE only with every one
  of these sections written on the flasher with status 0; the writes are the events
  that follow the TPM check.

  In a try-RW run (\<^verbatim>\<open>try_update\<close> set) whose checks pass, whose slot is known and
  whose SELF slot exists in the image to install, let \<open>d\<close> be the comparison of the SELF
  slot between the two images and \<open>l\<close> that of the legacy section. Neither the slot to
  update nor the legacy section is the SELF slot. When \<open>d\<close> and \<open>l\<close> are 0 the run returns
  UPDATE_ERR_DONE and issues no write on the flasher after the read of the active slot,
  the last step before the comparison. When \<open>d\<close> is not 0 the run, outside emulation,
  writes the slot to update: it returns UPDATE_ERR_WRITE_FIRMWARE when that write fails
  or cannot be issued, UPDATE_ERR_SET_COOKIES when the write succeeded and the cookies
  cannot be set, and UPDATE_ERR_DONE otherwise, after that write and at most one more,
  of the legacy section; these are all the writes that follow the read of the active
  slot.
\<close>

theorem update_runs_compare:
  assumes start: "update_firmware_start V Q cfg h = Some (Inr (wp_enabled, cfg_s, h_s))"
      and leg: "legacy_update cfg_s = 0"
      and f0: "force_update cfg_s = 0"
  shows "(try_update cfg_s = 0 \<and> wp_enabled \<noteq> 0
          \<and> check_compatible_root_key V (image_current cfg_s) (cfg_image cfg_s) = Some 0
          \<and> check_compatible_tpm_keys V cfg_s (cfg_image cfg_s) h_s = Some (0, cfg_c, h_c) \<longrightarrow>
          update_firmware V Q cfg h =
            do {
              (w, cfg', h') \<leftarrow> write_sections V cfg_c (rw_sections (cfg_image cfg_s)) h_c;
              Some (if w \<noteq> 0 then UPDATE_ERR_WRITE_FIRMWARE else UPDATE_ERR_DONE, cfg', h')
            }
          \<and> (emulation cfg_s = None \<longrightarrow>
               (\<exists>r cfg' h' evs. update_firmware V Q cfg h = Some (r, cfg', h')
                  \<and> events h' = events h_c @ evs
                  \<and> (r = UPDATE_ERR_DONE \<or> r = UPDATE_ERR_WRITE_FIRMWARE)
                  \<and> (r = UPDATE_ERR_DONE \<longrightarrow>
                       flash_writes evs = map (\<lambda>n. (programmer (cfg_image cfg_s), Some n, 0))
                                            (rw_sections (cfg_image cfg_s))))))
       \<and> (try_update cfg_s \<noteq> 0
          \<and> get_system_property SYS_PROP_FW_VBOOT2 cfg_s h_s = (gen, cfg_v, h_v)
          \<and> preserve_gbb V (image_current cfg_s) (cfg_image cfg_s) = Some (r_gbb, img)
          \<and> (wp_enabled \<noteq> 0
              \<or> section_needs_update (image_current cfg_s) img (Some FMAP_RO_SECTION) = Some 0)
          \<and> check_compatible_root_key V (image_current cfg_s) img = Some 0
          \<and> check_compatible_tpm_keys V (cfg_v\<lparr>cfg_image := img\<rparr>) img h_v = Some (0, cfg_t, h_t)
          \<and> get_system_property SYS_PROP_MAINFW_ACT cfg_t h_t = (slot, cfg_a, h_a)
          \<and> (gen = 0 \<or> slot = SLOT_A \<or> slot = SLOT_B)
          \<and> self = (if gen = 0 \<or> slot = SLOT_A
                     then FMAP_RW_SECTION_A else FMAP_RW_SECTION_B)
          \<and> update = (if gen = 0 \<or> slot = SLOT_A
                       then FMAP_RW_SECTION_B else FMAP_RW_SECTION_A)
          \<and> firmware_section_exists img self
          \<and> section_needs_update (image_current cfg_s) img (Some self) = Some d
          \<and> section_needs_update (image_current cfg_s) img (Some FMAP_RW_LEGACY) = Some l \<longrightarrow>
          update \<noteq> self \<and> FMAP_RW_LEGACY \<noteq> self
          \<and> (d = 0 \<and> l = 0 \<longrightarrow>
             (\<exists>cfg' h' evs. update_firmware V Q cfg h = Some (UPDATE_ERR_DONE, cfg', h')
                \<and> events h' = events h_a @ evs \<and> flash_writes evs = []))
          \<and> (d \<noteq> 0 \<and> emulation cfg_s = None \<longrightarrow>
               (\<exists>r cfg' h' evs. update_firmware V Q cfg h = Some (r, cfg', h')
                  \<and> events h' = events h_a @ evs
                  \<and> (r = UPDATE_ERR_WRITE_FIRMWARE
                        \<and> (flash_writes evs = []
                            \<or> (\<exists>w. w \<noteq> 0
                                  \<and> flash_writes evs = [(programmer img, Some update, w)]))
                      \<or> r = UPDATE_ERR_SET_COOKIES
                        \<and> flash_writes evs = [(programmer img, Some update, 0)]
                      \<or> r = UPDATE_ERR_DONE
                        \<and> (flash_writes evs = [(programmer img, Some update, 0)]
                            \<or> l \<noteq> 0
                              \<and> (\<exists>w. flash_writes evs
                                       = [(programmer img, Some update, 0),
                                          (programmer img, Some FMAP_RW_LEGACY, w)]))))))"
proof -
  note reach = update_firmware_reaches [OF start leg]
  have c: "update_firmware V Q cfg h =
            do {
              (w, cfg', h') \<leftarrow> write_sections V cfg_c (rw_sections (cfg_image cfg_s)) h_c;
              Some (if w \<noteq> 0 then UPDATE_ERR_WRITE_FIRMWARE else UPDATE_ERR_DONE, cfg', h')
            }
          \<and> (emulation cfg_s = None \<longrightarrow>
               (\<exists>r cfg' h' evs. update_firmware V Q cfg h = Some (r, cfg', h')
                  \<and> events h' = events h_c @ evs
                  \<and> (r = UPDATE_ERR_DONE \<or> r = UPDATE_ERR_WRITE_FIRMWARE)
                  \<and> (r = UPDATE_ERR_DONE \<longrightarrow>
                       flash_writes evs = map (\<lambda>n. (programmer (cfg_image cfg_s), Some n, 0))
                                            (rw_sections (cfg_image cfg_s)))))"
    if t: "try_update cfg_s = 0" and wp: "wp_enabled \<noteq> 0"
      and rk: "check_compatible_root_key V (image_current cfg_s) (cfg_image cfg_s) = Some 0"
      and tk: "check_compatible_tpm_keys V cfg_s (cfg_image cfg_s) h_s = Some (0, cfg_c, h_c)"
  proof -
    have run: "update_firmware V Q cfg h = update_rw_firmrware V cfg_s h_s"
      using reach t wp by simp
    from check_tpm_frame [OF tk] have "cfg_image cfg_c = cfg_image cfg_s" by simp
    with update_rw_refines [OF rk tk] run
    have "update_firmware V Q cfg h =
            do {
              (w, cfg', h') \<leftarrow> write_sections V cfg_c (rw_sections (cfg_image cfg_s)) h_c;
              Some (if w \<noteq> 0 then UPDATE_ERR_WRITE_FIRMWARE else UPDATE_ERR_DONE, cfg', h')
            }"
      by simp
    moreover have "\<exists>r cfg' h' evs. update_firmware V Q cfg h = Some (r, cfg', h')
                  \<and> events h' = events h_c @ evs
                  \<and> (r = UPDATE_ERR_DONE \<or> r = UPDATE_ERR_WRITE_FIRMWARE)
                  \<and> (r = UPDATE_ERR_DONE \<longrightarrow>
                       flash_writes evs = map (\<lambda>n. (programmer (cfg_image cfg_s), Some n, 0))
                                            (rw_sections (cfg_image cfg_s)))"
      if "emulation cfg_s = None"
      unfolding run by (rule rw_update_all_written [OF rk tk that])
    ultimately show ?thesis by blast
  qed
  have b: "update \<noteq> self \<and> FMAP_RW_LEGACY \<noteq> self
          \<and> (d = 0 \<and> l = 0 \<longrightarrow>
             (\<exists>cfg' h' evs. update_firmware V Q cfg h = Some (UPDATE_ERR_DONE, cfg', h')
                \<and> events h' = events h_a @ evs \<and> flash_writes evs = []))
          \<and> (d \<noteq> 0 \<and> emulation cfg_s = None \<longrightarrow>
               (\<exists>r cfg' h' evs. update_firmware V Q cfg h = Some (r, cfg', h')
                  \<and> events h' = events h_a @ evs
                  \<and> (r = UPDATE_ERR_WRITE_FIRMWARE
                        \<and> (flash_writes evs = []
                            \<or> (\<exists>w. w \<noteq> 0
                                  \<and> flash_writes evs = [(programmer img, Some update, w)]))
                      \<or> r = UPDATE_ERR_SET_COOKIES
                        \<and> flash_writes evs = [(programmer img, Some update, 0)]
                      \<or> r = UPDATE_ERR_DONE
                        \<and> (flash_writes evs = [(programmer img, Some update, 0)]
                            \<or> l \<noteq> 0
                              \<and> (\<exists>w. flash_writes evs
                                       = [(programmer img, Some update, 0),
                                          (programmer img, Some FMAP_RW_LEGACY, w)])))))"
    if t: "try_update cfg_s \<noteq> 0"
      and v: "get_system_property SYS_PROP_FW_VBOOT2 cfg_s h_s = (gen, cfg_v, h_v)"
      and pg: "preserve_gbb V (image_current cfg_s) (cfg_image cfg_s) = Some (r_gbb, img)"
      and ro: "wp_enabled \<noteq> 0
              \<or> section_needs_update (image_current cfg_s) img (Some FMAP_RO_SECTION) = Some 0"
      and rk: "check_compatible_root_key V (image_current cfg_s) img = Some 0"
      and tk: "check_compatible_tpm_keys V (cfg_v\<lparr>cfg_image := img\<rparr>) img h_v = Some (0, cfg_t, h_t)"
      and sl: "get_system_property SYS_PROP_MAINFW_ACT cfg_t h_t = (slot, cfg_a, h_a)"
      and known: "gen = 0 \<or> slot = SLOT_A \<or> slot = SLOT_B"
      and self: "self = (if gen = 0 \<or> slot = SLOT_A
                     then FMAP_RW_SECTION_A else FMAP_RW_SECTION_B)"
      and upd: "update = (if gen = 0 \<or> slot = SLOT_A
                       then FMAP_RW_SECTION_B else FMAP_RW_SECTION_A)"
      and ex: "firmware_section_exists img self"
      and d: "section_needs_update (image_current cfg_s) img (Some self) = Some d"
      and l: "section_needs_update (image_current cfg_s) img (Some FMAP_RW_LEGACY) = Some l"
  proof -
    have run: "update_firmware V Q cfg h =
            do {
              (r, cfg_r, h_r) \<leftarrow> update_try_rw_firmware V cfg_s wp_enabled h_s;
              if r \<noteq> UPDATE_ERR_NEED_RO_UPDATE then Some (r, cfg_r, h_r)
              else if wp_enabled \<noteq> 0 then update_rw_firmrware V cfg_r h_r
              else update_whole_firmware V Q cfg_r h_r
            }"
      using reach t by simp
    have same: "\<exists>cfg' h' evs. update_firmware V Q cfg h = Some (UPDATE_ERR_DONE, cfg', h')
                \<and> events h' = events h_a @ evs \<and> flash_writes evs = []"
      if "d = 0" "l = 0"
    proof -
      from that d l have d0: "section_needs_update (image_current cfg_s) img (Some self) = Some 0"
        and l0: "section_needs_update (image_current cfg_s) img (Some FMAP_RW_LEGACY) = Some 0"
        by simp_all
      from try_rw_same [OF v pg ro rk tk sl known self ex f0 d0 l0]
      obtain cfg' h' evs where
        "update_try_rw_firmware V cfg_s wp_enabled h_s = Some (UPDATE_ERR_DONE, cfg', h')"
        "events h' = events h_a @ evs" "flash_writes evs = []"
        by blast
      with run show ?thesis by simp
    qed
    have differs: "\<exists>r cfg' h' evs. update_firmware V Q cfg h = Some (r, cfg', h')
                  \<and> events h' = events h_a @ evs
                  \<and> (r = UPDATE_ERR_WRITE_FIRMWARE
                        \<and> (flash_writes evs = []
                            \<or> (\<exists>w. w \<noteq> 0
                                  \<and> flash_writes evs = [(programmer img, Some update, w)]))
                      \<or> r = UPDATE_ERR_SET_COOKIES
                        \<and> flash_writes evs = [(programmer img, Some update, 0)]
                      \<or> r = UPDATE_ERR_DONE
                        \<and> (flash_writes evs = [(programmer img, Some update, 0)]
                            \<or> l \<noteq> 0
                              \<and> (\<exists>w. flash_writes evs
                                       = [(programmer img, Some update, 0),
                                          (programmer img, Some FMAP_RW_LEGACY, w)])))"
      if "d \<noteq> 0" "emulation cfg_s = None"
    proof -
      from try_rw_differs [OF v pg ro rk tk sl known self upd ex f0 d that(1) l that(2)]
      obtain r cfg' h' evs where
        u: "update_try_rw_firmware V cfg_s wp_enabled h_s = Some (r, cfg', h')"
        and e: "events h' = events h_a @ evs"
        and w: "r = UPDATE_ERR_WRITE_FIRMWARE
                        \<and> (flash_writes evs = []
                            \<or> (\<exists>w. w \<noteq> 0
                                  \<and> flash_writes evs = [(programmer img, Some update, w)]))
                      \<or> r = UPDATE_ERR_SET_COOKIES
                        \<and> flash_writes evs = [(programmer img, Some update, 0)]
                      \<or> r = UPDATE_ERR_DONE
                        \<and> (flash_writes evs = [(programmer img, Some update, 0)]
                            \<or> l \<noteq> 0
                              \<and> (\<exists>w. flash_writes evs
                                       = [(programmer img, Some update, 0),
                                          (programmer img, Some FMAP_RW_LEGACY, w)]))"
        by blast
      from w have "r \<noteq> UPDATE_ERR_NEED_RO_UPDATE" by auto
      with run u have "update_firmware V Q cfg h = Some (r, cfg', h')" by simp
      with e w show ?thesis by blast
    qed
    have names: "update \<noteq> self \<and> FMAP_RW_LEGACY \<noteq> self"
      using self upd
      by (simp add: FMAP_RW_SECTION_A_def FMAP_RW_SECTION_B_def FMAP_RW_LEGACY_def)
    from names same differs show ?thesis by blast
  qed
  show ?thesis using c b by blast
qed

text \<open>
  Runs from the configuration the program starts with: the current image is not loaded
  and no property is read. On a system whose flash already holds the image to install,
  with debugging on, the run reaches the choice of a strategy; the try-RW run then
  writes nothing, and the RW-only run returns after its writes. Without debugging the
  try-RW run on that system writes nothing, the try-RW run on a system that holds older
  RW sections writes RW_SECTION_B, and the RW-only run on the system that already holds
  the image writes the four sections.
\<close>

theorem update_runs_compare_witness:
  "data (image_current (example_fresh 1 example_new_rw)) = None
   \<and> (\<forall>p. initialized (system_properties (example_fresh 1 example_new_rw) p) = 0)
   \<and> (\<exists>cfg_s h_s.
         update_firmware_start example_machine example_quirks (example_fresh 1 example_new_rw)
           (example_flash_host example_new_rw 1) = Some (Inr (1, cfg_s, h_s))
         \<and> legacy_update cfg_s = 0 \<and> force_update cfg_s = 0 \<and> try_update cfg_s \<noteq> 0
         \<and> (\<exists>cfg' h' evs.
               update_firmware example_machine example_quirks (example_fresh 1 example_new_rw)
                 (example_flash_host example_new_rw 1) = Some (UPDATE_ERR_DONE, cfg', h')
               \<and> events h' = events h_s @ evs \<and> flash_writes evs = []))
   \<and> (\<exists>cfg_s h_s.
         update_firmware_start example_machine example_quirks (example_fresh 0 example_new_rw)
           (example_flash_host example_new_rw 1) = Some (Inr (1, cfg_s, h_s))
         \<and> legacy_update cfg_s = 0 \<and> force_update cfg_s = 0 \<and> try_update cfg_s = 0
         \<and> (\<exists>r cfg' h' evs.
               update_firmware example_machine example_quirks (example_fresh 0 example_new_rw)
                 (example_flash_host example_new_rw 1) = Some (r, cfg', h')
               \<and> events h' = events h_s @ evs
               \<and> (r = UPDATE_ERR_DONE \<or> r = UPDATE_ERR_WRITE_FIRMWARE)
               \<and> (r = UPDATE_ERR_DONE \<longrightarrow>
                    flash_writes evs
                      = map (\<lambda>n. (''host'', Some n, 0))
                          (rw_sections (example_frid_image ''new.bin'' example_new_rw)))))
   \<and> map_option (\<lambda>(r, c, k). (r, flash_writes (events k)))
       (update_firmware example_machine example_quirks (example_fresh 1 example_new_rw)
          (example_flash_host example_new_rw 0))
     = Some (UPDATE_ERR_DONE, [])
   \<and> map_option (\<lambda>(r, c, k). (r, flash_writes (events k)))
       (update_firmware example_machine example_quirks (example_fresh 1 example_new_rw)
          (example_flash_host example_old_rw 0))
     = Some (UPDATE_ERR_DONE, [(''host'', Some ''RW_SECTION_B'', 0)])
   \<and> map_option (\<lambda>(r, c, k). (r, flash_writes (events k)))
       (update_firmware example_machine example_quirks (example_fresh 0 example_new_rw)
          (example_flash_host example_new_rw 0))
     = Some (UPDATE_ERR_DONE,
             [(''host'', Some ''RW_SECTION_A'', 0), (''host'', Some ''RW_SECTION_B'', 0),
              (''host'', Some ''RW_SHARED'', 0), (''host'', Some ''RW_LEGACY'', 0)])"
proof -
  let ?new = "example_frid_image ''new.bin'' example_new_rw"
  let ?cur = "example_frid_image ''/tmp/fwupdater.'' example_new_rw"
  have tpm: "check_compatible_tpm_keys example_machine c ?new k = Some (0, c, k)"
    if "initialized (system_properties c SYS_PROP_TPM_FWVER) = 1"
      "prop_value (system_properties c SYS_PROP_TPM_FWVER) = 0x10001"
      "cfg_image c = ?new" for c k
  proof -
    have g: "get_system_property SYS_PROP_TPM_FWVER c k = (0x10001, c, k)"
      using get_system_property_cached [of c SYS_PROP_TPM_FWVER k] that by simp
    show ?thesis
      using check_tpm_eq(2) [OF example_fresh_checks(3) g] example_tpm_value by simp
  qed
  have b: "\<exists>cfg_s h_s.
         update_firmware_start example_machine example_quirks (example_fresh 1 example_new_rw)
           (example_flash_host example_new_rw 1) = Some (Inr (1, cfg_s, h_s))
         \<and> legacy_update cfg_s = 0 \<and> force_update cfg_s = 0 \<and> try_update cfg_s \<noteq> 0
         \<and> (\<exists>cfg' h' evs.
               update_firmware example_machine example_quirks (example_fresh 1 example_new_rw)
                 (example_flash_host example_new_rw 1) = Some (UPDATE_ERR_DONE, cfg', h')
               \<and> events h' = events h_s @ evs \<and> flash_writes evs = [])"
  proof -
    from update_firmware_start_fields [OF example_fresh_try_start] obtain cfg_s h_s where
      start: "update_firmware_start example_machine example_quirks
                (example_fresh 1 example_new_rw) (example_flash_host example_new_rw 1)
              = Some (Inr (1, cfg_s, h_s))"
      and f: "cfg_image cfg_s = ?new" "image_current cfg_s = ?cur" "try_update cfg_s = 1"
        "legacy_update cfg_s = 0" "force_update cfg_s = 0" "emulation cfg_s = None"
        "initialized (system_properties cfg_s SYS_PROP_MAINFW_ACT) = 1"
        "prop_value (system_properties cfg_s SYS_PROP_MAINFW_ACT) = 0"
        "initialized (system_properties cfg_s SYS_PROP_TPM_FWVER) = 1"
        "prop_value (system_properties cfg_s SYS_PROP_TPM_FWVER) = 0x10001"
        "initialized (system_properties cfg_s SYS_PROP_FW_VBOOT2) = 1"
        "prop_value (system_properties cfg_s SYS_PROP_FW_VBOOT2) = 1"
      by blast
    let ?c = "cfg_s\<lparr>cfg_image := ?new\<rparr>"
    have v: "get_system_property SYS_PROP_FW_VBOOT2 cfg_s h_s = (1, cfg_s, h_s)"
      using get_system_property_cached [of cfg_s SYS_PROP_FW_VBOOT2 h_s] f by simp
    have pg: "preserve_gbb example_machine (image_current cfg_s) (cfg_image cfg_s)
                = Some (0, ?new)"
      using f example_fresh_checks(1) by simp
    have rk: "check_compatible_root_key example_machine (image_current cfg_s) ?new = Some 0"
      using f example_fresh_checks(2) by simp
    have tk: "check_compatible_tpm_keys example_machine ?c ?new h_s = Some (0, ?c, h_s)"
      by (rule tpm) (simp_all add: f)
    have sl: "get_system_property SYS_PROP_MAINFW_ACT ?c h_s = (0, ?c, h_s)"
      using get_system_property_cached [of ?c SYS_PROP_MAINFW_ACT h_s] f by simp
    have ex: "firmware_section_exists ?new FMAP_RW_SECTION_A" by (rule example_fresh_checks(4))
    have d: "section_needs_update (image_current cfg_s) ?new (Some FMAP_RW_SECTION_A) = Some 0"
      using f example_fresh_checks(5) by simp
    have l: "section_needs_update (image_current cfg_s) ?new (Some FMAP_RW_LEGACY) = Some 0"
      using f example_fresh_checks(6) by simp
    have t: "try_update cfg_s \<noteq> 0" using f by simp
    have "\<exists>cfg' h' evs.
               update_firmware example_machine example_quirks (example_fresh 1 example_new_rw)
                 (example_flash_host example_new_rw 1) = Some (UPDATE_ERR_DONE, cfg', h')
               \<and> events h' = events h_s @ evs \<and> flash_writes evs = []"
      using update_runs_compare [OF start f(4) f(5),
          where gen = 1 and cfg_v = cfg_s and h_v = h_s and r_gbb = 0 and img = ?new
            and cfg_t = ?c and h_t = h_s and slot = 0 and cfg_a = ?c and h_a = h_s
            and self = FMAP_RW_SECTION_A and update = FMAP_RW_SECTION_B and d = 0 and l = 0]
        t v pg rk tk sl ex d l
      by (simp add: SLOT_A_def)
    with start f show ?thesis by auto
  qed
  have c: "\<exists>cfg_s h_s.
         update_firmware_start example_machine example_quirks (example_fresh 0 example_new_rw)
           (example_flash_host example_new_rw 1) = Some (Inr (1, cfg_s, h_s))
         \<and> legacy_update cfg_s = 0 \<and> force_update cfg_s = 0 \<and> try_update cfg_s = 0
         \<and> (\<exists>r cfg' h' evs.
               update_firmware example_machine example_quirks (example_fresh 0 example_new_rw)
                 (example_flash_host example_new_rw 1) = Some (r, cfg', h')
               \<and> events h' = events h_s @ evs
               \<and> (r = UPDATE_ERR_DONE \<or> r = UPDATE_ERR_WRITE_FIRMWARE)
               \<and> (r = UPDATE_ERR_DONE \<longrightarrow>
                    flash_writes evs
                      = map (\<lambda>n. (''host'', Some n, 0))
                          (rw_sections (example_frid_image ''new.bin'' example_new_rw))))"
  proof -
    from update_firmware_start_fields [OF example_fresh_rw_start] obtain cfg_s h_s where
      start: "update_firmware_start example_machine example_quirks
                (example_fresh 0 example_new_rw) (example_flash_host example_new_rw 1)
              = Some (Inr (1, cfg_s, h_s))"
      and f: "cfg_image cfg_s = ?new" "image_current cfg_s = ?cur" "try_update cfg_s = 0"
        "legacy_update cfg_s = 0" "force_update cfg_s = 0" "emulation cfg_s = None"
        "initialized (system_properties cfg_s SYS_PROP_TPM_FWVER) = 1"
        "prop_value (system_properties cfg_s SYS_PROP_TPM_FWVER) = 0x10001"
      by blast
    have rk: "check_compatible_root_key example_machine (image_current cfg_s) (cfg_image cfg_s)
                = Some 0"
      using f example_fresh_checks(2) by simp
    have tk: "check_compatible_tpm_keys example_machine cfg_s (cfg_image cfg_s) h_s
                = Some (0, cfg_s, h_s)"
      unfolding f(1) by (rule tpm) (simp_all add: f)
    have p: "programmer ?new = ''host''" by (simp add: example_frid_image_def)
    have "\<exists>r cfg' h' evs.
               update_firmware example_machine example_quirks (example_fresh 0 example_new_rw)
                 (example_flash_host example_new_rw 1) = Some (r, cfg', h')
               \<and> events h' = events h_s @ evs
               \<and> (r = UPDATE_ERR_DONE \<or> r = UPDATE_ERR_WRITE_FIRMWARE)
               \<and> (r = UPDATE_ERR_DONE \<longrightarrow>
                    flash_writes evs
                      = map (\<lambda>n. (''host'', Some n, 0))
                          (rw_sections (example_frid_image ''new.bin'' example_new_rw)))"
    proof -
      have prem: "try_update cfg_s = 0 \<and> (1 :: cint) \<noteq> 0
          \<and> check_compatible_root_key example_machine (image_current cfg_s) (cfg_image cfg_s)
              = Some 0
          \<and> check_compatible_tpm_keys example_machine cfg_s (cfg_image cfg_s) h_s
              = Some (0, cfg_s, h_s)"
        using f(3) rk tk by simp
      from update_runs_compare [OF start f(4) f(5), where cfg_c = cfg_s and h_c = h_s,
          THEN conjunct1, THEN mp, OF prem, THEN conjunct2, THEN mp, OF f(6)]
      show ?thesis unfolding f(1) p .
    qed
    with start f show ?thesis by auto
  qed
  show ?thesis
    using b c example_fresh_fields example_fresh_runs by simp
qed

text \<open>
  The claim as stated fails. Run twice on a system that already holds the image to
  install, with \<^verbatim>\<open>force_update\<close> 0, the RW-only update returns UPDATE_ERR_DONE both
  times and its second run writes the four sections again. Run twice with the same
  inputs, the try-RW update of the example writes RW_SECTION_B again in its second run:
  the SELF slot, which it never writes, still differs.
\<close>

theorem second_run_writes_again:
  "force_update example_settled = 0
   \<and> map_option (\<lambda>(r1, r2, evs). (r1, r2, flash_writes evs))
       (run_twice example_vboot example_quirks example_settled example_host)
     = Some (UPDATE_ERR_DONE, UPDATE_ERR_DONE,
             [(''host'', Some ''RW_SECTION_A'', 0), (''host'', Some ''RW_SECTION_B'', 0),
              (''host'', Some ''RW_SHARED'', 0), (''host'', Some ''RW_LEGACY'', 0)])
   \<and> force_update (example_system\<lparr>try_update := 1\<rparr>) = 0
   \<and> map_option (\<lambda>(r1, r2, evs). (r1, r2, flash_writes evs))
       (run_twice example_vboot example_quirks (example_system\<lparr>try_update := 1\<rparr>)
          example_host)
     = Some (UPDATE_ERR_DONE, UPDATE_ERR_DONE, [(''host'', Some ''RW_SECTION_B'', 0)])"
  by code_simp

end
